theory Spec2Isabelle
  imports Main "HOL-Library.Word"
begin

section \<open>Errors\<close>

text \<open>
  Go errors are values. The sentinel errors of package \<open>domain\<close> and of package
  \<open>eventstore\<close> are the constructors below; the two \<open>ErrConcurrencyConflict\<close> variables
  (one per package) are different values. A failure reported by the database driver or the
  transport is a \<open>driver_error\<close>: a PostgreSQL error carrying its SQLSTATE code, or any other
  failure. \<open>ErrorsNew msg\<close> is an error made on the spot by \<open>errors.New\<close>, and
  \<open>Errorf msg e\<close> is \<open>fmt.Errorf(msg + ": %w", e)\<close>.
\<close>

datatype driver_error = PgError string | DriverFailure string

datatype error =
    ErrInvalidFabricCodeLength
  | ErrInvalidFabricCodePattern
  | ErrInvalidFabricNameLength
  | ErrRecordNotFound
  | ErrDuplicateFabricCode
  | ErrConcurrencyConflict
  | ErrFabricDeleted
  | eventstore_ErrConcurrencyConflict
  | DriverError driver_error
  | ErrorsNew string
  | Errorf string error

text \<open>\<open>errors.Is\<close>: the target is found anywhere along the chain of wrapped errors.\<close>

fun errors_Is :: "error \<Rightarrow> error \<Rightarrow> bool" where
  "errors_Is (Errorf msg e) target = (Errorf msg e = target \<or> errors_Is e target)"
| "errors_Is e target = (e = target)"

text \<open>\<open>errors.As(err, &pgErr) && pgErr.Code == "23505"\<close> (unique violation).\<close>

fun is_unique_violation :: "error \<Rightarrow> bool" where
  "is_unique_violation (Errorf msg e) = is_unique_violation e"
| "is_unique_violation (DriverError (PgError c)) = (c = ''23505'')"
| "is_unique_violation e = False"

section \<open>The fabric aggregate (package domain)\<close>

text \<open>Go's \<open>int\<close> on the 64-bit build target: \<open>+\<close> and \<open>-\<close> wrap around.\<close>

type_synonym go_int = "64 word"

abbreviation StatusActive :: string where "StatusActive \<equiv> ''ACTIVE''"
abbreviation StatusDeleted :: string where "StatusDeleted \<equiv> ''DELETED''"

text \<open>
  \<open>type Event any\<close> holds one of four structs. The fields are, in order, Code, Name,
  MeasureUnit, OfferStatus, Version (Code, Version for \<open>FabricDeleted\<close>).
\<close>

datatype Event =
    FabricCreated string string string string go_int
  | FabricUpdated string string string string go_int
  | FabricDeleted string go_int
  | FabricReactivated string string string string go_int

record Fabric =
  Code :: string
  Name :: string
  MeasureUnit :: string
  OfferStatus :: string
  Status :: string
  Version :: go_int
  events :: "Event list"

text \<open>
  The regular expression \<open>^[A-Z0-9]+$\<close>: one or more bytes, each in \<open>A-Z\<close> (65 to 90) or
  \<open>0-9\<close> (48 to 57). A Go string is a byte sequence and \<open>len\<close> counts bytes, as
  \<open>length\<close> does on a \<open>string\<close> here.
\<close>

definition class_A_Z_0_9 :: "char \<Rightarrow> bool" where
  "class_A_Z_0_9 c =
     (((65::nat) \<le> of_char c \<and> (of_char c :: nat) \<le> 90) \<or>
      ((48::nat) \<le> of_char c \<and> (of_char c :: nat) \<le> 57))"

fun pattern_MatchString :: "string \<Rightarrow> bool" where
  "pattern_MatchString [] = False"
| "pattern_MatchString [c] = class_A_Z_0_9 c"
| "pattern_MatchString (c # cs) = (class_A_Z_0_9 c \<and> pattern_MatchString cs)"

definition validateCode :: "string \<Rightarrow> error option" where
  "validateCode code =
     (if length code < 2 \<or> length code > 30 then Some ErrInvalidFabricCodeLength
      else if \<not> pattern_MatchString code then Some ErrInvalidFabricCodePattern
      else None)"

definition validateName :: "string \<Rightarrow> error option" where
  "validateName name =
     (if length name < 1 \<or> length name > 250 then Some ErrInvalidFabricNameLength
      else None)"

definition NewFabric :: "string \<Rightarrow> string \<Rightarrow> string \<Rightarrow> string \<Rightarrow> error + Fabric" where
  "NewFabric code name measureUnit offerStatus =
     (case validateCode code of
        Some err \<Rightarrow> Inl err
      | None \<Rightarrow>
         (case validateName name of
            Some err \<Rightarrow> Inl err
          | None \<Rightarrow>
             (let fabric = \<lparr>Code = code, Name = name, MeasureUnit = measureUnit,
                            OfferStatus = offerStatus, Status = StatusActive,
                            Version = 1, events = []\<rparr>;
                  event = FabricCreated (Code fabric) (Name fabric) (MeasureUnit fabric)
                            (OfferStatus fabric) (Version fabric)
              in Inr (fabric\<lparr>events := events fabric @ [event]\<rparr>))))"

text \<open>
  The methods have a pointer receiver and mutate it in place. The model returns the
  aggregate as it is after the call together with the returned error (\<open>None\<close> is \<open>nil\<close>).
\<close>

definition Fabric_UpdateFabric ::
  "Fabric \<Rightarrow> string \<Rightarrow> string \<Rightarrow> string \<Rightarrow> go_int \<Rightarrow> Fabric \<times> error option" where
  "Fabric_UpdateFabric f name measureUnit offerStatus version =
     (if Status f = StatusDeleted then (f, Some ErrFabricDeleted)
      else if Version f \<noteq> version then (f, Some ErrConcurrencyConflict)
      else (case validateName name of
              Some err \<Rightarrow> (f, Some err)
            | None \<Rightarrow>
               (let f1 = f\<lparr>Name := name, MeasureUnit := measureUnit,
                           OfferStatus := offerStatus, Version := Version f + 1\<rparr>;
                    event = FabricUpdated (Code f1) (Name f1) (MeasureUnit f1)
                              (OfferStatus f1) (Version f1)
                in (f1\<lparr>events := events f1 @ [event]\<rparr>, None))))"

definition Fabric_Delete :: "Fabric \<Rightarrow> go_int \<Rightarrow> Fabric \<times> error option" where
  "Fabric_Delete f version =
     (if Status f = StatusDeleted then (f, Some ErrFabricDeleted)
      else if Version f \<noteq> version then (f, Some ErrConcurrencyConflict)
      else (let f1 = f\<lparr>Status := StatusDeleted, Version := Version f + 1\<rparr>;
                event = FabricDeleted (Code f1) (Version f1)
            in (f1\<lparr>events := events f1 @ [event]\<rparr>, None)))"

definition Fabric_Reactivate ::
  "Fabric \<Rightarrow> string \<Rightarrow> string \<Rightarrow> string \<Rightarrow> go_int \<Rightarrow> Fabric \<times> error option" where
  "Fabric_Reactivate f name measureUnit offerStatus version =
     (if Status f = StatusActive then Fabric_UpdateFabric f name measureUnit offerStatus version
      else if Version f \<noteq> version then (f, Some ErrConcurrencyConflict)
      else (case validateName name of
              Some err \<Rightarrow> (f, Some err)
            | None \<Rightarrow>
               (let f1 = f\<lparr>Status := StatusActive, Name := name, MeasureUnit := measureUnit,
                           OfferStatus := offerStatus, Version := Version f + 1\<rparr>;
                    event = FabricReactivated (Code f1) (Name f1) (MeasureUnit f1)
                              (OfferStatus f1) (Version f1)
                in (f1\<lparr>events := events f1 @ [event]\<rparr>, None))))"

definition Fabric_Events :: "Fabric \<Rightarrow> Event list" where
  "Fabric_Events f = events f"

text \<open>
  A sequence of calls on one aggregate, as a caller holding the pointer makes them: each
  call acts on the aggregate the previous one left, whether it failed or not. \<open>run_ops\<close>
  also counts the calls that returned \<open>nil\<close>.
\<close>

datatype FabricOp =
    OpUpdateFabric string string string go_int
  | OpDelete go_int
  | OpReactivate string string string go_int

fun apply_op :: "Fabric \<Rightarrow> FabricOp \<Rightarrow> Fabric \<times> error option" where
  "apply_op f (OpUpdateFabric n m s v) = Fabric_UpdateFabric f n m s v"
| "apply_op f (OpDelete v) = Fabric_Delete f v"
| "apply_op f (OpReactivate n m s v) = Fabric_Reactivate f n m s v"

fun run_ops :: "Fabric \<Rightarrow> FabricOp list \<Rightarrow> Fabric \<times> nat" where
  "run_ops f [] = (f, 0)"
| "run_ops f (op # ops) =
     (case apply_op f op of
        (f1, None) \<Rightarrow> (case run_ops f1 ops of (f2, k) \<Rightarrow> (f2, Suc k))
      | (f1, Some err) \<Rightarrow> run_ops f1 ops)"

section \<open>Call provenance (package command)\<close>

text \<open>
  The only value this code reads from a \<open>context.Context\<close> is the one stored under
  \<open>commandSourceKey\<close>, whose type is private to the package. A context is modelled by that
  value: \<open>None\<close> when it was never set (as in \<open>context.Background()\<close>).
\<close>

type_synonym CommandSource = string
type_synonym go_context = "CommandSource option"

abbreviation CommandSourceREST :: CommandSource where "CommandSourceREST \<equiv> ''rest''"
abbreviation CommandSourceEvent :: CommandSource where "CommandSourceEvent \<equiv> ''event''"

definition context_Background :: go_context where
  "context_Background = None"

definition WithCommandSource :: "go_context \<Rightarrow> CommandSource \<Rightarrow> go_context" where
  "WithCommandSource ctx source = Some source"

definition GetCommandSource :: "go_context \<Rightarrow> CommandSource" where
  "GetCommandSource ctx = (case ctx of Some source \<Rightarrow> source | None \<Rightarrow> CommandSourceREST)"

definition IsFromREST :: "go_context \<Rightarrow> bool" where
  "IsFromREST ctx = (GetCommandSource ctx = CommandSourceREST)"

definition IsFromEvent :: "go_context \<Rightarrow> bool" where
  "IsFromEvent ctx = (GetCommandSource ctx = CommandSourceEvent)"

section \<open>Event envelopes (package messaging)\<close>

text \<open>
  \<open>Payload\<close> is an \<open>interface{}\<close>: \<open>None\<close> is \<open>nil\<close>. The command service puts a domain
  event there; an inbound message carries decoded JSON.
\<close>

record 'p EventEnvelope =
  EventID :: string
  EventType :: string
  AggregateID :: string
  AggregateType :: string
  AggregateVersion :: go_int
  EventVersion :: go_int
  Timestamp :: nat
  CorrelationID :: string
  CausationID :: string
  UserID :: string
  Payload :: "'p option"

text \<open>
  \<open>uuid.New()\<close> and \<open>time.Now()\<close> are read from the runtime: the \<open>i\<close>-th envelope built
  during a call gets the \<open>i\<close>-th identifier and clock reading. The logger taken from the
  context is the third ambient effect; a log call is modelled by its level and message.
  No caller passes an \<open>EnvelopeOption\<close> to \<open>NewEventEnvelope\<close>, so the three optional
  fields stay empty.
\<close>

record 'w runtime =
  uuid_New :: "nat \<Rightarrow> string"
  time_Now :: "nat \<Rightarrow> nat"
  logger :: "string \<Rightarrow> string \<Rightarrow> 'w \<Rightarrow> 'w"

definition NewEventEnvelope ::
  "'w runtime \<Rightarrow> nat \<Rightarrow> string \<Rightarrow> string \<Rightarrow> string \<Rightarrow> go_int \<Rightarrow> 'p \<Rightarrow> 'p EventEnvelope" where
  "NewEventEnvelope rt i eventType aggregateID aggregateType aggregateVersion payload =
     \<lparr>EventID = uuid_New rt i, EventType = eventType, AggregateID = aggregateID,
      AggregateType = aggregateType, AggregateVersion = aggregateVersion, EventVersion = 1,
      Timestamp = time_Now rt i, CorrelationID = [], CausationID = [], UserID = [],
      Payload = Some payload\<rparr>"

definition EventEnvelope_Validate :: "'p EventEnvelope \<Rightarrow> error option" where
  "EventEnvelope_Validate e =
     (if EventType e = [] then Some (ErrorsNew ''event type is required'')
      else if AggregateID e = [] then Some (ErrorsNew ''aggregate ID is required'')
      else if AggregateType e = [] then Some (ErrorsNew ''aggregate type is required'')
      else if Payload e = None then Some (ErrorsNew ''payload is required'')
      else None)"

section \<open>The validator helper\<close>

text \<open>
  Modelled from the spec: package \<open>internal/platform/validator\<close> is not among the sources.
  The spec has the inbound adapter drop a message that fails validation; the calls in the
  handler fix the rest: \<open>Check\<close> records a message under a key when its condition is
  false (the first message for a key is kept), \<open>Valid\<close> holds when nothing was recorded,
  and \<open>Matches\<close> is the regular expression's \<open>MatchString\<close>.
\<close>

type_synonym Validator = "(string \<times> string) list"

definition validator_New :: Validator where
  "validator_New = []"

definition validator_Check :: "Validator \<Rightarrow> bool \<Rightarrow> string \<Rightarrow> string \<Rightarrow> Validator" where
  "validator_Check v ok key message =
     (if ok \<or> key \<in> fst ` set v then v else v @ [(key, message)])"

definition validator_Valid :: "Validator \<Rightarrow> bool" where
  "validator_Valid v = (length v = 0)"

definition validator_Matches :: "string \<Rightarrow> bool" where
  "validator_Matches value = pattern_MatchString value"

section \<open>The fabrics table and its repository (package persistence)\<close>

text \<open>
  A row of table \<open>fabrics\<close> (migrations 000001 and 000003), without the generated \<open>id\<close>.
  The table is the list of its rows. Its one constraint after migration 000003 is the
  partial unique index \<open>fabrics_active_code_idx\<close>: no two rows with status \<open>ACTIVE\<close>
  share a code. A statement that would break it fails with SQLSTATE 23505 and changes
  nothing.
\<close>

record fabric_row =
  col_version :: go_int
  col_code :: string
  col_name :: string
  col_measure_unit :: string
  col_offer_status :: string
  col_status :: string

type_synonym fabrics_table = "fabric_row list"

definition fabrics_active_code_idx :: "fabrics_table \<Rightarrow> bool" where
  "fabrics_active_code_idx tbl =
     distinct (map col_code (filter (\<lambda>r. col_status r = ''ACTIVE'') tbl))"

text \<open>
  What the driver can report for one repository call, besides what the statement itself
  does to the table: a failure at \<open>BeginTx\<close>, \<open>PrepareContext\<close>, the query, the
  \<open>i\<close>-th \<open>ExecContext\<close>, \<open>RowsAffected\<close> or \<open>Commit\<close>. \<open>None\<close> everywhere is a
  healthy connection. A unique violation caused by a concurrent transaction is the fault
  \<open>PgError ''23505''\<close> at the statement.
\<close>

record db_faults =
  on_begin :: "driver_error option"
  on_prepare :: "driver_error option"
  on_query :: "driver_error option"
  on_exec :: "nat \<Rightarrow> driver_error option"
  on_rows_affected :: "driver_error option"
  on_commit :: "driver_error option"

definition no_faults :: db_faults where
  "no_faults = \<lparr>on_begin = None, on_prepare = None, on_query = None,
                 on_exec = (\<lambda>i. None), on_rows_affected = None, on_commit = None\<rparr>"

text \<open>\<open>UPDATE fabrics SET ... WHERE ...\<close> and \<open>INSERT INTO fabrics\<close>: the rows affected and
  the new table, or the driver's error.\<close>

definition sql_update ::
  "driver_error option \<Rightarrow> (fabric_row \<Rightarrow> bool) \<Rightarrow> (fabric_row \<Rightarrow> fabric_row) \<Rightarrow> fabrics_table
     \<Rightarrow> driver_error + (nat \<times> fabrics_table)" where
  "sql_update fault matches set_cols tbl =
     (case fault of
        Some d \<Rightarrow> Inl d
      | None \<Rightarrow>
         (let tbl' = map (\<lambda>r. if matches r then set_cols r else r) tbl
          in if fabrics_active_code_idx tbl' then Inr (length (filter matches tbl), tbl')
             else Inl (PgError ''23505'')))"

definition sql_insert ::
  "driver_error option \<Rightarrow> fabric_row \<Rightarrow> fabrics_table \<Rightarrow> driver_error + (nat \<times> fabrics_table)" where
  "sql_insert fault row tbl =
     (case fault of
        Some d \<Rightarrow> Inl d
      | None \<Rightarrow>
         (if fabrics_active_code_idx (tbl @ [row]) then Inr (1, tbl @ [row])
          else Inl (PgError ''23505'')))"

text \<open>\<open>Scan\<close> of the six selected columns into a fresh \<open>domain.Fabric\<close> (no pending events).\<close>

definition scan_fabric :: "fabric_row \<Rightarrow> Fabric" where
  "scan_fabric r =
     \<lparr>Code = col_code r, Name = col_name r, MeasureUnit = col_measure_unit r,
      OfferStatus = col_offer_status r, Status = col_status r, Version = col_version r,
      events = []\<rparr>"

definition FabricPostgresRepository_Save ::
  "db_faults \<Rightarrow> Fabric \<Rightarrow> fabrics_table \<Rightarrow> (error + Fabric) \<times> fabrics_table" where
  "FabricPostgresRepository_Save flt fabric tbl =
     (case on_begin flt of
        Some d \<Rightarrow> (Inl (Errorf ''could not begin transaction'' (DriverError d)), tbl)
      | None \<Rightarrow>
     (case on_query flt of
        Some d \<Rightarrow> (Inl (Errorf ''failed during select for update'' (DriverError d)), tbl)
      | None \<Rightarrow>
     (let found = find (\<lambda>r. col_code r = Code fabric) tbl;
          insert_fresh =
            (case sql_insert (on_exec flt 0)
                    \<lparr>col_version = Version fabric, col_code = Code fabric,
                     col_name = Name fabric, col_measure_unit = MeasureUnit fabric,
                     col_offer_status = OfferStatus fabric, col_status = Status fabric\<rparr> tbl of
               Inl d \<Rightarrow>
                 (if is_unique_violation (DriverError d) then (Inl ErrDuplicateFabricCode, tbl)
                  else (Inl (Errorf ''failed to insert new fabric'' (DriverError d)), tbl))
             | Inr (n, tbl') \<Rightarrow>
                 (case on_commit flt of
                    Some d \<Rightarrow> (Inl (DriverError d), tbl)
                  | None \<Rightarrow> (Inr fabric, tbl')))
      in case found of
           None \<Rightarrow> insert_fresh
         | Some r \<Rightarrow>
            (let existingFabric = scan_fabric r
             in if Status existingFabric = StatusActive then (Inl ErrDuplicateFabricCode, tbl)
                else if Status existingFabric = StatusDeleted then
                  (case Fabric_Reactivate existingFabric (Name fabric) (MeasureUnit fabric)
                          (OfferStatus fabric) (Version existingFabric) of
                     (existingFabric', Some err) \<Rightarrow> (Inl err, tbl)
                   | (existingFabric', None) \<Rightarrow>
                      (case sql_update (on_exec flt 0)
                              (\<lambda>r. col_code r = Code existingFabric')
                              (\<lambda>r. r\<lparr>col_name := Name existingFabric',
                                      col_measure_unit := MeasureUnit existingFabric',
                                      col_offer_status := OfferStatus existingFabric',
                                      col_status := Status existingFabric',
                                      col_version := Version existingFabric'\<rparr>) tbl of
                         Inl d \<Rightarrow> (Inl (Errorf ''failed to reactivate fabric'' (DriverError d)), tbl)
                       | Inr (n, tbl') \<Rightarrow>
                          (case on_commit flt of
                             Some d \<Rightarrow> (Inl (DriverError d), tbl)
                           | None \<Rightarrow> (Inr existingFabric', tbl'))))
                else insert_fresh))))"

definition FabricPostgresRepository_GetByCode ::
  "db_faults \<Rightarrow> string \<Rightarrow> fabrics_table \<Rightarrow> error + Fabric" where
  "FabricPostgresRepository_GetByCode flt code tbl =
     (case on_query flt of
        Some d \<Rightarrow> Inl (Errorf ''failed to get fabric by code'' (DriverError d))
      | None \<Rightarrow>
         (case find (\<lambda>r. col_code r = code \<and> col_status r = ''ACTIVE'') tbl of
            None \<Rightarrow> Inl (Errorf (''fabric with code '' @ code @ '' not found'') ErrRecordNotFound)
          | Some r \<Rightarrow> Inr (scan_fabric r)))"

definition FabricPostgresRepository_GetByCodeIncludingDeleted ::
  "db_faults \<Rightarrow> string \<Rightarrow> fabrics_table \<Rightarrow> error + Fabric" where
  "FabricPostgresRepository_GetByCodeIncludingDeleted flt code tbl =
     (case on_query flt of
        Some d \<Rightarrow> Inl (Errorf ''failed to get fabric by code'' (DriverError d))
      | None \<Rightarrow>
         (case find (\<lambda>r. col_code r = code) tbl of
            None \<Rightarrow> Inl (Errorf (''fabric with code '' @ code @ '' not found'') ErrRecordNotFound)
          | Some r \<Rightarrow> Inr (scan_fabric r)))"

text \<open>
  \<open>Update\<close> and \<open>Delete\<close> each run one statement outside any transaction; the statement
  has taken effect when \<open>RowsAffected\<close> is asked.
\<close>

definition FabricPostgresRepository_Update ::
  "db_faults \<Rightarrow> Fabric \<Rightarrow> fabrics_table \<Rightarrow> error option \<times> fabrics_table" where
  "FabricPostgresRepository_Update flt fabric tbl =
     (case sql_update (on_exec flt 0)
             (\<lambda>r. col_code r = Code fabric \<and> col_version r = Version fabric - 1 \<and>
                   col_status r = ''ACTIVE'')
             (\<lambda>r. r\<lparr>col_name := Name fabric, col_measure_unit := MeasureUnit fabric,
                     col_offer_status := OfferStatus fabric, col_version := Version fabric\<rparr>)
             tbl of
        Inl d \<Rightarrow> (Some (Errorf ''failed to update fabric'' (DriverError d)), tbl)
      | Inr (rowsAffected, tbl') \<Rightarrow>
         (case on_rows_affected flt of
            Some d \<Rightarrow> (Some (Errorf ''failed to get rows affected'' (DriverError d)), tbl')
          | None \<Rightarrow>
             (if rowsAffected = 0 then (Some ErrRecordNotFound, tbl') else (None, tbl'))))"

definition FabricPostgresRepository_Delete ::
  "db_faults \<Rightarrow> Fabric \<Rightarrow> fabrics_table \<Rightarrow> error option \<times> fabrics_table" where
  "FabricPostgresRepository_Delete flt fabric tbl =
     (case sql_update (on_exec flt 0)
             (\<lambda>r. col_code r = Code fabric \<and> col_version r = Version fabric)
             (\<lambda>r. r\<lparr>col_status := StatusDeleted\<rparr>)
             tbl of
        Inl d \<Rightarrow> (Some (Errorf ''failed to delete fabric'' (DriverError d)), tbl)
      | Inr (rowsAffected, tbl') \<Rightarrow>
         (case on_rows_affected flt of
            Some d \<Rightarrow> (Some (Errorf ''failed to get rows affected post-delete'' (DriverError d)), tbl')
          | None \<Rightarrow>
             (if rowsAffected = 0 then (Some ErrRecordNotFound, tbl') else (None, tbl'))))"

section \<open>The event store (package eventstore)\<close>

text \<open>
  Table \<open>events\<close> as the migration declares it: \<open>event_id UUID PRIMARY KEY\<close>; the columns
  \<open>aggregate_id\<close>, \<open>aggregate_type\<close> and \<open>event_type\<close>, each \<open>VARCHAR(255) NOT NULL\<close>;
  \<open>aggregate_version INT NOT NULL\<close>; \<open>payload JSONB NOT NULL\<close>; \<open>timestamp TIMESTAMPTZ NOT
  NULL\<close>; the nullable \<open>VARCHAR(255)\<close> columns \<open>correlation_id\<close> and \<open>user_id\<close>; and
  \<open>CONSTRAINT unique_aggregate_version UNIQUE (aggregate_id, aggregate_version)\<close>.

  A row holds the nine columns as they are stored: the \<open>event_id\<close> in the text PostgreSQL
  prints for a \<open>uuid\<close>, a payload that is never \<open>NULL\<close>. The Go values bound to the
  statement are strings, an \<open>int\<close>, a \<open>time.Time\<close> and the payload, so the only column that
  can receive \<open>NULL\<close> is \<open>payload\<close> (a \<open>nil\<close> interface); an empty string is not \<open>NULL\<close>.
\<close>

record 'p event_row =
  event_id :: string
  aggregate_id :: string
  aggregate_type :: string
  event_type :: string
  aggregate_version :: go_int
  payload :: 'p
  timestamp :: nat
  correlation_id :: string
  user_id :: string

text \<open>
  The driver sends a Go string as text, so every string argument passes the server's check
  of the encoding (UTF-8, the driver's client encoding): the bytes must be well-formed
  UTF-8 without the byte 0. \<open>utf8_walk k lo hi\<close> reads the bytes with \<open>k\<close> continuation
  bytes of the current character still to come, the next of them within \<open>lo..hi\<close>; it
  returns the number of characters.
\<close>

fun utf8_walk :: "nat \<Rightarrow> nat \<Rightarrow> nat \<Rightarrow> nat list \<Rightarrow> nat option" where
  "utf8_walk k lo hi [] = (if k = 0 then Some 0 else None)"
| "utf8_walk k lo hi (b # bs) =
     (if k = 0 then
        (if 1 \<le> b \<and> b \<le> 127 then map_option Suc (utf8_walk 0 128 191 bs)
         else if 194 \<le> b \<and> b \<le> 223 then map_option Suc (utf8_walk 1 128 191 bs)
         else if b = 224 then map_option Suc (utf8_walk 2 160 191 bs)
         else if b = 237 then map_option Suc (utf8_walk 2 128 159 bs)
         else if 225 \<le> b \<and> b \<le> 239 then map_option Suc (utf8_walk 2 128 191 bs)
         else if b = 240 then map_option Suc (utf8_walk 3 144 191 bs)
         else if 241 \<le> b \<and> b \<le> 243 then map_option Suc (utf8_walk 3 128 191 bs)
         else if b = 244 then map_option Suc (utf8_walk 3 128 143 bs)
         else None)
      else if lo \<le> b \<and> b \<le> hi then utf8_walk (k - 1) 128 191 bs
      else None)"

definition utf8_chars :: "string \<Rightarrow> nat option" where
  "utf8_chars s = utf8_walk 0 128 191 (map of_char s)"

text \<open>
  Column type \<open>UUID\<close>: the server reads sixteen pairs of hexadecimal digits, skipping one
  hyphen after every second pair but the last, optionally within braces, and nothing else
  (\<open>string_to_uuid\<close>); SQLSTATE 22P02 otherwise. Two texts of the same sixteen bytes are
  the same \<open>uuid\<close>: the value is kept in the one form the server prints, lower case in
  groups of 8, 4, 4, 4 and 12 digits, which is also the form \<open>uuid.New().String()\<close> gives.
\<close>

definition isxdigit :: "char \<Rightarrow> bool" where
  "isxdigit c = (c \<in> set ''0123456789abcdefABCDEF'')"

definition hex_lower :: "char \<Rightarrow> char" where
  "hex_lower c = (case map_of (zip ''ABCDEF'' ''abcdef'') c of Some l \<Rightarrow> l | None \<Rightarrow> c)"

fun uuid_scan :: "nat \<Rightarrow> string \<Rightarrow> (string \<times> string) option" where
  "uuid_scan 0 src = Some ([], src)"
| "uuid_scan (Suc n) (a # b # src) =
     (if isxdigit a \<and> isxdigit b then
        (let i = 15 - n;
             src' = (if take 1 src = ''-'' \<and> i mod 2 = 1 \<and> i < 15 then drop 1 src else src)
         in case uuid_scan n src' of
              None \<Rightarrow> None
            | Some (digits, rest) \<Rightarrow> Some (hex_lower a # hex_lower b # digits, rest))
      else None)"
| "uuid_scan (Suc n) _ = None"

definition uuid_out :: "string \<Rightarrow> string" where
  "uuid_out digits =
     take 8 digits @ ''-'' @ take 4 (drop 8 digits) @ ''-'' @ take 4 (drop 12 digits) @ ''-'' @
     take 4 (drop 16 digits) @ ''-'' @ drop 20 digits"

definition pg_uuid :: "string \<Rightarrow> driver_error + string" where
  "pg_uuid s =
     (if utf8_chars s = None then Inl (PgError ''22021'')
      else
        (let braces = (take 1 s = ''{'');
             src = (if braces then drop 1 s else s)
         in case uuid_scan 16 src of
              None \<Rightarrow> Inl (PgError ''22P02'')
            | Some (digits, rest) \<Rightarrow>
                if rest = (if braces then ''}'' else []) then Inr (uuid_out digits)
                else Inl (PgError ''22P02'')))"

text \<open>
  Column type \<open>VARCHAR(n)\<close>: at most \<open>n\<close> characters are stored. A longer value whose excess
  characters are all spaces is cut to \<open>n\<close> characters; any other longer value is refused
  with SQLSTATE 22001.
\<close>

definition pg_varchar :: "nat \<Rightarrow> string \<Rightarrow> driver_error + string" where
  "pg_varchar n s =
     (case utf8_chars s of
        None \<Rightarrow> Inl (PgError ''22021'')
      | Some m \<Rightarrow>
          if m \<le> n then Inr s
          else if list_all (\<lambda>c. c = CHR '' '') (drop (length s - (m - n)) s)
          then Inr (take (length s - (m - n)) s)
          else Inl (PgError ''22001''))"

text \<open>
  Column type \<open>INT\<close>: 32 bits, signed. A Go \<open>int\<close> outside that range never reaches the
  table; the driver refuses to encode it.
\<close>

definition pg_int4 :: "go_int \<Rightarrow> driver_error + go_int" where
  "pg_int4 v =
     (if - (2 ^ 31) \<le> sint v \<and> sint v < 2 ^ 31 then Inr v
      else Inl (DriverFailure ''value out of range for int4''))"

text \<open>
  What an \<open>INSERT\<close> makes of the nine arguments of \<open>Save\<close>'s statement: the row to store, or
  the refusal of a value by a column's type or by \<open>NOT NULL\<close> (SQLSTATE 23502). These checks
  come before the unique indexes are consulted; when several values of one envelope are
  refused, the first in the order below is reported. The JSON encoding of a payload that
  is not \<open>nil\<close> and the text of a \<open>time.Time\<close> are not interpreted: both are stored as they
  are, and a failure to encode them is among the failures \<open>on_exec\<close> stands for.
\<close>

definition events_values :: "'p EventEnvelope \<Rightarrow> driver_error + 'p event_row" where
  "events_values e =
     (case pg_int4 (AggregateVersion e) of Inl d \<Rightarrow> Inl d | Inr ver \<Rightarrow>
     (case pg_uuid (EventID e) of Inl d \<Rightarrow> Inl d | Inr eid \<Rightarrow>
     (case pg_varchar 255 (AggregateID e) of Inl d \<Rightarrow> Inl d | Inr aid \<Rightarrow>
     (case pg_varchar 255 (AggregateType e) of Inl d \<Rightarrow> Inl d | Inr atype \<Rightarrow>
     (case pg_varchar 255 (EventType e) of Inl d \<Rightarrow> Inl d | Inr etype \<Rightarrow>
     (case pg_varchar 255 (CorrelationID e) of Inl d \<Rightarrow> Inl d | Inr cid \<Rightarrow>
     (case pg_varchar 255 (UserID e) of Inl d \<Rightarrow> Inl d | Inr uid \<Rightarrow>
     (case Payload e of
        None \<Rightarrow> Inl (PgError ''23502'')
      | Some p \<Rightarrow>
          Inr \<lparr>event_id = eid, aggregate_id = aid, aggregate_type = atype, event_type = etype,
               aggregate_version = ver, payload = p, timestamp = Timestamp e,
               correlation_id = cid, user_id = uid\<rparr>))))))))"

text \<open>
  The primary key on \<open>event_id\<close> and the constraint \<open>unique_aggregate_version\<close>: an insert
  breaking either fails with SQLSTATE 23505.
\<close>

definition events_pkey_free :: "'p event_row \<Rightarrow> 'p event_row list \<Rightarrow> bool" where
  "events_pkey_free row tbl = (event_id row \<notin> set (map event_id tbl))"

definition unique_aggregate_version_free :: "'p event_row \<Rightarrow> 'p event_row list \<Rightarrow> bool" where
  "unique_aggregate_version_free row tbl =
     ((aggregate_id row, aggregate_version row) \<notin>
        set (map (\<lambda>r. (aggregate_id r, aggregate_version r)) tbl))"

text \<open>
  One execution of the prepared \<open>INSERT\<close> for an envelope: the driver's own failure if it
  reports one, else the refusal of a value, else the unique violation, else the table with
  the new row.
\<close>

definition events_insert ::
  "driver_error option \<Rightarrow> 'p EventEnvelope \<Rightarrow> 'p event_row list
     \<Rightarrow> driver_error + 'p event_row list" where
  "events_insert fault envelope tbl =
     (case fault of
        Some d \<Rightarrow> Inl d
      | None \<Rightarrow>
         (case events_values envelope of
            Inl d \<Rightarrow> Inl d
          | Inr row \<Rightarrow>
              if events_pkey_free row tbl \<and> unique_aggregate_version_free row tbl
              then Inr (tbl @ [row]) else Inl (PgError ''23505'')))"

text \<open>
  The loop over the batch inside the transaction: \<open>tx\<close> is the table as the transaction
  sees it, \<open>i\<close> counts the statements executed. The first failing statement ends the loop
  with the error \<open>Save\<close> returns.
\<close>

fun insert_envelopes ::
  "db_faults \<Rightarrow> nat \<Rightarrow> 'p EventEnvelope list \<Rightarrow> 'p event_row list \<Rightarrow> error + 'p event_row list" where
  "insert_envelopes flt i [] tx = Inr tx"
| "insert_envelopes flt i (envelope # rest) tx =
     (case events_insert (on_exec flt i) envelope tx of
        Inl d \<Rightarrow>
          (if is_unique_violation (DriverError d) then Inl eventstore_ErrConcurrencyConflict
           else Inl (Errorf (''could not execute statement for event '' @ EventID envelope)
                       (DriverError d)))
      | Inr tx' \<Rightarrow> insert_envelopes flt (Suc i) rest tx')"

text \<open>\<open>defer tx.Rollback()\<close>: every return before a successful \<open>Commit\<close> leaves the table
  as it was.\<close>

definition PostgresStore_Save ::
  "db_faults \<Rightarrow> 'p EventEnvelope list \<Rightarrow> 'p event_row list \<Rightarrow> error option \<times> 'p event_row list" where
  "PostgresStore_Save flt envelopes tbl =
     (case on_begin flt of
        Some d \<Rightarrow> (Some (Errorf ''could not begin transaction'' (DriverError d)), tbl)
      | None \<Rightarrow>
     (case on_prepare flt of
        Some d \<Rightarrow> (Some (Errorf ''could not prepare statement'' (DriverError d)), tbl)
      | None \<Rightarrow>
     (case insert_envelopes flt 0 envelopes tbl of
        Inl err \<Rightarrow> (Some err, tbl)
      | Inr tx \<Rightarrow>
         (case on_commit flt of
            Some d \<Rightarrow> (Some (DriverError d), tbl)
          | None \<Rightarrow> (None, tx)))))"

section \<open>The command service (package application)\<close>

text \<open>
  \<open>FabricService\<close> holds three interfaces and the channel name. Each interface method
  acts on the outside world (database, message broker), whose state has type \<open>'w\<close> and is
  passed through every call. Tracing spans are left out: they do not influence results.
\<close>

record 'w FabricService =
  commandRepo_Save :: "Fabric \<Rightarrow> 'w \<Rightarrow> (error + Fabric) \<times> 'w"
  commandRepo_GetByCode :: "string \<Rightarrow> 'w \<Rightarrow> (error + Fabric) \<times> 'w"
  commandRepo_GetByCodeIncludingDeleted :: "string \<Rightarrow> 'w \<Rightarrow> (error + Fabric) \<times> 'w"
  commandRepo_Update :: "Fabric \<Rightarrow> 'w \<Rightarrow> error option \<times> 'w"
  commandRepo_Delete :: "Fabric \<Rightarrow> 'w \<Rightarrow> error option \<times> 'w"
  publisher_Publish :: "string \<Rightarrow> Event EventEnvelope \<Rightarrow> 'w \<Rightarrow> error option \<times> 'w"
  eventStore_Save :: "Event EventEnvelope list \<Rightarrow> 'w \<Rightarrow> error option \<times> 'w"
  eventChannel :: string

text \<open>The three loops that turn the pending events into envelopes; \<open>i\<close> counts the
  envelopes built so far.\<close>

fun create_envelopes ::
  "'w runtime \<Rightarrow> Fabric \<Rightarrow> nat \<Rightarrow> Event list \<Rightarrow> Event EventEnvelope list" where
  "create_envelopes rt persistedFabric i [] = []"
| "create_envelopes rt persistedFabric i (event # rest) =
     (case event of
        FabricCreated c n m s v \<Rightarrow>
          NewEventEnvelope rt i ''app.fabric.created'' (Code persistedFabric) ''fabric''
            (Version persistedFabric) event
          # create_envelopes rt persistedFabric (Suc i) rest
      | FabricReactivated c n m s v \<Rightarrow>
          NewEventEnvelope rt i ''app.fabric.reactivated'' (Code persistedFabric) ''fabric''
            (Version persistedFabric) event
          # create_envelopes rt persistedFabric (Suc i) rest
      | _ \<Rightarrow> create_envelopes rt persistedFabric i rest)"

fun update_envelopes ::
  "'w runtime \<Rightarrow> Fabric \<Rightarrow> nat \<Rightarrow> Event list \<Rightarrow> Event EventEnvelope list" where
  "update_envelopes rt fabric i [] = []"
| "update_envelopes rt fabric i (event # rest) =
     (case event of
        FabricUpdated c n m s v \<Rightarrow>
          NewEventEnvelope rt i ''app.fabric.updated'' (Code fabric) ''Fabric''
            (Version fabric) event
          # update_envelopes rt fabric (Suc i) rest
      | _ \<Rightarrow> update_envelopes rt fabric i rest)"

fun delete_envelopes ::
  "'w runtime \<Rightarrow> Fabric \<Rightarrow> nat \<Rightarrow> Event list \<Rightarrow> Event EventEnvelope list" where
  "delete_envelopes rt fabric i [] = []"
| "delete_envelopes rt fabric i (event # rest) =
     (case event of
        FabricDeleted c v \<Rightarrow>
          NewEventEnvelope rt i ''app.fabric.deleted'' (Code fabric) ''Fabric''
            (Version fabric) event
          # delete_envelopes rt fabric (Suc i) rest
      | _ \<Rightarrow> delete_envelopes rt fabric i rest)"

text \<open>
  The loop \<open>for _, envelope := range envelopesToPublish\<close>: a failed \<open>Publish\<close> is logged
  with the message \<open>msg\<close> and the loop goes on. Nothing is returned.
\<close>

fun publish_envelopes ::
  "'w FabricService \<Rightarrow> 'w runtime \<Rightarrow> string \<Rightarrow> Event EventEnvelope list \<Rightarrow> 'w \<Rightarrow> 'w" where
  "publish_envelopes s rt msg [] w = w"
| "publish_envelopes s rt msg (envelope # rest) w =
     (case publisher_Publish s (eventChannel s) envelope w of
        (Some err, w') \<Rightarrow> publish_envelopes s rt msg rest (logger rt ''ERROR'' msg w')
      | (None, w') \<Rightarrow> publish_envelopes s rt msg rest w')"

definition FabricService_CreateFabric ::
  "'w FabricService \<Rightarrow> 'w runtime \<Rightarrow> go_context \<Rightarrow> string \<Rightarrow> string \<Rightarrow> string \<Rightarrow> string \<Rightarrow> 'w
     \<Rightarrow> (error + Fabric) \<times> 'w" where
  "FabricService_CreateFabric s rt ctx code name measureUnit offerStatus w =
     (case NewFabric code name measureUnit offerStatus of
        Inl err \<Rightarrow>
          (Inl (Errorf ''application service failed to create fabric'' err),
           logger rt ''ERROR'' ''fabric creation failed due to a domain error'' w)
      | Inr fabric \<Rightarrow>
     (case commandRepo_Save s fabric w of
        (Inl err, w1) \<Rightarrow>
          (Inl (Errorf ''failed to save fabric'' err),
           logger rt ''ERROR'' ''saving fabric failed'' w1)
      | (Inr persistedFabric, w1) \<Rightarrow>
     (let envelopesToPublish =
            create_envelopes rt persistedFabric 0 (Fabric_Events persistedFabric)
      in if length envelopesToPublish > 0 then
           (case eventStore_Save s envelopesToPublish w1 of
              (Some err, w2) \<Rightarrow>
                (Inl (Errorf ''failed to save to event store'' err),
                 logger rt ''ERROR'' ''saving to event store failed'' w2)
            | (None, w2) \<Rightarrow>
                (Inr persistedFabric,
                 if IsFromREST ctx
                 then publish_envelopes s rt ''publishing event envelope failed''
                        envelopesToPublish w2
                 else w2))
         else (Inr persistedFabric, w1))))"

definition FabricService_UpdateFabric ::
  "'w FabricService \<Rightarrow> 'w runtime \<Rightarrow> go_context \<Rightarrow> string \<Rightarrow> string \<Rightarrow> string \<Rightarrow> string \<Rightarrow> go_int
     \<Rightarrow> 'w \<Rightarrow> (error + Fabric) \<times> 'w" where
  "FabricService_UpdateFabric s rt ctx code name measureUnit offerStatus version w =
     (case commandRepo_GetByCode s code w of
        (Inl err, w1) \<Rightarrow> (Inl err, w1)
      | (Inr loaded, w1) \<Rightarrow>
     (case Fabric_UpdateFabric loaded name measureUnit offerStatus version of
        (fabric, Some err) \<Rightarrow> (Inl err, w1)
      | (fabric, None) \<Rightarrow>
     (case commandRepo_Update s fabric w1 of
        (Some err, w2) \<Rightarrow>
          (Inl (Errorf ''failed to update fabric in repo'' err),
           logger rt ''ERROR'' ''updating fabric failed'' w2)
      | (None, w2) \<Rightarrow>
     (let envelopesToPublish = update_envelopes rt fabric 0 (Fabric_Events fabric)
      in if length envelopesToPublish > 0 then
           (case eventStore_Save s envelopesToPublish w2 of
              (Some err, w3) \<Rightarrow>
                (Inl (Errorf ''failed to save update event to event store'' err),
                 logger rt ''ERROR'' ''saving update event to event store failed'' w3)
            | (None, w3) \<Rightarrow>
                (Inr fabric,
                 if IsFromREST ctx
                 then publish_envelopes s rt ''publishing fabric updated event failed''
                        envelopesToPublish w3
                 else w3))
         else (Inr fabric, w2)))))"

definition FabricService_DeleteFabric ::
  "'w FabricService \<Rightarrow> 'w runtime \<Rightarrow> go_context \<Rightarrow> string \<Rightarrow> go_int \<Rightarrow> 'w \<Rightarrow> error option \<times> 'w" where
  "FabricService_DeleteFabric s rt ctx code version w =
     (case commandRepo_GetByCode s code w of
        (Inl err, w1) \<Rightarrow> (Some err, w1)
      | (Inr loaded, w1) \<Rightarrow>
     (case Fabric_Delete loaded version of
        (fabric, Some err) \<Rightarrow> (Some err, w1)
      | (fabric, None) \<Rightarrow>
     (case commandRepo_Delete s fabric w1 of
        (Some err, w2) \<Rightarrow>
          (Some (Errorf ''failed to delete fabric in repo'' err),
           logger rt ''ERROR'' ''deleting fabric failed'' w2)
      | (None, w2) \<Rightarrow>
     (let envelopesToPublish = delete_envelopes rt fabric 0 (Fabric_Events fabric)
      in if length envelopesToPublish > 0 then
           (case eventStore_Save s envelopesToPublish w2 of
              (Some err, w3) \<Rightarrow>
                (Some (Errorf ''failed to save delete event to event store'' err),
                 logger rt ''ERROR'' ''saving delete event failed'' w3)
            | (None, w3) \<Rightarrow>
                (None,
                 if IsFromREST ctx
                 then publish_envelopes s rt ''publishing fabric deleted event failed''
                        envelopesToPublish w3
                 else w3))
         else (None, w2)))))"

definition FabricService_GetByCode ::
  "'w FabricService \<Rightarrow> go_context \<Rightarrow> string \<Rightarrow> 'w \<Rightarrow> (error + Fabric) \<times> 'w" where
  "FabricService_GetByCode s ctx code w = commandRepo_GetByCode s code w"

section \<open>The inbound event adapter (package handler)\<close>

text \<open>The interface \<open>FabricCommandService\<close> the handlers are written against.\<close>

record 'w FabricCommandService =
  service_CreateFabric ::
    "go_context \<Rightarrow> string \<Rightarrow> string \<Rightarrow> string \<Rightarrow> string \<Rightarrow> 'w \<Rightarrow> (error + Fabric) \<times> 'w"
  service_UpdateFabric ::
    "go_context \<Rightarrow> string \<Rightarrow> string \<Rightarrow> string \<Rightarrow> string \<Rightarrow> go_int \<Rightarrow> 'w \<Rightarrow> (error + Fabric) \<times> 'w"
  service_DeleteFabric :: "go_context \<Rightarrow> string \<Rightarrow> go_int \<Rightarrow> 'w \<Rightarrow> error option \<times> 'w"
  service_GetByCode :: "go_context \<Rightarrow> string \<Rightarrow> 'w \<Rightarrow> (error + Fabric) \<times> 'w"

record erpFabricEvent =
  erp_Code :: string
  erp_Name :: string
  erp_MeasureUnit :: string
  erp_OfferStatus :: string

text \<open>
  The payload of a received envelope is JSON: it either unmarshals into an
  \<open>erpFabricEvent\<close> or it does not. (The fields of \<open>erpFabricEvent\<close> carry the prefix
  \<open>erp_\<close> and the columns of the tables the prefix \<open>col_\<close> or their SQL names, since the
  aggregate's record already has fields \<open>Code\<close>, \<open>Name\<close>, ...)
\<close>

datatype inbound_payload = Structured erpFabricEvent | Unstructured

text \<open>
  \<open>json.Marshal\<close> of the payload followed by \<open>json.Unmarshal\<close> into a zero
  \<open>erpFabricEvent\<close>: a \<open>nil\<close> payload marshals to \<open>null\<close>, which leaves the struct at its
  zero value without an error.
\<close>

definition unmarshal_erpFabricEvent :: "inbound_payload option \<Rightarrow> erpFabricEvent option" where
  "unmarshal_erpFabricEvent decoded =
     (case decoded of
        None \<Rightarrow> Some \<lparr>erp_Code = [], erp_Name = [], erp_MeasureUnit = [], erp_OfferStatus = []\<rparr>
      | Some Unstructured \<Rightarrow> None
      | Some (Structured erpEvent) \<Rightarrow> Some erpEvent)"

definition withDefaults :: "erpFabricEvent \<Rightarrow> erpFabricEvent" where
  "withDefaults event =
     (let e1 = (if erp_MeasureUnit event = [] then event\<lparr>erp_MeasureUnit := ''MB''\<rparr> else event)
      in if erp_OfferStatus e1 = [] then e1\<lparr>erp_OfferStatus := ''ACTIVE''\<rparr> else e1)"

definition validateCreateFabricEvent :: "Validator \<Rightarrow> erpFabricEvent \<Rightarrow> Validator" where
  "validateCreateFabricEvent v event =
     (let v1 = validator_Check v (erp_Code event \<noteq> []) ''code'' ''code must be provided'';
          v2 = validator_Check v1 (length (erp_Code event) \<ge> 2) ''code''
                 ''code must be between 2 and 30 characters long'';
          v3 = validator_Check v2 (length (erp_Code event) \<le> 30) ''code''
                 ''code must be between 2 and 30 characters long'';
          v4 = validator_Check v3 (validator_Matches (erp_Code event)) ''code''
                 ''code must only contain uppercase letters and numbers'';
          v5 = validator_Check v4 (erp_Name event \<noteq> []) ''name'' ''name must be provided''
      in validator_Check v5 (length (erp_Name event) \<le> 250) ''name''
           ''name must not be more than 250 characters long'')"

definition validateUpdateFabricEvent :: "Validator \<Rightarrow> go_int \<Rightarrow> erpFabricEvent \<Rightarrow> Validator" where
  "validateUpdateFabricEvent v version event =
     (let v1 = validator_Check v (0 <s version) ''version''
                 ''version must be provided and greater than 0'';
          v2 = validator_Check v1 (erp_Name event \<noteq> []) ''name'' ''name must be provided''
      in validator_Check v2 (length (erp_Name event) \<le> 250) ''name''
           ''name must not be more than 250 characters long'')"

definition FabricEventHandler_handleCreateEvent ::
  "'w FabricCommandService \<Rightarrow> 'w runtime \<Rightarrow> go_context \<Rightarrow> erpFabricEvent \<Rightarrow> string \<Rightarrow> 'w
     \<Rightarrow> error option \<times> 'w" where
  "FabricEventHandler_handleCreateEvent h rt ctx0 event0 eventID w =
     (let ctx = WithCommandSource ctx0 CommandSourceEvent;
          event = withDefaults event0;
          v = validateCreateFabricEvent validator_New event
      in if \<not> validator_Valid v
         then (None, logger rt ''ERROR'' ''Invalid fabric data from ERP event'' w)
         else
           (case service_CreateFabric h ctx (erp_Code event) (erp_Name event)
                   (erp_MeasureUnit event) (erp_OfferStatus event) w of
              (Inl err, w1) \<Rightarrow>
                (if errors_Is err ErrDuplicateFabricCode
                 then (None, logger rt ''INFO'' ''Fabric already exists, skipping'' w1)
                 else if errors_Is err ErrInvalidFabricCodeLength \<or>
                         errors_Is err ErrInvalidFabricCodePattern \<or>
                         errors_Is err ErrInvalidFabricNameLength
                 then (None, logger rt ''ERROR'' ''Invalid fabric data from ERP'' w1)
                 else (Some err, logger rt ''ERROR'' ''Failed to create fabric'' w1))
            | (Inr created, w1) \<Rightarrow>
                (None, logger rt ''INFO'' ''Fabric created from event'' w1)))"

definition FabricEventHandler_handleUpdateEvent ::
  "'w FabricCommandService \<Rightarrow> 'w runtime \<Rightarrow> go_context \<Rightarrow> erpFabricEvent \<Rightarrow> string \<Rightarrow> go_int
     \<Rightarrow> 'w \<Rightarrow> error option \<times> 'w" where
  "FabricEventHandler_handleUpdateEvent h rt ctx0 event0 eventID version w =
     (let ctx = WithCommandSource ctx0 CommandSourceEvent;
          event = withDefaults event0;
          v = validateUpdateFabricEvent validator_New version event
      in if \<not> validator_Valid v
         then (None, logger rt ''ERROR'' ''Invalid fabric data from ERP event'' w)
         else
           (case service_UpdateFabric h ctx (erp_Code event) (erp_Name event)
                   (erp_MeasureUnit event) (erp_OfferStatus event) (version - 1) w of
              (Inl err, w1) \<Rightarrow>
                (if errors_Is err ErrRecordNotFound
                 then (None, logger rt ''WARN''
                               ''Fabric not found for update, might need to create first'' w1)
                 else if errors_Is err ErrConcurrencyConflict
                 then (None, logger rt ''WARN''
                               ''Version conflict, event might be out of order'' w1)
                 else if errors_Is err ErrInvalidFabricNameLength
                 then (None, logger rt ''ERROR'' ''Invalid fabric data from ERP'' w1)
                 else (Some err, logger rt ''ERROR'' ''Failed to update fabric'' w1))
            | (Inr updated, w1) \<Rightarrow>
                (None, logger rt ''INFO'' ''Fabric updated from event'' w1)))"

definition FabricEventHandler_handleDeleteEvent ::
  "'w FabricCommandService \<Rightarrow> 'w runtime \<Rightarrow> go_context \<Rightarrow> erpFabricEvent \<Rightarrow> string \<Rightarrow> go_int
     \<Rightarrow> 'w \<Rightarrow> error option \<times> 'w" where
  "FabricEventHandler_handleDeleteEvent h rt ctx0 event eventID version w =
     (let ctx = WithCommandSource ctx0 CommandSourceEvent
      in case service_DeleteFabric h ctx (erp_Code event) version w of
           (Some err, w1) \<Rightarrow>
             (if errors_Is err ErrRecordNotFound
              then (None, logger rt ''INFO'' ''Fabric already deleted or not found'' w1)
              else if errors_Is err ErrConcurrencyConflict
              then (None, logger rt ''WARN'' ''Version conflict on delete'' w1)
              else (Some err, logger rt ''ERROR'' ''Failed to delete fabric'' w1))
         | (None, w1) \<Rightarrow> (None, logger rt ''INFO'' ''Fabric deleted from event'' w1))"

definition FabricEventHandler_adaptEventToCommand ::
  "'w FabricCommandService \<Rightarrow> 'w runtime \<Rightarrow> go_context \<Rightarrow> inbound_payload EventEnvelope \<Rightarrow> 'w
     \<Rightarrow> error option \<times> 'w" where
  "FabricEventHandler_adaptEventToCommand h rt ctx envelope w =
     (case unmarshal_erpFabricEvent (Payload envelope) of
        None \<Rightarrow>
          (None, logger rt ''ERROR'' ''Failed to unmarshal payload to erpFabricEvent'' w)
      | Some erpEvent \<Rightarrow>
          (if EventType envelope = ''erp.fabric.created''
           then FabricEventHandler_handleCreateEvent h rt ctx erpEvent (EventID envelope) w
           else if EventType envelope = ''erp.fabric.updated''
           then FabricEventHandler_handleUpdateEvent h rt ctx erpEvent (EventID envelope)
                  (AggregateVersion envelope) w
           else if EventType envelope = ''erp.fabric.deleted''
           then FabricEventHandler_handleDeleteEvent h rt ctx erpEvent (EventID envelope)
                  (AggregateVersion envelope) w
           else (None, logger rt ''WARN'' ''Received unknown ERP event, discarding'' w)))"

text \<open>\<open>HandleMessage\<close>: \<open>None\<close> stands for bytes that do not unmarshal into an envelope.\<close>

definition FabricEventHandler_HandleMessage ::
  "'w FabricCommandService \<Rightarrow> 'w runtime \<Rightarrow> go_context \<Rightarrow> string
     \<Rightarrow> inbound_payload EventEnvelope option \<Rightarrow> 'w \<Rightarrow> error option \<times> 'w" where
  "FabricEventHandler_HandleMessage h rt ctx subject message w =
     (case message of
        None \<Rightarrow> (None, logger rt ''ERROR'' ''Failed to unmarshal event envelope'' w)
      | Some envelope \<Rightarrow>
         (case EventEnvelope_Validate envelope of
            Some err \<Rightarrow> (None, logger rt ''ERROR'' ''Invalid event envelope'' w)
          | None \<Rightarrow> FabricEventHandler_adaptEventToCommand h rt ctx envelope w))"

section \<open>The wiring of package bootstrap\<close>

text \<open>
  \<open>NewRepositories\<close> and \<open>NewServices\<close> give the command service the Postgres
  repository, the Postgres event store (on the same database) and the NATS publisher.
  The world they act on: the two tables, the messages handed to the broker, and the log.
\<close>

record world =
  fabrics :: fabrics_table
  events_table :: "Event event_row list"
  nats_published :: "(string \<times> Event EventEnvelope) list"
  log_lines :: "(string \<times> string) list"

text \<open>The failures the environment injects during one command: into the repository's
  calls, into the event store's call, and into the broker connection's \<open>Publish\<close>.\<close>

record faults =
  repo_faults :: db_faults
  store_faults :: db_faults
  publish_fault :: "Event EventEnvelope \<Rightarrow> driver_error option"

definition NatsPublisher_Publish ::
  "driver_error option \<Rightarrow> string \<Rightarrow> 'p EventEnvelope \<Rightarrow> (string \<times> 'p EventEnvelope) list
     \<Rightarrow> error option \<times> (string \<times> 'p EventEnvelope) list" where
  "NatsPublisher_Publish fault subject envelope published =
     (case EventEnvelope_Validate envelope of
        Some err \<Rightarrow> (Some (Errorf ''invalid event envelope'' err), published)
      | None \<Rightarrow>
         (case fault of
            Some d \<Rightarrow>
              (Some (Errorf (''failed to publish message to subject '' @ [CHR 0x27] @ subject @
                            [CHR 0x27]) (DriverError d)),
               published)
          | None \<Rightarrow> (None, published @ [(subject, envelope)])))"

definition NewFabricCommandService :: "faults \<Rightarrow> world FabricService" where
  "NewFabricCommandService flt =
     \<lparr>commandRepo_Save = (\<lambda>fabric w.
        case FabricPostgresRepository_Save (repo_faults flt) fabric (fabrics w) of
          (r, tbl) \<Rightarrow> (r, w\<lparr>fabrics := tbl\<rparr>)),
      commandRepo_GetByCode = (\<lambda>code w.
        (FabricPostgresRepository_GetByCode (repo_faults flt) code (fabrics w), w)),
      commandRepo_GetByCodeIncludingDeleted = (\<lambda>code w.
        (FabricPostgresRepository_GetByCodeIncludingDeleted (repo_faults flt) code (fabrics w), w)),
      commandRepo_Update = (\<lambda>fabric w.
        case FabricPostgresRepository_Update (repo_faults flt) fabric (fabrics w) of
          (r, tbl) \<Rightarrow> (r, w\<lparr>fabrics := tbl\<rparr>)),
      commandRepo_Delete = (\<lambda>fabric w.
        case FabricPostgresRepository_Delete (repo_faults flt) fabric (fabrics w) of
          (r, tbl) \<Rightarrow> (r, w\<lparr>fabrics := tbl\<rparr>)),
      publisher_Publish = (\<lambda>subject envelope w.
        case NatsPublisher_Publish (publish_fault flt envelope) subject envelope
               (nats_published w) of
          (r, p) \<Rightarrow> (r, w\<lparr>nats_published := p\<rparr>)),
      eventStore_Save = (\<lambda>envelopes w.
        case PostgresStore_Save (store_faults flt) envelopes (events_table w) of
          (r, tbl) \<Rightarrow> (r, w\<lparr>events_table := tbl\<rparr>)),
      eventChannel = ''app.fabric''\<rparr>"

definition world_runtime :: "(nat \<Rightarrow> string) \<Rightarrow> (nat \<Rightarrow> nat) \<Rightarrow> world runtime" where
  "world_runtime ids clock =
     \<lparr>uuid_New = ids, time_Now = clock,
      logger = (\<lambda>level msg w. w\<lparr>log_lines := log_lines w @ [(level, msg)]\<rparr>)\<rparr>"

text \<open>The command service as the handlers see it (\<open>bootstrap.Services\<close>).\<close>

definition Services_FabricCommandService ::
  "'w FabricService \<Rightarrow> 'w runtime \<Rightarrow> 'w FabricCommandService" where
  "Services_FabricCommandService s rt =
     \<lparr>service_CreateFabric = FabricService_CreateFabric s rt,
      service_UpdateFabric = FabricService_UpdateFabric s rt,
      service_DeleteFabric = FabricService_DeleteFabric s rt,
      service_GetByCode = FabricService_GetByCode s\<rparr>"

section \<open>Test doubles\<close>

text \<open>
  \<open>mockFabricCommandService\<close> of the handler tests returns \<open>errToReturn\<close> from every
  method and notes that the method was called. Here it notes the call with its arguments,
  in a world that is the list of calls made.
\<close>

datatype service_call =
    CreateFabricCall go_context string string string string
  | UpdateFabricCall go_context string string string string go_int
  | DeleteFabricCall go_context string go_int
  | GetByCodeCall go_context string

definition mockFabricCommandService :: "error option \<Rightarrow> (service_call list) FabricCommandService" where
  "mockFabricCommandService errToReturn =
     \<lparr>service_CreateFabric = (\<lambda>ctx code name measureUnit offerStatus calls.
        ((case errToReturn of
            Some err \<Rightarrow> Inl err
          | None \<Rightarrow> Inr \<lparr>Code = code, Name = [], MeasureUnit = [], OfferStatus = [],
                         Status = [], Version = 0, events = []\<rparr>),
         calls @ [CreateFabricCall ctx code name measureUnit offerStatus])),
      service_UpdateFabric = (\<lambda>ctx code name measureUnit offerStatus version calls.
        ((case errToReturn of
            Some err \<Rightarrow> Inl err
          | None \<Rightarrow> Inr \<lparr>Code = code, Name = name, MeasureUnit = [], OfferStatus = [],
                         Status = [], Version = 0, events = []\<rparr>),
         calls @ [UpdateFabricCall ctx code name measureUnit offerStatus version])),
      service_DeleteFabric = (\<lambda>ctx code version calls.
        (errToReturn, calls @ [DeleteFabricCall ctx code version])),
      service_GetByCode = (\<lambda>ctx code calls.
        ((case errToReturn of
            Some err \<Rightarrow> Inl err
          | None \<Rightarrow> Inr \<lparr>Code = code, Name = [], MeasureUnit = [], OfferStatus = [],
                         Status = [], Version = 0, events = []\<rparr>),
         calls @ [GetByCodeCall ctx code]))\<rparr>"

definition silent_runtime :: "'w runtime" where
  "silent_runtime = \<lparr>uuid_New = (\<lambda>i. ''id''), time_Now = (\<lambda>i. 0), logger = (\<lambda>level msg w. w)\<rparr>"

section \<open>Classes of failures\<close>

text \<open>
  The innermost error of a chain of wrapped errors, and the failures that come from the
  infrastructure: those whose innermost error was reported by the database driver or the
  transport, not raised by a rule of the code itself.
\<close>

fun root_cause :: "error \<Rightarrow> error" where
  "root_cause (Errorf msg e) = root_cause e"
| "root_cause e = e"

definition infrastructure_failure :: "error \<Rightarrow> bool" where
  "infrastructure_failure e = (case root_cause e of DriverError d \<Rightarrow> True | _ \<Rightarrow> False)"

section \<open>Properties of the aggregate\<close>

lemma class_A_Z_0_9_iff:
  "class_A_Z_0_9 c \<longleftrightarrow> c \<in> set ''ABCDEFGHIJKLMNOPQRSTUVWXYZ0123456789''"
proof -
  obtain b0 b1 b2 b3 b4 b5 b6 b7 where c: "c = Char b0 b1 b2 b3 b4 b5 b6 b7"
    by (cases c) blast
  show ?thesis
    unfolding c class_A_Z_0_9_def
    by (cases b0; cases b1; cases b2; cases b3; cases b4; cases b5; cases b6; cases b7) simp_all
qed

lemma pattern_MatchString_iff:
  "pattern_MatchString cs \<longleftrightarrow> cs \<noteq> [] \<and> (\<forall>c\<in>set cs. class_A_Z_0_9 c)"
  by (induction cs rule: pattern_MatchString.induct) auto

lemma validateCode_cases:
  "validateCode code =
     (if length code < 2 \<or> 30 < length code then Some ErrInvalidFabricCodeLength
      else if set code \<subseteq> set ''ABCDEFGHIJKLMNOPQRSTUVWXYZ0123456789'' then None
      else Some ErrInvalidFabricCodePattern)"
proof -
  define S where "S = set ''ABCDEFGHIJKLMNOPQRSTUVWXYZ0123456789''"
  have m: "pattern_MatchString code \<longleftrightarrow> code \<noteq> [] \<and> (\<forall>c\<in>set code. c \<in> S)"
    unfolding S_def by (simp only: pattern_MatchString_iff class_A_Z_0_9_iff)
  have "validateCode code =
     (if length code < 2 \<or> 30 < length code then Some ErrInvalidFabricCodeLength
      else if set code \<subseteq> S then None
      else Some ErrInvalidFabricCodePattern)"
    unfolding validateCode_def m by (auto simp: subset_iff)
  then show ?thesis unfolding S_def .
qed

lemma validateName_cases:
  "validateName name =
     (if 1 \<le> length name \<and> length name \<le> 250 then None
      else Some ErrInvalidFabricNameLength)"
  by (cases name) (auto simp: validateName_def)

text \<open>
  C8. Creation succeeds for every code of 2 to 30 bytes that are all upper-case letters or
  digits and every name of 1 to 250 bytes, and then returns the aggregate with the input
  fields, version 1, status ACTIVE and the single pending event \<open>FabricCreated\<close> carrying
  those fields. A code of another length fails with \<open>ErrInvalidFabricCodeLength\<close>, a code of
  the right length with a byte outside \<open>A-Z0-9\<close> with \<open>ErrInvalidFabricCodePattern\<close>, a
  valid code with a name of another length with \<open>ErrInvalidFabricNameLength\<close>; no
  aggregate is returned then. Lengths are byte counts, as Go's \<open>len\<close>.
\<close>

theorem NewFabric_validates:
  "(2 \<le> length code \<and> length code \<le> 30 \<and>
    set code \<subseteq> set ''ABCDEFGHIJKLMNOPQRSTUVWXYZ0123456789'' \<and>
    1 \<le> length name \<and> length name \<le> 250 \<longrightarrow>
      NewFabric code name measureUnit offerStatus =
        Inr \<lparr>Code = code, Name = name, MeasureUnit = measureUnit, OfferStatus = offerStatus,
             Status = ''ACTIVE'', Version = 1,
             events = [FabricCreated code name measureUnit offerStatus 1]\<rparr>) \<and>
   (length code < 2 \<or> 30 < length code \<longrightarrow>
      NewFabric code name measureUnit offerStatus = Inl ErrInvalidFabricCodeLength) \<and>
   (2 \<le> length code \<and> length code \<le> 30 \<and>
    \<not> set code \<subseteq> set ''ABCDEFGHIJKLMNOPQRSTUVWXYZ0123456789'' \<longrightarrow>
      NewFabric code name measureUnit offerStatus = Inl ErrInvalidFabricCodePattern) \<and>
   (2 \<le> length code \<and> length code \<le> 30 \<and>
    set code \<subseteq> set ''ABCDEFGHIJKLMNOPQRSTUVWXYZ0123456789'' \<and>
    (length name < 1 \<or> 250 < length name) \<longrightarrow>
      NewFabric code name measureUnit offerStatus = Inl ErrInvalidFabricNameLength)"
  unfolding NewFabric_def validateCode_cases validateName_cases
  by (auto simp del: list.set simp: Let_def)

theorem NewFabric_validates_witness:
  "NewFabric ''FAB1'' ''Cotton'' ''m'' ''available'' =
     Inr \<lparr>Code = ''FAB1'', Name = ''Cotton'', MeasureUnit = ''m'', OfferStatus = ''available'',
          Status = ''ACTIVE'', Version = 1,
          events = [FabricCreated ''FAB1'' ''Cotton'' ''m'' ''available'' 1]\<rparr> \<and>
   NewFabric ''F'' ''Cotton'' ''m'' ''available'' = Inl ErrInvalidFabricCodeLength \<and>
   NewFabric ''fab-1'' ''Cotton'' ''m'' ''available'' = Inl ErrInvalidFabricCodePattern \<and>
   NewFabric ''FAB1'' [] ''m'' ''available'' = Inl ErrInvalidFabricNameLength"
  using NewFabric_validates [of "''FAB1''" "''Cotton''" "''m''" "''available''"]
        NewFabric_validates [of "''F''" "''Cotton''" "''m''" "''available''"]
        NewFabric_validates [of "''fab-1''" "''Cotton''" "''m''" "''available''"]
        NewFabric_validates [of "''FAB1''" "[]" "''m''" "''available''"]
  by simp

text \<open>
  C9. On an aggregate whose status is ACTIVE, \<open>Reactivate\<close> leaves the same aggregate
  (fields, status, version, pending events) and returns the same error or \<open>nil\<close> as
  \<open>UpdateFabric\<close> with the same arguments.
\<close>

theorem Reactivate_active_is_UpdateFabric:
  "Status f = ''ACTIVE'' \<Longrightarrow>
     Fabric_Reactivate f name measureUnit offerStatus version =
     Fabric_UpdateFabric f name measureUnit offerStatus version"
  by (simp add: Fabric_Reactivate_def)

theorem Reactivate_active_is_UpdateFabric_witness:
  "Status \<lparr>Code = ''FAB1'', Name = ''Cotton'', MeasureUnit = ''m'', OfferStatus = ''available'',
           Status = ''ACTIVE'', Version = 1, events = []\<rparr> = ''ACTIVE'' \<and>
   Fabric_Reactivate
     \<lparr>Code = ''FAB1'', Name = ''Cotton'', MeasureUnit = ''m'', OfferStatus = ''available'',
      Status = ''ACTIVE'', Version = 1, events = []\<rparr> ''Silk'' ''cm'' ''new'' 1 =
   Fabric_UpdateFabric
     \<lparr>Code = ''FAB1'', Name = ''Cotton'', MeasureUnit = ''m'', OfferStatus = ''available'',
      Status = ''ACTIVE'', Version = 1, events = []\<rparr> ''Silk'' ''cm'' ''new'' 1 \<and>
   Fabric_UpdateFabric
     \<lparr>Code = ''FAB1'', Name = ''Cotton'', MeasureUnit = ''m'', OfferStatus = ''available'',
      Status = ''ACTIVE'', Version = 1, events = []\<rparr> ''Silk'' ''cm'' ''new'' 1 =
   (\<lparr>Code = ''FAB1'', Name = ''Silk'', MeasureUnit = ''cm'', OfferStatus = ''new'',
      Status = ''ACTIVE'', Version = 2,
      events = [FabricUpdated ''FAB1'' ''Silk'' ''cm'' ''new'' 2]\<rparr>, None)"
  using Reactivate_active_is_UpdateFabric
          [of "\<lparr>Code = ''FAB1'', Name = ''Cotton'', MeasureUnit = ''m'',
               OfferStatus = ''available'', Status = ''ACTIVE'', Version = 1, events = []\<rparr>"
              "''Silk''" "''cm''" "''new''" 1]
  by (simp add: Fabric_UpdateFabric_def validateName_def)

lemma apply_op_success:
  "apply_op f op = (f', None) \<Longrightarrow>
     Version f' = Version f + 1 \<and> (\<exists>e. events f' = events f @ [e])"
  by (cases op)
     (auto simp: Fabric_UpdateFabric_def Fabric_Delete_def Fabric_Reactivate_def Let_def
           split: if_splits option.splits)

lemma apply_op_failure: "apply_op f op = (f', Some err) \<Longrightarrow> f' = f"
  by (cases op)
     (auto simp: Fabric_UpdateFabric_def Fabric_Delete_def Fabric_Reactivate_def Let_def
           split: if_splits option.splits)

lemma run_ops_count:
  "run_ops f ops = (f', k) \<Longrightarrow>
     Version f' = Version f + of_nat k \<and> length (events f') = length (events f) + k"
proof (induction ops arbitrary: f f' k)
  case Nil
  then show ?case by simp
next
  case (Cons op ops)
  obtain f1 r where step: "apply_op f op = (f1, r)" by (cases "apply_op f op")
  show ?case
  proof (cases r)
    case None
    with step Cons.prems obtain k' where rest: "run_ops f1 ops = (f', k')" and k: "k = Suc k'"
      by (auto split: prod.splits)
    from step None have "Version f1 = Version f + 1" "length (events f1) = Suc (length (events f))"
      using apply_op_success [of f op f1] by auto
    with Cons.IH [OF rest] k show ?thesis by simp
  next
    case (Some err)
    with step Cons.prems have rest: "run_ops f1 ops = (f', k)" by simp
    from step Some have "f1 = f" using apply_op_failure by blast
    with Cons.IH [OF rest] show ?thesis by simp
  qed
qed

lemma NewFabric_version_events:
  "NewFabric code name measureUnit offerStatus = Inr f0 \<Longrightarrow>
     Version f0 = 1 \<and> length (events f0) = 1"
  by (auto simp: NewFabric_def Let_def split: option.splits)

text \<open>
  C3. A successful creation yields version 1 and one pending event. Each of
  \<open>UpdateFabric\<close>, \<open>Delete\<close> and \<open>Reactivate\<close> that returns \<open>nil\<close> has added exactly 1 to the
  version (in Go's wrapping \<open>int\<close> arithmetic) and appended exactly one pending event; each
  that returns an error has left the whole aggregate as it was. So after any sequence of
  calls the version has grown by the number of successful calls and so has the list of
  pending events; counted from creation, the pending events are as many as the successful
  mutations, creation included.
\<close>

theorem version_and_event_discipline:
  "(NewFabric code name measureUnit offerStatus = Inr f0 \<longrightarrow>
      Version f0 = 1 \<and> length (events f0) = 1) \<and>
   (apply_op f op = (f', None) \<longrightarrow>
      Version f' = Version f + 1 \<and> (\<exists>e. events f' = events f @ [e])) \<and>
   (apply_op g op' = (g', Some err) \<longrightarrow> g' = g) \<and>
   (run_ops f ops = (f'', k) \<longrightarrow>
      Version f'' = Version f + of_nat k \<and> length (events f'') = length (events f) + k) \<and>
   (NewFabric code name measureUnit offerStatus = Inr f0 \<and> run_ops f0 ops0 = (f1, k1) \<longrightarrow>
      Version f1 = of_nat (Suc k1) \<and> length (events f1) = Suc k1)"
proof (intro conjI impI)
  assume "NewFabric code name measureUnit offerStatus = Inr f0"
  then show "Version f0 = 1" "length (events f0) = 1"
    using NewFabric_version_events by blast+
next
  assume "apply_op f op = (f', None)"
  then show "Version f' = Version f + 1" "\<exists>e. events f' = events f @ [e]"
    using apply_op_success by blast+
next
  assume "apply_op g op' = (g', Some err)"
  then show "g' = g" by (rule apply_op_failure)
next
  assume "run_ops f ops = (f'', k)"
  then show "Version f'' = Version f + of_nat k"
    "length (events f'') = length (events f) + k"
    using run_ops_count by blast+
next
  assume a: "NewFabric code name measureUnit offerStatus = Inr f0 \<and> run_ops f0 ops0 = (f1, k1)"
  then have "Version f0 = 1" "length (events f0) = 1"
    using NewFabric_version_events by blast+
  with a run_ops_count [of f0 ops0 f1 k1]
  show "Version f1 = of_nat (Suc k1)" "length (events f1) = Suc k1"
    by simp_all
qed

lemma scenario_NewFabric:
  "NewFabric ''FAB1'' ''Cotton'' ''m'' ''available'' = Inr \<lparr>Code = ''FAB1'', Name = ''Cotton'', MeasureUnit = ''m'', OfferStatus = ''available'',
      Status = ''ACTIVE'', Version = 1,
      events = [FabricCreated ''FAB1'' ''Cotton'' ''m'' ''available'' 1]\<rparr>"
  by (simp add: NewFabric_def validateCode_def validateName_def class_A_Z_0_9_def)

lemma scenario_update:
  "apply_op \<lparr>Code = ''FAB1'', Name = ''Cotton'', MeasureUnit = ''m'', OfferStatus = ''available'',
      Status = ''ACTIVE'', Version = 1,
      events = [FabricCreated ''FAB1'' ''Cotton'' ''m'' ''available'' 1]\<rparr> (OpUpdateFabric ''Silk'' ''m'' ''available'' 1) = (\<lparr>Code = ''FAB1'', Name = ''Silk'', MeasureUnit = ''m'', OfferStatus = ''available'',
      Status = ''ACTIVE'', Version = 2,
      events = [FabricCreated ''FAB1'' ''Cotton'' ''m'' ''available'' 1,
                FabricUpdated ''FAB1'' ''Silk'' ''m'' ''available'' 2]\<rparr>, None)"
  by (simp add: Fabric_UpdateFabric_def validateName_def)

lemma scenario_stale_update:
  "apply_op \<lparr>Code = ''FAB1'', Name = ''Silk'', MeasureUnit = ''m'', OfferStatus = ''available'',
      Status = ''ACTIVE'', Version = 2,
      events = [FabricCreated ''FAB1'' ''Cotton'' ''m'' ''available'' 1,
                FabricUpdated ''FAB1'' ''Silk'' ''m'' ''available'' 2]\<rparr> (OpUpdateFabric ''Wool'' ''m'' ''available'' 1) =
     (\<lparr>Code = ''FAB1'', Name = ''Silk'', MeasureUnit = ''m'', OfferStatus = ''available'',
      Status = ''ACTIVE'', Version = 2,
      events = [FabricCreated ''FAB1'' ''Cotton'' ''m'' ''available'' 1,
                FabricUpdated ''FAB1'' ''Silk'' ''m'' ''available'' 2]\<rparr>, Some ErrConcurrencyConflict)"
  by (simp add: Fabric_UpdateFabric_def validateName_def)

lemma scenario_run_ops:
  "run_ops \<lparr>Code = ''FAB1'', Name = ''Cotton'', MeasureUnit = ''m'', OfferStatus = ''available'',
      Status = ''ACTIVE'', Version = 1,
      events = [FabricCreated ''FAB1'' ''Cotton'' ''m'' ''available'' 1]\<rparr>
     [OpUpdateFabric ''Silk'' ''m'' ''available'' 1,
      OpUpdateFabric ''Wool'' ''m'' ''available'' 1,
      OpDelete 2,
      OpReactivate ''Linen'' ''m'' ''available'' 3] =
   (\<lparr>Code = ''FAB1'', Name = ''Linen'', MeasureUnit = ''m'', OfferStatus = ''available'',
      Status = ''ACTIVE'', Version = 4,
      events = [FabricCreated ''FAB1'' ''Cotton'' ''m'' ''available'' 1,
                FabricUpdated ''FAB1'' ''Silk'' ''m'' ''available'' 2,
                FabricDeleted ''FAB1'' 3,
                FabricReactivated ''FAB1'' ''Linen'' ''m'' ''available'' 4]\<rparr>, 3)"
  by (simp add: Fabric_UpdateFabric_def Fabric_Delete_def Fabric_Reactivate_def
        validateName_def)

theorem version_and_event_discipline_witness:
  "NewFabric ''FAB1'' ''Cotton'' ''m'' ''available'' = Inr \<lparr>Code = ''FAB1'', Name = ''Cotton'', MeasureUnit = ''m'', OfferStatus = ''available'',
      Status = ''ACTIVE'', Version = 1,
      events = [FabricCreated ''FAB1'' ''Cotton'' ''m'' ''available'' 1]\<rparr> \<and>
   apply_op \<lparr>Code = ''FAB1'', Name = ''Cotton'', MeasureUnit = ''m'', OfferStatus = ''available'',
      Status = ''ACTIVE'', Version = 1,
      events = [FabricCreated ''FAB1'' ''Cotton'' ''m'' ''available'' 1]\<rparr> (OpUpdateFabric ''Silk'' ''m'' ''available'' 1) = (\<lparr>Code = ''FAB1'', Name = ''Silk'', MeasureUnit = ''m'', OfferStatus = ''available'',
      Status = ''ACTIVE'', Version = 2,
      events = [FabricCreated ''FAB1'' ''Cotton'' ''m'' ''available'' 1,
                FabricUpdated ''FAB1'' ''Silk'' ''m'' ''available'' 2]\<rparr>, None) \<and>
   apply_op \<lparr>Code = ''FAB1'', Name = ''Silk'', MeasureUnit = ''m'', OfferStatus = ''available'',
      Status = ''ACTIVE'', Version = 2,
      events = [FabricCreated ''FAB1'' ''Cotton'' ''m'' ''available'' 1,
                FabricUpdated ''FAB1'' ''Silk'' ''m'' ''available'' 2]\<rparr> (OpUpdateFabric ''Wool'' ''m'' ''available'' 1) =
     (\<lparr>Code = ''FAB1'', Name = ''Silk'', MeasureUnit = ''m'', OfferStatus = ''available'',
      Status = ''ACTIVE'', Version = 2,
      events = [FabricCreated ''FAB1'' ''Cotton'' ''m'' ''available'' 1,
                FabricUpdated ''FAB1'' ''Silk'' ''m'' ''available'' 2]\<rparr>, Some ErrConcurrencyConflict) \<and>
   run_ops \<lparr>Code = ''FAB1'', Name = ''Cotton'', MeasureUnit = ''m'', OfferStatus = ''available'',
      Status = ''ACTIVE'', Version = 1,
      events = [FabricCreated ''FAB1'' ''Cotton'' ''m'' ''available'' 1]\<rparr>
     [OpUpdateFabric ''Silk'' ''m'' ''available'' 1,
      OpUpdateFabric ''Wool'' ''m'' ''available'' 1,
      OpDelete 2,
      OpReactivate ''Linen'' ''m'' ''available'' 3] =
   (\<lparr>Code = ''FAB1'', Name = ''Linen'', MeasureUnit = ''m'', OfferStatus = ''available'',
      Status = ''ACTIVE'', Version = 4,
      events = [FabricCreated ''FAB1'' ''Cotton'' ''m'' ''available'' 1,
                FabricUpdated ''FAB1'' ''Silk'' ''m'' ''available'' 2,
                FabricDeleted ''FAB1'' 3,
                FabricReactivated ''FAB1'' ''Linen'' ''m'' ''available'' 4]\<rparr>, 3) \<and>
   Version \<lparr>Code = ''FAB1'', Name = ''Linen'', MeasureUnit = ''m'', OfferStatus = ''available'',
      Status = ''ACTIVE'', Version = 4,
      events = [FabricCreated ''FAB1'' ''Cotton'' ''m'' ''available'' 1,
                FabricUpdated ''FAB1'' ''Silk'' ''m'' ''available'' 2,
                FabricDeleted ''FAB1'' 3,
                FabricReactivated ''FAB1'' ''Linen'' ''m'' ''available'' 4]\<rparr> = of_nat (Suc 3) \<and>
   length (events \<lparr>Code = ''FAB1'', Name = ''Linen'', MeasureUnit = ''m'', OfferStatus = ''available'',
      Status = ''ACTIVE'', Version = 4,
      events = [FabricCreated ''FAB1'' ''Cotton'' ''m'' ''available'' 1,
                FabricUpdated ''FAB1'' ''Silk'' ''m'' ''available'' 2,
                FabricDeleted ''FAB1'' 3,
                FabricReactivated ''FAB1'' ''Linen'' ''m'' ''available'' 4]\<rparr>) = Suc 3"
  using version_and_event_discipline
    [where code = "''FAB1''" and name = "''Cotton''" and measureUnit = "''m''"
       and offerStatus = "''available''"
       and ?f0.0 = "\<lparr>Code = ''FAB1'', Name = ''Cotton'', MeasureUnit = ''m'', OfferStatus = ''available'',
      Status = ''ACTIVE'', Version = 1,
      events = [FabricCreated ''FAB1'' ''Cotton'' ''m'' ''available'' 1]\<rparr>"
       and f = "\<lparr>Code = ''FAB1'', Name = ''Cotton'', MeasureUnit = ''m'', OfferStatus = ''available'',
      Status = ''ACTIVE'', Version = 1,
      events = [FabricCreated ''FAB1'' ''Cotton'' ''m'' ''available'' 1]\<rparr>"
       and op = "OpUpdateFabric ''Silk'' ''m'' ''available'' 1"
       and f' = "\<lparr>Code = ''FAB1'', Name = ''Silk'', MeasureUnit = ''m'', OfferStatus = ''available'',
      Status = ''ACTIVE'', Version = 2,
      events = [FabricCreated ''FAB1'' ''Cotton'' ''m'' ''available'' 1,
                FabricUpdated ''FAB1'' ''Silk'' ''m'' ''available'' 2]\<rparr>"
       and g = "\<lparr>Code = ''FAB1'', Name = ''Silk'', MeasureUnit = ''m'', OfferStatus = ''available'',
      Status = ''ACTIVE'', Version = 2,
      events = [FabricCreated ''FAB1'' ''Cotton'' ''m'' ''available'' 1,
                FabricUpdated ''FAB1'' ''Silk'' ''m'' ''available'' 2]\<rparr>"
       and op' = "OpUpdateFabric ''Wool'' ''m'' ''available'' 1"
       and g' = "\<lparr>Code = ''FAB1'', Name = ''Silk'', MeasureUnit = ''m'', OfferStatus = ''available'',
      Status = ''ACTIVE'', Version = 2,
      events = [FabricCreated ''FAB1'' ''Cotton'' ''m'' ''available'' 1,
                FabricUpdated ''FAB1'' ''Silk'' ''m'' ''available'' 2]\<rparr>"
       and err = ErrConcurrencyConflict
       and ops = "[OpUpdateFabric ''Silk'' ''m'' ''available'' 1,
      OpUpdateFabric ''Wool'' ''m'' ''available'' 1,
      OpDelete 2,
      OpReactivate ''Linen'' ''m'' ''available'' 3]"
       and ops0 = "[OpUpdateFabric ''Silk'' ''m'' ''available'' 1,
      OpUpdateFabric ''Wool'' ''m'' ''available'' 1,
      OpDelete 2,
      OpReactivate ''Linen'' ''m'' ''available'' 3]"
       and f'' = "\<lparr>Code = ''FAB1'', Name = ''Linen'', MeasureUnit = ''m'', OfferStatus = ''available'',
      Status = ''ACTIVE'', Version = 4,
      events = [FabricCreated ''FAB1'' ''Cotton'' ''m'' ''available'' 1,
                FabricUpdated ''FAB1'' ''Silk'' ''m'' ''available'' 2,
                FabricDeleted ''FAB1'' 3,
                FabricReactivated ''FAB1'' ''Linen'' ''m'' ''available'' 4]\<rparr>" and k = 3
       and ?f1.0 = "\<lparr>Code = ''FAB1'', Name = ''Linen'', MeasureUnit = ''m'', OfferStatus = ''available'',
      Status = ''ACTIVE'', Version = 4,
      events = [FabricCreated ''FAB1'' ''Cotton'' ''m'' ''available'' 1,
                FabricUpdated ''FAB1'' ''Silk'' ''m'' ''available'' 2,
                FabricDeleted ''FAB1'' 3,
                FabricReactivated ''FAB1'' ''Linen'' ''m'' ''available'' 4]\<rparr>" and ?k1.0 = 3]
    scenario_NewFabric scenario_update scenario_stale_update scenario_run_ops
  by simp

section \<open>Properties of the command service\<close>

text \<open>The identifiers \<open>uuid.New().String()\<close> gives are texts of a \<open>uuid\<close> in the form the
  server prints; three of them, used below.\<close>

lemma pg_uuid_generated:
  "pg_uuid ''00000000-0000-4000-8000-000000000000'' = Inr ''00000000-0000-4000-8000-000000000000''"
  "pg_uuid ''00000000-0000-4000-8000-000000000001'' = Inr ''00000000-0000-4000-8000-000000000001''"
  "pg_uuid ''00000000-0000-4000-8000-000000000002'' = Inr ''00000000-0000-4000-8000-000000000002''"
  by code_simp+

lemmas eval_defs =
  FabricService_CreateFabric_def FabricService_UpdateFabric_def FabricService_DeleteFabric_def
  NewFabricCommandService_def world_runtime_def NewFabric_def validateCode_def validateName_def
  class_A_Z_0_9_def FabricPostgresRepository_Save_def FabricPostgresRepository_GetByCode_def
  FabricPostgresRepository_Update_def FabricPostgresRepository_Delete_def scan_fabric_def
  Fabric_UpdateFabric_def Fabric_Delete_def Fabric_Reactivate_def
  no_faults_def sql_insert_def sql_update_def fabrics_active_code_idx_def
  Fabric_Events_def NewEventEnvelope_def PostgresStore_Save_def events_insert_def
  events_values_def pg_uuid_generated pg_varchar_def pg_int4_def utf8_chars_def
  events_pkey_free_def unique_aggregate_version_free_def IsFromREST_def GetCommandSource_def
  WithCommandSource_def context_Background_def
  NatsPublisher_Publish_def EventEnvelope_Validate_def Let_def

lemma CreateFabric_not_REST_ignores_publisher:
  "\<not> IsFromREST ctx \<Longrightarrow>
     FabricService_CreateFabric (s\<lparr>publisher_Publish := P\<rparr>) rt ctx code name mu os w =
     FabricService_CreateFabric s rt ctx code name mu os w"
  by (simp add: FabricService_CreateFabric_def Let_def
           split: sum.splits prod.splits option.splits)

lemma CreateFabric_result_ignores_publisher:
  "fst (FabricService_CreateFabric (s\<lparr>publisher_Publish := P\<rparr>) rt ctx code name mu os w) =
   fst (FabricService_CreateFabric s rt ctx code name mu os w)"
  by (simp add: FabricService_CreateFabric_def Let_def
           split: sum.splits prod.splits option.splits)

lemma CreateFabric_REST_publishes:
  "IsFromREST ctx \<Longrightarrow> \<not> IsFromREST ctx0 \<Longrightarrow>
   FabricService_CreateFabric s rt ctx0 code name mu os w = (Inr p, w0) \<Longrightarrow>
   FabricService_CreateFabric s rt ctx code name mu os w =
     (Inr p, publish_envelopes s rt ''publishing event envelope failed''
               (create_envelopes rt p 0 (Fabric_Events p)) w0)"
  by (auto simp add: FabricService_CreateFabric_def Let_def
           split: sum.splits prod.splits option.splits if_splits)

lemma UpdateFabric_not_REST_ignores_publisher:
  "\<not> IsFromREST ctx \<Longrightarrow>
     FabricService_UpdateFabric (s\<lparr>publisher_Publish := P\<rparr>) rt ctx code name mu os v w =
     FabricService_UpdateFabric s rt ctx code name mu os v w"
  by (simp add: FabricService_UpdateFabric_def Let_def
           split: sum.splits prod.splits option.splits)

lemma UpdateFabric_result_ignores_publisher:
  "fst (FabricService_UpdateFabric (s\<lparr>publisher_Publish := P\<rparr>) rt ctx code name mu os v w) =
   fst (FabricService_UpdateFabric s rt ctx code name mu os v w)"
  by (simp add: FabricService_UpdateFabric_def Let_def
           split: sum.splits prod.splits option.splits)

lemma UpdateFabric_REST_publishes:
  "IsFromREST ctx \<Longrightarrow> \<not> IsFromREST ctx0 \<Longrightarrow>
   FabricService_UpdateFabric s rt ctx0 code name mu os v w = (Inr p, w0) \<Longrightarrow>
   FabricService_UpdateFabric s rt ctx code name mu os v w =
     (Inr p, publish_envelopes s rt ''publishing fabric updated event failed''
               (update_envelopes rt p 0 (Fabric_Events p)) w0)"
  by (auto simp add: FabricService_UpdateFabric_def Let_def
           split: sum.splits prod.splits option.splits if_splits)

lemma DeleteFabric_not_REST_ignores_publisher:
  "\<not> IsFromREST ctx \<Longrightarrow>
     FabricService_DeleteFabric (s\<lparr>publisher_Publish := P\<rparr>) rt ctx code v w =
     FabricService_DeleteFabric s rt ctx code v w"
  by (simp add: FabricService_DeleteFabric_def Let_def
           split: sum.splits prod.splits option.splits)

lemma DeleteFabric_result_ignores_publisher:
  "fst (FabricService_DeleteFabric (s\<lparr>publisher_Publish := P\<rparr>) rt ctx code v w) =
   fst (FabricService_DeleteFabric s rt ctx code v w)"
  by (simp add: FabricService_DeleteFabric_def Let_def
           split: sum.splits prod.splits option.splits)

lemma DeleteFabric_REST_publishes:
  "IsFromREST ctx \<Longrightarrow> \<not> IsFromREST ctx0 \<Longrightarrow>
   FabricService_DeleteFabric s rt ctx0 code v w = (None, w0) \<Longrightarrow>
   \<exists>loaded w1 deleted.
     commandRepo_GetByCode s code w = (Inr loaded, w1) \<and>
     Fabric_Delete loaded v = (deleted, None) \<and>
     FabricService_DeleteFabric s rt ctx code v w =
       (None, publish_envelopes s rt ''publishing fabric deleted event failed''
               (delete_envelopes rt deleted 0 (Fabric_Events deleted)) w0)"
  by (auto simp add: FabricService_DeleteFabric_def Let_def
           split: sum.splits prod.splits option.splits if_splits)

lemma NewFabricCommandService_publisher:
  "publisher_Publish (NewFabricCommandService flt) subject envelope w =
     (case NatsPublisher_Publish (publish_fault flt envelope) subject envelope (nats_published w) of
        (r, p) \<Rightarrow> (r, w\<lparr>nats_published := p\<rparr>))"
  "eventChannel (NewFabricCommandService flt) = ''app.fabric''"
  by (simp_all add: NewFabricCommandService_def)

lemma world_runtime_logger:
  "logger (world_runtime ids clock) level msg w = w\<lparr>log_lines := log_lines w @ [(level, msg)]\<rparr>"
  by (simp add: world_runtime_def)

lemma publish_envelopes_nats:
  "nats_published (publish_envelopes (NewFabricCommandService flt) (world_runtime ids clock)
       msg envs w) =
     nats_published w @
     map (Pair ''app.fabric'')
       (filter (\<lambda>e. EventEnvelope_Validate e = None \<and> publish_fault flt e = None) envs) \<and>
   log_lines (publish_envelopes (NewFabricCommandService flt) (world_runtime ids clock)
       msg envs w) =
     log_lines w @
     map (\<lambda>e. (''ERROR'', msg))
       (filter (\<lambda>e. \<not> (EventEnvelope_Validate e = None \<and> publish_fault flt e = None)) envs) \<and>
   fabrics (publish_envelopes (NewFabricCommandService flt) (world_runtime ids clock)
       msg envs w) = fabrics w \<and>
   events_table (publish_envelopes (NewFabricCommandService flt) (world_runtime ids clock)
       msg envs w) = events_table w"
proof (induction envs arbitrary: w)
  case Nil
  then show ?case by simp
next
  case (Cons e envs)
  show ?case
    by (cases "EventEnvelope_Validate e"; cases "publish_fault flt e")
       (simp_all add: Cons.IH NewFabricCommandService_publisher NatsPublisher_Publish_def
          world_runtime_logger)
qed

text \<open>
  C6. \<open>IsFromREST\<close> is how the call context marks a command as coming from the REST
  path (it holds for a context tagged REST and for one never tagged, see C10). For the
  three mutation commands, over any repository, event store, publisher and logger:
  \<^item> when the context is not from REST, the command does not depend on the publisher at
    all: with any other \<open>Publish\<close> in its place it returns the same result and leaves the
    same world, so nothing is forwarded;
  \<^item> when the context is from REST, a successful command is the same command run from a
    non-REST context, followed by the publishing loop over the envelopes built from the
    aggregate's pending events, each handed to \<open>Publish\<close> on the service's channel;
  \<^item> whatever the publisher does, the command's result is the same: a failing
    \<open>Publish\<close> never turns success into an error;
  \<^item> with the NATS publisher and the logger of the wiring, the publishing loop hands the
    broker exactly the envelopes whose \<open>Publish\<close> did not fail, in order, and writes one
    ERROR line to the log for each one that failed.

  With the Postgres repository of the wiring, \<open>DeleteFabric\<close> succeeds only on a table
  that holds another row of the same code at the next version (see C1), which is the table
  the example after the theorem uses for the delete.
\<close>

theorem envelopes_published_iff_from_REST:
  "(\<not> IsFromREST ctx \<longrightarrow>
      FabricService_CreateFabric (s\<lparr>publisher_Publish := P\<rparr>) rt ctx code name measureUnit
          offerStatus w =
        FabricService_CreateFabric s rt ctx code name measureUnit offerStatus w \<and>
      FabricService_UpdateFabric (s\<lparr>publisher_Publish := P\<rparr>) rt ctx code name measureUnit
          offerStatus version w =
        FabricService_UpdateFabric s rt ctx code name measureUnit offerStatus version w \<and>
      FabricService_DeleteFabric (s\<lparr>publisher_Publish := P\<rparr>) rt ctx code version w =
        FabricService_DeleteFabric s rt ctx code version w) \<and>
   (IsFromREST rest \<and> \<not> IsFromREST ctx0 \<and>
    FabricService_CreateFabric s rt ctx0 code name measureUnit offerStatus wc = (Inr created, wc')
      \<longrightarrow>
      FabricService_CreateFabric s rt rest code name measureUnit offerStatus wc =
        (Inr created,
         publish_envelopes s rt ''publishing event envelope failed''
           (create_envelopes rt created 0 (Fabric_Events created)) wc')) \<and>
   (IsFromREST rest \<and> \<not> IsFromREST ctx0 \<and>
    FabricService_UpdateFabric s rt ctx0 code name measureUnit offerStatus version wu =
      (Inr updated, wu')
      \<longrightarrow>
      FabricService_UpdateFabric s rt rest code name measureUnit offerStatus version wu =
        (Inr updated,
         publish_envelopes s rt ''publishing fabric updated event failed''
           (update_envelopes rt updated 0 (Fabric_Events updated)) wu')) \<and>
   (IsFromREST rest \<and> \<not> IsFromREST ctx0 \<and>
    FabricService_DeleteFabric s rt ctx0 code version wd = (None, wd')
      \<longrightarrow>
      (\<exists>loaded w1 deleted.
         commandRepo_GetByCode s code wd = (Inr loaded, w1) \<and>
         Fabric_Delete loaded version = (deleted, None) \<and>
         FabricService_DeleteFabric s rt rest code version wd =
           (None,
            publish_envelopes s rt ''publishing fabric deleted event failed''
              (delete_envelopes rt deleted 0 (Fabric_Events deleted)) wd'))) \<and>
   fst (FabricService_CreateFabric (s\<lparr>publisher_Publish := P\<rparr>) rt ctx code name measureUnit
          offerStatus w) =
     fst (FabricService_CreateFabric s rt ctx code name measureUnit offerStatus w) \<and>
   fst (FabricService_UpdateFabric (s\<lparr>publisher_Publish := P\<rparr>) rt ctx code name measureUnit
          offerStatus version w) =
     fst (FabricService_UpdateFabric s rt ctx code name measureUnit offerStatus version w) \<and>
   fst (FabricService_DeleteFabric (s\<lparr>publisher_Publish := P\<rparr>) rt ctx code version w) =
     fst (FabricService_DeleteFabric s rt ctx code version w) \<and>
   nats_published (publish_envelopes (NewFabricCommandService flt) (world_runtime ids clock)
       msg envs ww) =
     nats_published ww @
     map (Pair ''app.fabric'')
       (filter (\<lambda>e. EventEnvelope_Validate e = None \<and> publish_fault flt e = None) envs) \<and>
   log_lines (publish_envelopes (NewFabricCommandService flt) (world_runtime ids clock)
       msg envs ww) =
     log_lines ww @
     map (\<lambda>e. (''ERROR'', msg))
       (filter (\<lambda>e. \<not> (EventEnvelope_Validate e = None \<and> publish_fault flt e = None)) envs)"
proof (intro conjI impI)
  assume "\<not> IsFromREST ctx"
  then show
    "FabricService_CreateFabric (s\<lparr>publisher_Publish := P\<rparr>) rt ctx code name measureUnit
          offerStatus w =
        FabricService_CreateFabric s rt ctx code name measureUnit offerStatus w"
    "FabricService_UpdateFabric (s\<lparr>publisher_Publish := P\<rparr>) rt ctx code name measureUnit
          offerStatus version w =
        FabricService_UpdateFabric s rt ctx code name measureUnit offerStatus version w"
    "FabricService_DeleteFabric (s\<lparr>publisher_Publish := P\<rparr>) rt ctx code version w =
        FabricService_DeleteFabric s rt ctx code version w"
    by (rule CreateFabric_not_REST_ignores_publisher UpdateFabric_not_REST_ignores_publisher
          DeleteFabric_not_REST_ignores_publisher)+
next
  assume "IsFromREST rest \<and> \<not> IsFromREST ctx0 \<and>
    FabricService_CreateFabric s rt ctx0 code name measureUnit offerStatus wc = (Inr created, wc')"
  then show "FabricService_CreateFabric s rt rest code name measureUnit offerStatus wc =
        (Inr created,
         publish_envelopes s rt ''publishing event envelope failed''
           (create_envelopes rt created 0 (Fabric_Events created)) wc')"
    using CreateFabric_REST_publishes [of rest ctx0 s rt code name measureUnit offerStatus wc created wc']
    by simp
next
  assume "IsFromREST rest \<and> \<not> IsFromREST ctx0 \<and>
    FabricService_UpdateFabric s rt ctx0 code name measureUnit offerStatus version wu =
      (Inr updated, wu')"
  then show "FabricService_UpdateFabric s rt rest code name measureUnit offerStatus version wu =
        (Inr updated,
         publish_envelopes s rt ''publishing fabric updated event failed''
           (update_envelopes rt updated 0 (Fabric_Events updated)) wu')"
    using UpdateFabric_REST_publishes
            [of rest ctx0 s rt code name measureUnit offerStatus version wu updated wu']
    by simp
next
  assume "IsFromREST rest \<and> \<not> IsFromREST ctx0 \<and>
    FabricService_DeleteFabric s rt ctx0 code version wd = (None, wd')"
  then show "\<exists>loaded w1 deleted.
         commandRepo_GetByCode s code wd = (Inr loaded, w1) \<and>
         Fabric_Delete loaded version = (deleted, None) \<and>
         FabricService_DeleteFabric s rt rest code version wd =
           (None,
            publish_envelopes s rt ''publishing fabric deleted event failed''
              (delete_envelopes rt deleted 0 (Fabric_Events deleted)) wd')"
    using DeleteFabric_REST_publishes [of rest ctx0 s rt code version wd wd'] by simp
qed (simp_all only: CreateFabric_result_ignores_publisher UpdateFabric_result_ignores_publisher
       DeleteFabric_result_ignores_publisher publish_envelopes_nats)

lemma run_create_event:
  "FabricService_CreateFabric (NewFabricCommandService \<lparr>repo_faults = no_faults, store_faults = no_faults,
      publish_fault = (\<lambda>e. Some (DriverFailure ''nats: connection closed''))\<rparr>)
     (world_runtime (\<lambda>i. ''00000000-0000-4000-8000-000000000000'') (\<lambda>i. 7)) (Some ''event'') ''FAB1'' ''Cotton'' ''m'' ''available''
     \<lparr>fabrics = [], events_table = [],
      nats_published = [], log_lines = []\<rparr> =
   (Inr \<lparr>Code = ''FAB1'', Name = ''Cotton'', MeasureUnit = ''m'', OfferStatus = ''available'',
      Status = ''ACTIVE'', Version = 1,
      events = [FabricCreated ''FAB1'' ''Cotton'' ''m'' ''available'' 1]\<rparr>,
    \<lparr>fabrics = [\<lparr>col_version = 1, col_code = ''FAB1'', col_name = ''Cotton'', col_measure_unit = ''m'', col_offer_status = ''available'', col_status = ''ACTIVE''\<rparr>], events_table = [\<lparr>event_id = ''00000000-0000-4000-8000-000000000000'', aggregate_id = ''FAB1'', aggregate_type = ''fabric'',
        event_type = ''app.fabric.created'', aggregate_version = 1,
        payload = FabricCreated ''FAB1'' ''Cotton'' ''m'' ''available'' 1, timestamp = 7, correlation_id = [], user_id = []\<rparr>],
      nats_published = [], log_lines = []\<rparr>)"
  by (simp add: eval_defs)

lemma run_update_event:
  "FabricService_UpdateFabric (NewFabricCommandService \<lparr>repo_faults = no_faults, store_faults = no_faults,
      publish_fault = (\<lambda>e. Some (DriverFailure ''nats: connection closed''))\<rparr>)
     (world_runtime (\<lambda>i. ''00000000-0000-4000-8000-000000000000'') (\<lambda>i. 7)) (Some ''event'') ''FAB1'' ''Silk'' ''m'' ''available'' 1
     \<lparr>fabrics = [\<lparr>col_version = 1, col_code = ''FAB1'', col_name = ''Cotton'', col_measure_unit = ''m'', col_offer_status = ''available'', col_status = ''ACTIVE''\<rparr>], events_table = [],
      nats_published = [], log_lines = []\<rparr> =
   (Inr \<lparr>Code = ''FAB1'', Name = ''Silk'', MeasureUnit = ''m'', OfferStatus = ''available'',
      Status = ''ACTIVE'', Version = 2,
      events = [FabricUpdated ''FAB1'' ''Silk'' ''m'' ''available'' 2]\<rparr>,
    \<lparr>fabrics = [\<lparr>col_version = 2, col_code = ''FAB1'', col_name = ''Silk'', col_measure_unit = ''m'', col_offer_status = ''available'', col_status = ''ACTIVE''\<rparr>], events_table = [\<lparr>event_id = ''00000000-0000-4000-8000-000000000000'', aggregate_id = ''FAB1'', aggregate_type = ''Fabric'',
        event_type = ''app.fabric.updated'', aggregate_version = 2,
        payload = FabricUpdated ''FAB1'' ''Silk'' ''m'' ''available'' 2, timestamp = 7, correlation_id = [], user_id = []\<rparr>],
      nats_published = [], log_lines = []\<rparr>)"
  by (simp add: eval_defs)

lemma run_delete_event:
  "FabricService_DeleteFabric (NewFabricCommandService \<lparr>repo_faults = no_faults, store_faults = no_faults,
      publish_fault = (\<lambda>e. Some (DriverFailure ''nats: connection closed''))\<rparr>)
     (world_runtime (\<lambda>i. ''00000000-0000-4000-8000-000000000000'') (\<lambda>i. 7)) (Some ''event'') ''FAB1'' 1
     \<lparr>fabrics = [\<lparr>col_version = 1, col_code = ''FAB1'', col_name = ''Cotton'', col_measure_unit = ''m'', col_offer_status = ''available'', col_status = ''ACTIVE''\<rparr>,
        \<lparr>col_version = 2, col_code = ''FAB1'', col_name = ''Old'', col_measure_unit = ''m'', col_offer_status = ''available'', col_status = ''DELETED''\<rparr>], events_table = [],
      nats_published = [], log_lines = []\<rparr> =
   (None,
    \<lparr>fabrics = [\<lparr>col_version = 1, col_code = ''FAB1'', col_name = ''Cotton'', col_measure_unit = ''m'', col_offer_status = ''available'', col_status = ''ACTIVE''\<rparr>,
        \<lparr>col_version = 2, col_code = ''FAB1'', col_name = ''Old'', col_measure_unit = ''m'', col_offer_status = ''available'', col_status = ''DELETED''\<rparr>], events_table = [\<lparr>event_id = ''00000000-0000-4000-8000-000000000000'', aggregate_id = ''FAB1'', aggregate_type = ''Fabric'',
        event_type = ''app.fabric.deleted'', aggregate_version = 2,
        payload = FabricDeleted ''FAB1'' 2, timestamp = 7, correlation_id = [], user_id = []\<rparr>],
      nats_published = [], log_lines = []\<rparr>)"
  by (simp add: eval_defs)

lemma run_load_and_delete:
  "commandRepo_GetByCode (NewFabricCommandService \<lparr>repo_faults = no_faults, store_faults = no_faults,
      publish_fault = (\<lambda>e. Some (DriverFailure ''nats: connection closed''))\<rparr>) ''FAB1''
     \<lparr>fabrics = [\<lparr>col_version = 1, col_code = ''FAB1'', col_name = ''Cotton'', col_measure_unit = ''m'', col_offer_status = ''available'', col_status = ''ACTIVE''\<rparr>,
        \<lparr>col_version = 2, col_code = ''FAB1'', col_name = ''Old'', col_measure_unit = ''m'', col_offer_status = ''available'', col_status = ''DELETED''\<rparr>], events_table = [],
      nats_published = [], log_lines = []\<rparr> =
   (Inr \<lparr>Code = ''FAB1'', Name = ''Cotton'', MeasureUnit = ''m'', OfferStatus = ''available'',
      Status = ''ACTIVE'', Version = 1, events = []\<rparr>,
    \<lparr>fabrics = [\<lparr>col_version = 1, col_code = ''FAB1'', col_name = ''Cotton'', col_measure_unit = ''m'', col_offer_status = ''available'', col_status = ''ACTIVE''\<rparr>,
        \<lparr>col_version = 2, col_code = ''FAB1'', col_name = ''Old'', col_measure_unit = ''m'', col_offer_status = ''available'', col_status = ''DELETED''\<rparr>], events_table = [],
      nats_published = [], log_lines = []\<rparr>)"
  "Fabric_Delete \<lparr>Code = ''FAB1'', Name = ''Cotton'', MeasureUnit = ''m'', OfferStatus = ''available'',
      Status = ''ACTIVE'', Version = 1, events = []\<rparr> 1 =
   (\<lparr>Code = ''FAB1'', Name = ''Cotton'', MeasureUnit = ''m'', OfferStatus = ''available'',
      Status = ''DELETED'', Version = 2,
      events = [FabricDeleted ''FAB1'' 2]\<rparr>, None)"
  by (simp_all add: eval_defs)

theorem envelopes_published_iff_from_REST_witness:
  "IsFromREST (Some ''rest'') \<and> \<not> IsFromREST (Some ''event'') \<and>
   FabricService_CreateFabric (NewFabricCommandService \<lparr>repo_faults = no_faults, store_faults = no_faults,
      publish_fault = (\<lambda>e. Some (DriverFailure ''nats: connection closed''))\<rparr>)
     (world_runtime (\<lambda>i. ''00000000-0000-4000-8000-000000000000'') (\<lambda>i. 7)) (Some ''event'') ''FAB1'' ''Cotton'' ''m'' ''available''
     \<lparr>fabrics = [], events_table = [],
      nats_published = [], log_lines = []\<rparr> =
   (Inr \<lparr>Code = ''FAB1'', Name = ''Cotton'', MeasureUnit = ''m'', OfferStatus = ''available'',
      Status = ''ACTIVE'', Version = 1,
      events = [FabricCreated ''FAB1'' ''Cotton'' ''m'' ''available'' 1]\<rparr>,
    \<lparr>fabrics = [\<lparr>col_version = 1, col_code = ''FAB1'', col_name = ''Cotton'', col_measure_unit = ''m'', col_offer_status = ''available'', col_status = ''ACTIVE''\<rparr>], events_table = [\<lparr>event_id = ''00000000-0000-4000-8000-000000000000'', aggregate_id = ''FAB1'', aggregate_type = ''fabric'',
        event_type = ''app.fabric.created'', aggregate_version = 1,
        payload = FabricCreated ''FAB1'' ''Cotton'' ''m'' ''available'' 1, timestamp = 7, correlation_id = [], user_id = []\<rparr>],
      nats_published = [], log_lines = []\<rparr>) \<and>
   FabricService_CreateFabric (NewFabricCommandService \<lparr>repo_faults = no_faults, store_faults = no_faults,
      publish_fault = (\<lambda>e. Some (DriverFailure ''nats: connection closed''))\<rparr>)
     (world_runtime (\<lambda>i. ''00000000-0000-4000-8000-000000000000'') (\<lambda>i. 7)) (Some ''rest'') ''FAB1'' ''Cotton'' ''m'' ''available''
     \<lparr>fabrics = [], events_table = [],
      nats_published = [], log_lines = []\<rparr> =
   (Inr \<lparr>Code = ''FAB1'', Name = ''Cotton'', MeasureUnit = ''m'', OfferStatus = ''available'',
      Status = ''ACTIVE'', Version = 1,
      events = [FabricCreated ''FAB1'' ''Cotton'' ''m'' ''available'' 1]\<rparr>,
    \<lparr>fabrics = [\<lparr>col_version = 1, col_code = ''FAB1'', col_name = ''Cotton'', col_measure_unit = ''m'', col_offer_status = ''available'', col_status = ''ACTIVE''\<rparr>], events_table = [\<lparr>event_id = ''00000000-0000-4000-8000-000000000000'', aggregate_id = ''FAB1'', aggregate_type = ''fabric'',
        event_type = ''app.fabric.created'', aggregate_version = 1,
        payload = FabricCreated ''FAB1'' ''Cotton'' ''m'' ''available'' 1, timestamp = 7, correlation_id = [], user_id = []\<rparr>],
      nats_published = [], log_lines = [(''ERROR'', ''publishing event envelope failed'')]\<rparr>) \<and>
   FabricService_CreateFabric (NewFabricCommandService \<lparr>repo_faults = no_faults, store_faults = no_faults, publish_fault = (\<lambda>e. None)\<rparr>)
     (world_runtime (\<lambda>i. ''00000000-0000-4000-8000-000000000000'') (\<lambda>i. 7)) (Some ''rest'') ''FAB1'' ''Cotton'' ''m'' ''available''
     \<lparr>fabrics = [], events_table = [],
      nats_published = [], log_lines = []\<rparr> =
   (Inr \<lparr>Code = ''FAB1'', Name = ''Cotton'', MeasureUnit = ''m'', OfferStatus = ''available'',
      Status = ''ACTIVE'', Version = 1,
      events = [FabricCreated ''FAB1'' ''Cotton'' ''m'' ''available'' 1]\<rparr>,
    \<lparr>fabrics = [\<lparr>col_version = 1, col_code = ''FAB1'', col_name = ''Cotton'', col_measure_unit = ''m'', col_offer_status = ''available'', col_status = ''ACTIVE''\<rparr>], events_table = [\<lparr>event_id = ''00000000-0000-4000-8000-000000000000'', aggregate_id = ''FAB1'', aggregate_type = ''fabric'',
        event_type = ''app.fabric.created'', aggregate_version = 1,
        payload = FabricCreated ''FAB1'' ''Cotton'' ''m'' ''available'' 1, timestamp = 7, correlation_id = [], user_id = []\<rparr>],
      nats_published = [(''app.fabric'', \<lparr>EventID = ''00000000-0000-4000-8000-000000000000'', EventType = ''app.fabric.created'', AggregateID = ''FAB1'',
        AggregateType = ''fabric'', AggregateVersion = 1, EventVersion = 1, Timestamp = 7,
        CorrelationID = [], CausationID = [], UserID = [],
        Payload = Some (FabricCreated ''FAB1'' ''Cotton'' ''m'' ''available'' 1)\<rparr>)], log_lines = []\<rparr>) \<and>
   FabricService_UpdateFabric (NewFabricCommandService \<lparr>repo_faults = no_faults, store_faults = no_faults,
      publish_fault = (\<lambda>e. Some (DriverFailure ''nats: connection closed''))\<rparr>)
     (world_runtime (\<lambda>i. ''00000000-0000-4000-8000-000000000000'') (\<lambda>i. 7)) (Some ''rest'') ''FAB1'' ''Silk'' ''m'' ''available'' 1
     \<lparr>fabrics = [\<lparr>col_version = 1, col_code = ''FAB1'', col_name = ''Cotton'', col_measure_unit = ''m'', col_offer_status = ''available'', col_status = ''ACTIVE''\<rparr>], events_table = [],
      nats_published = [], log_lines = []\<rparr> =
   (Inr \<lparr>Code = ''FAB1'', Name = ''Silk'', MeasureUnit = ''m'', OfferStatus = ''available'',
      Status = ''ACTIVE'', Version = 2,
      events = [FabricUpdated ''FAB1'' ''Silk'' ''m'' ''available'' 2]\<rparr>,
    \<lparr>fabrics = [\<lparr>col_version = 2, col_code = ''FAB1'', col_name = ''Silk'', col_measure_unit = ''m'', col_offer_status = ''available'', col_status = ''ACTIVE''\<rparr>], events_table = [\<lparr>event_id = ''00000000-0000-4000-8000-000000000000'', aggregate_id = ''FAB1'', aggregate_type = ''Fabric'',
        event_type = ''app.fabric.updated'', aggregate_version = 2,
        payload = FabricUpdated ''FAB1'' ''Silk'' ''m'' ''available'' 2, timestamp = 7, correlation_id = [], user_id = []\<rparr>],
      nats_published = [], log_lines = [(''ERROR'', ''publishing fabric updated event failed'')]\<rparr>) \<and>
   FabricService_DeleteFabric (NewFabricCommandService \<lparr>repo_faults = no_faults, store_faults = no_faults,
      publish_fault = (\<lambda>e. Some (DriverFailure ''nats: connection closed''))\<rparr>)
     (world_runtime (\<lambda>i. ''00000000-0000-4000-8000-000000000000'') (\<lambda>i. 7)) (Some ''rest'') ''FAB1'' 1
     \<lparr>fabrics = [\<lparr>col_version = 1, col_code = ''FAB1'', col_name = ''Cotton'', col_measure_unit = ''m'', col_offer_status = ''available'', col_status = ''ACTIVE''\<rparr>,
        \<lparr>col_version = 2, col_code = ''FAB1'', col_name = ''Old'', col_measure_unit = ''m'', col_offer_status = ''available'', col_status = ''DELETED''\<rparr>], events_table = [],
      nats_published = [], log_lines = []\<rparr> =
   (None,
    \<lparr>fabrics = [\<lparr>col_version = 1, col_code = ''FAB1'', col_name = ''Cotton'', col_measure_unit = ''m'', col_offer_status = ''available'', col_status = ''ACTIVE''\<rparr>,
        \<lparr>col_version = 2, col_code = ''FAB1'', col_name = ''Old'', col_measure_unit = ''m'', col_offer_status = ''available'', col_status = ''DELETED''\<rparr>], events_table = [\<lparr>event_id = ''00000000-0000-4000-8000-000000000000'', aggregate_id = ''FAB1'', aggregate_type = ''Fabric'',
        event_type = ''app.fabric.deleted'', aggregate_version = 2,
        payload = FabricDeleted ''FAB1'' 2, timestamp = 7, correlation_id = [], user_id = []\<rparr>],
      nats_published = [], log_lines = [(''ERROR'', ''publishing fabric deleted event failed'')]\<rparr>)"
proof -
  note inst = envelopes_published_iff_from_REST
    [where s = "NewFabricCommandService \<lparr>repo_faults = no_faults, store_faults = no_faults,
      publish_fault = (\<lambda>e. Some (DriverFailure ''nats: connection closed''))\<rparr>"
       and rt = "(world_runtime (\<lambda>i. ''00000000-0000-4000-8000-000000000000'') (\<lambda>i. 7))"
       and rest = "Some ''rest''" and ?ctx0.0 = "Some ''event''"
       and code = "''FAB1''" and version = 1
       and wc = "\<lparr>fabrics = [], events_table = [],
      nats_published = [], log_lines = []\<rparr>"
       and wc' = "\<lparr>fabrics = [\<lparr>col_version = 1, col_code = ''FAB1'', col_name = ''Cotton'', col_measure_unit = ''m'', col_offer_status = ''available'', col_status = ''ACTIVE''\<rparr>], events_table = [\<lparr>event_id = ''00000000-0000-4000-8000-000000000000'', aggregate_id = ''FAB1'', aggregate_type = ''fabric'',
        event_type = ''app.fabric.created'', aggregate_version = 1,
        payload = FabricCreated ''FAB1'' ''Cotton'' ''m'' ''available'' 1, timestamp = 7, correlation_id = [], user_id = []\<rparr>],
      nats_published = [], log_lines = []\<rparr>"
       and created = "\<lparr>Code = ''FAB1'', Name = ''Cotton'', MeasureUnit = ''m'', OfferStatus = ''available'',
      Status = ''ACTIVE'', Version = 1,
      events = [FabricCreated ''FAB1'' ''Cotton'' ''m'' ''available'' 1]\<rparr>"
       and wu = "\<lparr>fabrics = [\<lparr>col_version = 1, col_code = ''FAB1'', col_name = ''Cotton'', col_measure_unit = ''m'', col_offer_status = ''available'', col_status = ''ACTIVE''\<rparr>], events_table = [],
      nats_published = [], log_lines = []\<rparr>"
       and wu' = "\<lparr>fabrics = [\<lparr>col_version = 2, col_code = ''FAB1'', col_name = ''Silk'', col_measure_unit = ''m'', col_offer_status = ''available'', col_status = ''ACTIVE''\<rparr>], events_table = [\<lparr>event_id = ''00000000-0000-4000-8000-000000000000'', aggregate_id = ''FAB1'', aggregate_type = ''Fabric'',
        event_type = ''app.fabric.updated'', aggregate_version = 2,
        payload = FabricUpdated ''FAB1'' ''Silk'' ''m'' ''available'' 2, timestamp = 7, correlation_id = [], user_id = []\<rparr>],
      nats_published = [], log_lines = []\<rparr>"
       and updated = "\<lparr>Code = ''FAB1'', Name = ''Silk'', MeasureUnit = ''m'', OfferStatus = ''available'',
      Status = ''ACTIVE'', Version = 2,
      events = [FabricUpdated ''FAB1'' ''Silk'' ''m'' ''available'' 2]\<rparr>"
       and wd = "\<lparr>fabrics = [\<lparr>col_version = 1, col_code = ''FAB1'', col_name = ''Cotton'', col_measure_unit = ''m'', col_offer_status = ''available'', col_status = ''ACTIVE''\<rparr>,
        \<lparr>col_version = 2, col_code = ''FAB1'', col_name = ''Old'', col_measure_unit = ''m'', col_offer_status = ''available'', col_status = ''DELETED''\<rparr>], events_table = [],
      nats_published = [], log_lines = []\<rparr>"
       and wd' = "\<lparr>fabrics = [\<lparr>col_version = 1, col_code = ''FAB1'', col_name = ''Cotton'', col_measure_unit = ''m'', col_offer_status = ''available'', col_status = ''ACTIVE''\<rparr>,
        \<lparr>col_version = 2, col_code = ''FAB1'', col_name = ''Old'', col_measure_unit = ''m'', col_offer_status = ''available'', col_status = ''DELETED''\<rparr>], events_table = [\<lparr>event_id = ''00000000-0000-4000-8000-000000000000'', aggregate_id = ''FAB1'', aggregate_type = ''Fabric'',
        event_type = ''app.fabric.deleted'', aggregate_version = 2,
        payload = FabricDeleted ''FAB1'' 2, timestamp = 7, correlation_id = [], user_id = []\<rparr>],
      nats_published = [], log_lines = []\<rparr>"]
  have ctx: "IsFromREST (Some ''rest'')" "\<not> IsFromREST (Some ''event'')"
    by (simp_all add: IsFromREST_def GetCommandSource_def)
  have c: "FabricService_CreateFabric (NewFabricCommandService \<lparr>repo_faults = no_faults, store_faults = no_faults,
      publish_fault = (\<lambda>e. Some (DriverFailure ''nats: connection closed''))\<rparr>)
     (world_runtime (\<lambda>i. ''00000000-0000-4000-8000-000000000000'') (\<lambda>i. 7)) (Some ''rest'') ''FAB1'' ''Cotton'' ''m'' ''available''
     \<lparr>fabrics = [], events_table = [],
      nats_published = [], log_lines = []\<rparr> =
   (Inr \<lparr>Code = ''FAB1'', Name = ''Cotton'', MeasureUnit = ''m'', OfferStatus = ''available'',
      Status = ''ACTIVE'', Version = 1,
      events = [FabricCreated ''FAB1'' ''Cotton'' ''m'' ''available'' 1]\<rparr>,
    publish_envelopes (NewFabricCommandService \<lparr>repo_faults = no_faults, store_faults = no_faults,
      publish_fault = (\<lambda>e. Some (DriverFailure ''nats: connection closed''))\<rparr>)
      (world_runtime (\<lambda>i. ''00000000-0000-4000-8000-000000000000'') (\<lambda>i. 7)) ''publishing event envelope failed''
      (create_envelopes (world_runtime (\<lambda>i. ''00000000-0000-4000-8000-000000000000'') (\<lambda>i. 7))
         \<lparr>Code = ''FAB1'', Name = ''Cotton'', MeasureUnit = ''m'', OfferStatus = ''available'',
      Status = ''ACTIVE'', Version = 1,
      events = [FabricCreated ''FAB1'' ''Cotton'' ''m'' ''available'' 1]\<rparr> 0
         (Fabric_Events \<lparr>Code = ''FAB1'', Name = ''Cotton'', MeasureUnit = ''m'', OfferStatus = ''available'',
      Status = ''ACTIVE'', Version = 1,
      events = [FabricCreated ''FAB1'' ''Cotton'' ''m'' ''available'' 1]\<rparr>))
      \<lparr>fabrics = [\<lparr>col_version = 1, col_code = ''FAB1'', col_name = ''Cotton'', col_measure_unit = ''m'', col_offer_status = ''available'', col_status = ''ACTIVE''\<rparr>], events_table = [\<lparr>event_id = ''00000000-0000-4000-8000-000000000000'', aggregate_id = ''FAB1'', aggregate_type = ''fabric'',
        event_type = ''app.fabric.created'', aggregate_version = 1,
        payload = FabricCreated ''FAB1'' ''Cotton'' ''m'' ''available'' 1, timestamp = 7, correlation_id = [], user_id = []\<rparr>],
      nats_published = [], log_lines = []\<rparr>)"
    by (rule inst [where name = "''Cotton''" and measureUnit = "''m''"
                     and offerStatus = "''available''",
                   THEN conjunct2, THEN conjunct1, THEN mp])
       (intro conjI ctx run_create_event)
  have u: "FabricService_UpdateFabric (NewFabricCommandService \<lparr>repo_faults = no_faults, store_faults = no_faults,
      publish_fault = (\<lambda>e. Some (DriverFailure ''nats: connection closed''))\<rparr>)
     (world_runtime (\<lambda>i. ''00000000-0000-4000-8000-000000000000'') (\<lambda>i. 7)) (Some ''rest'') ''FAB1'' ''Silk'' ''m'' ''available'' 1
     \<lparr>fabrics = [\<lparr>col_version = 1, col_code = ''FAB1'', col_name = ''Cotton'', col_measure_unit = ''m'', col_offer_status = ''available'', col_status = ''ACTIVE''\<rparr>], events_table = [],
      nats_published = [], log_lines = []\<rparr> =
   (Inr \<lparr>Code = ''FAB1'', Name = ''Silk'', MeasureUnit = ''m'', OfferStatus = ''available'',
      Status = ''ACTIVE'', Version = 2,
      events = [FabricUpdated ''FAB1'' ''Silk'' ''m'' ''available'' 2]\<rparr>,
    publish_envelopes (NewFabricCommandService \<lparr>repo_faults = no_faults, store_faults = no_faults,
      publish_fault = (\<lambda>e. Some (DriverFailure ''nats: connection closed''))\<rparr>)
      (world_runtime (\<lambda>i. ''00000000-0000-4000-8000-000000000000'') (\<lambda>i. 7)) ''publishing fabric updated event failed''
      (update_envelopes (world_runtime (\<lambda>i. ''00000000-0000-4000-8000-000000000000'') (\<lambda>i. 7))
         \<lparr>Code = ''FAB1'', Name = ''Silk'', MeasureUnit = ''m'', OfferStatus = ''available'',
      Status = ''ACTIVE'', Version = 2,
      events = [FabricUpdated ''FAB1'' ''Silk'' ''m'' ''available'' 2]\<rparr> 0
         (Fabric_Events \<lparr>Code = ''FAB1'', Name = ''Silk'', MeasureUnit = ''m'', OfferStatus = ''available'',
      Status = ''ACTIVE'', Version = 2,
      events = [FabricUpdated ''FAB1'' ''Silk'' ''m'' ''available'' 2]\<rparr>))
      \<lparr>fabrics = [\<lparr>col_version = 2, col_code = ''FAB1'', col_name = ''Silk'', col_measure_unit = ''m'', col_offer_status = ''available'', col_status = ''ACTIVE''\<rparr>], events_table = [\<lparr>event_id = ''00000000-0000-4000-8000-000000000000'', aggregate_id = ''FAB1'', aggregate_type = ''Fabric'',
        event_type = ''app.fabric.updated'', aggregate_version = 2,
        payload = FabricUpdated ''FAB1'' ''Silk'' ''m'' ''available'' 2, timestamp = 7, correlation_id = [], user_id = []\<rparr>],
      nats_published = [], log_lines = []\<rparr>)"
    by (rule inst [where name = "''Silk''" and measureUnit = "''m''"
                     and offerStatus = "''available''",
                   THEN conjunct2, THEN conjunct2, THEN conjunct1, THEN mp])
       (intro conjI ctx run_update_event)
  have "\<exists>loaded w1 deleted.
     commandRepo_GetByCode (NewFabricCommandService \<lparr>repo_faults = no_faults, store_faults = no_faults,
      publish_fault = (\<lambda>e. Some (DriverFailure ''nats: connection closed''))\<rparr>) ''FAB1''
       \<lparr>fabrics = [\<lparr>col_version = 1, col_code = ''FAB1'', col_name = ''Cotton'', col_measure_unit = ''m'', col_offer_status = ''available'', col_status = ''ACTIVE''\<rparr>,
        \<lparr>col_version = 2, col_code = ''FAB1'', col_name = ''Old'', col_measure_unit = ''m'', col_offer_status = ''available'', col_status = ''DELETED''\<rparr>], events_table = [],
      nats_published = [], log_lines = []\<rparr> = (Inr loaded, w1) \<and>
     Fabric_Delete loaded 1 = (deleted, None) \<and>
     FabricService_DeleteFabric (NewFabricCommandService \<lparr>repo_faults = no_faults, store_faults = no_faults,
      publish_fault = (\<lambda>e. Some (DriverFailure ''nats: connection closed''))\<rparr>)
       (world_runtime (\<lambda>i. ''00000000-0000-4000-8000-000000000000'') (\<lambda>i. 7)) (Some ''rest'') ''FAB1'' 1
       \<lparr>fabrics = [\<lparr>col_version = 1, col_code = ''FAB1'', col_name = ''Cotton'', col_measure_unit = ''m'', col_offer_status = ''available'', col_status = ''ACTIVE''\<rparr>,
        \<lparr>col_version = 2, col_code = ''FAB1'', col_name = ''Old'', col_measure_unit = ''m'', col_offer_status = ''available'', col_status = ''DELETED''\<rparr>], events_table = [],
      nats_published = [], log_lines = []\<rparr> =
     (None,
      publish_envelopes (NewFabricCommandService \<lparr>repo_faults = no_faults, store_faults = no_faults,
      publish_fault = (\<lambda>e. Some (DriverFailure ''nats: connection closed''))\<rparr>)
        (world_runtime (\<lambda>i. ''00000000-0000-4000-8000-000000000000'') (\<lambda>i. 7)) ''publishing fabric deleted event failed''
        (delete_envelopes (world_runtime (\<lambda>i. ''00000000-0000-4000-8000-000000000000'') (\<lambda>i. 7)) deleted 0 (Fabric_Events deleted))
        \<lparr>fabrics = [\<lparr>col_version = 1, col_code = ''FAB1'', col_name = ''Cotton'', col_measure_unit = ''m'', col_offer_status = ''available'', col_status = ''ACTIVE''\<rparr>,
        \<lparr>col_version = 2, col_code = ''FAB1'', col_name = ''Old'', col_measure_unit = ''m'', col_offer_status = ''available'', col_status = ''DELETED''\<rparr>], events_table = [\<lparr>event_id = ''00000000-0000-4000-8000-000000000000'', aggregate_id = ''FAB1'', aggregate_type = ''Fabric'',
        event_type = ''app.fabric.deleted'', aggregate_version = 2,
        payload = FabricDeleted ''FAB1'' 2, timestamp = 7, correlation_id = [], user_id = []\<rparr>],
      nats_published = [], log_lines = []\<rparr>)"
    by (rule inst [THEN conjunct2, THEN conjunct2, THEN conjunct2, THEN conjunct1, THEN mp])
       (intro conjI ctx run_delete_event)
  then have d: "FabricService_DeleteFabric (NewFabricCommandService \<lparr>repo_faults = no_faults, store_faults = no_faults,
      publish_fault = (\<lambda>e. Some (DriverFailure ''nats: connection closed''))\<rparr>)
       (world_runtime (\<lambda>i. ''00000000-0000-4000-8000-000000000000'') (\<lambda>i. 7)) (Some ''rest'') ''FAB1'' 1
       \<lparr>fabrics = [\<lparr>col_version = 1, col_code = ''FAB1'', col_name = ''Cotton'', col_measure_unit = ''m'', col_offer_status = ''available'', col_status = ''ACTIVE''\<rparr>,
        \<lparr>col_version = 2, col_code = ''FAB1'', col_name = ''Old'', col_measure_unit = ''m'', col_offer_status = ''available'', col_status = ''DELETED''\<rparr>], events_table = [],
      nats_published = [], log_lines = []\<rparr> =
     (None,
      publish_envelopes (NewFabricCommandService \<lparr>repo_faults = no_faults, store_faults = no_faults,
      publish_fault = (\<lambda>e. Some (DriverFailure ''nats: connection closed''))\<rparr>)
        (world_runtime (\<lambda>i. ''00000000-0000-4000-8000-000000000000'') (\<lambda>i. 7)) ''publishing fabric deleted event failed''
        (delete_envelopes (world_runtime (\<lambda>i. ''00000000-0000-4000-8000-000000000000'') (\<lambda>i. 7))
           \<lparr>Code = ''FAB1'', Name = ''Cotton'', MeasureUnit = ''m'', OfferStatus = ''available'',
      Status = ''DELETED'', Version = 2,
      events = [FabricDeleted ''FAB1'' 2]\<rparr> 0
           (Fabric_Events \<lparr>Code = ''FAB1'', Name = ''Cotton'', MeasureUnit = ''m'', OfferStatus = ''available'',
      Status = ''DELETED'', Version = 2,
      events = [FabricDeleted ''FAB1'' 2]\<rparr>))
        \<lparr>fabrics = [\<lparr>col_version = 1, col_code = ''FAB1'', col_name = ''Cotton'', col_measure_unit = ''m'', col_offer_status = ''available'', col_status = ''ACTIVE''\<rparr>,
        \<lparr>col_version = 2, col_code = ''FAB1'', col_name = ''Old'', col_measure_unit = ''m'', col_offer_status = ''available'', col_status = ''DELETED''\<rparr>], events_table = [\<lparr>event_id = ''00000000-0000-4000-8000-000000000000'', aggregate_id = ''FAB1'', aggregate_type = ''Fabric'',
        event_type = ''app.fabric.deleted'', aggregate_version = 2,
        payload = FabricDeleted ''FAB1'' 2, timestamp = 7, correlation_id = [], user_id = []\<rparr>],
      nats_published = [], log_lines = []\<rparr>)"
    using run_load_and_delete by (elim exE conjE) simp
  have h: "FabricService_CreateFabric (NewFabricCommandService \<lparr>repo_faults = no_faults, store_faults = no_faults, publish_fault = (\<lambda>e. None)\<rparr>)
     (world_runtime (\<lambda>i. ''00000000-0000-4000-8000-000000000000'') (\<lambda>i. 7)) (Some ''rest'') ''FAB1'' ''Cotton'' ''m'' ''available''
     \<lparr>fabrics = [], events_table = [],
      nats_published = [], log_lines = []\<rparr> =
   (Inr \<lparr>Code = ''FAB1'', Name = ''Cotton'', MeasureUnit = ''m'', OfferStatus = ''available'',
      Status = ''ACTIVE'', Version = 1,
      events = [FabricCreated ''FAB1'' ''Cotton'' ''m'' ''available'' 1]\<rparr>,
    \<lparr>fabrics = [\<lparr>col_version = 1, col_code = ''FAB1'', col_name = ''Cotton'', col_measure_unit = ''m'', col_offer_status = ''available'', col_status = ''ACTIVE''\<rparr>], events_table = [\<lparr>event_id = ''00000000-0000-4000-8000-000000000000'', aggregate_id = ''FAB1'', aggregate_type = ''fabric'',
        event_type = ''app.fabric.created'', aggregate_version = 1,
        payload = FabricCreated ''FAB1'' ''Cotton'' ''m'' ''available'' 1, timestamp = 7, correlation_id = [], user_id = []\<rparr>],
      nats_published = [(''app.fabric'', \<lparr>EventID = ''00000000-0000-4000-8000-000000000000'', EventType = ''app.fabric.created'', AggregateID = ''FAB1'',
        AggregateType = ''fabric'', AggregateVersion = 1, EventVersion = 1, Timestamp = 7,
        CorrelationID = [], CausationID = [], UserID = [],
        Payload = Some (FabricCreated ''FAB1'' ''Cotton'' ''m'' ''available'' 1)\<rparr>)], log_lines = []\<rparr>)"
    by (simp add: eval_defs)
  have pc: "publish_envelopes (NewFabricCommandService \<lparr>repo_faults = no_faults, store_faults = no_faults,
      publish_fault = (\<lambda>e. Some (DriverFailure ''nats: connection closed''))\<rparr>)
      (world_runtime (\<lambda>i. ''00000000-0000-4000-8000-000000000000'') (\<lambda>i. 7)) ''publishing event envelope failed''
      (create_envelopes (world_runtime (\<lambda>i. ''00000000-0000-4000-8000-000000000000'') (\<lambda>i. 7))
         \<lparr>Code = ''FAB1'', Name = ''Cotton'', MeasureUnit = ''m'', OfferStatus = ''available'',
      Status = ''ACTIVE'', Version = 1,
      events = [FabricCreated ''FAB1'' ''Cotton'' ''m'' ''available'' 1]\<rparr> 0
         (Fabric_Events \<lparr>Code = ''FAB1'', Name = ''Cotton'', MeasureUnit = ''m'', OfferStatus = ''available'',
      Status = ''ACTIVE'', Version = 1,
      events = [FabricCreated ''FAB1'' ''Cotton'' ''m'' ''available'' 1]\<rparr>))
      \<lparr>fabrics = [\<lparr>col_version = 1, col_code = ''FAB1'', col_name = ''Cotton'', col_measure_unit = ''m'', col_offer_status = ''available'', col_status = ''ACTIVE''\<rparr>], events_table = [\<lparr>event_id = ''00000000-0000-4000-8000-000000000000'', aggregate_id = ''FAB1'', aggregate_type = ''fabric'',
        event_type = ''app.fabric.created'', aggregate_version = 1,
        payload = FabricCreated ''FAB1'' ''Cotton'' ''m'' ''available'' 1, timestamp = 7, correlation_id = [], user_id = []\<rparr>],
      nats_published = [], log_lines = []\<rparr> =
    \<lparr>fabrics = [\<lparr>col_version = 1, col_code = ''FAB1'', col_name = ''Cotton'', col_measure_unit = ''m'', col_offer_status = ''available'', col_status = ''ACTIVE''\<rparr>], events_table = [\<lparr>event_id = ''00000000-0000-4000-8000-000000000000'', aggregate_id = ''FAB1'', aggregate_type = ''fabric'',
        event_type = ''app.fabric.created'', aggregate_version = 1,
        payload = FabricCreated ''FAB1'' ''Cotton'' ''m'' ''available'' 1, timestamp = 7, correlation_id = [], user_id = []\<rparr>],
      nats_published = [], log_lines = [(''ERROR'', ''publishing event envelope failed'')]\<rparr>"
    by (simp add: eval_defs)
  have pu: "publish_envelopes (NewFabricCommandService \<lparr>repo_faults = no_faults, store_faults = no_faults,
      publish_fault = (\<lambda>e. Some (DriverFailure ''nats: connection closed''))\<rparr>)
      (world_runtime (\<lambda>i. ''00000000-0000-4000-8000-000000000000'') (\<lambda>i. 7)) ''publishing fabric updated event failed''
      (update_envelopes (world_runtime (\<lambda>i. ''00000000-0000-4000-8000-000000000000'') (\<lambda>i. 7))
         \<lparr>Code = ''FAB1'', Name = ''Silk'', MeasureUnit = ''m'', OfferStatus = ''available'',
      Status = ''ACTIVE'', Version = 2,
      events = [FabricUpdated ''FAB1'' ''Silk'' ''m'' ''available'' 2]\<rparr> 0
         (Fabric_Events \<lparr>Code = ''FAB1'', Name = ''Silk'', MeasureUnit = ''m'', OfferStatus = ''available'',
      Status = ''ACTIVE'', Version = 2,
      events = [FabricUpdated ''FAB1'' ''Silk'' ''m'' ''available'' 2]\<rparr>))
      \<lparr>fabrics = [\<lparr>col_version = 2, col_code = ''FAB1'', col_name = ''Silk'', col_measure_unit = ''m'', col_offer_status = ''available'', col_status = ''ACTIVE''\<rparr>], events_table = [\<lparr>event_id = ''00000000-0000-4000-8000-000000000000'', aggregate_id = ''FAB1'', aggregate_type = ''Fabric'',
        event_type = ''app.fabric.updated'', aggregate_version = 2,
        payload = FabricUpdated ''FAB1'' ''Silk'' ''m'' ''available'' 2, timestamp = 7, correlation_id = [], user_id = []\<rparr>],
      nats_published = [], log_lines = []\<rparr> =
    \<lparr>fabrics = [\<lparr>col_version = 2, col_code = ''FAB1'', col_name = ''Silk'', col_measure_unit = ''m'', col_offer_status = ''available'', col_status = ''ACTIVE''\<rparr>], events_table = [\<lparr>event_id = ''00000000-0000-4000-8000-000000000000'', aggregate_id = ''FAB1'', aggregate_type = ''Fabric'',
        event_type = ''app.fabric.updated'', aggregate_version = 2,
        payload = FabricUpdated ''FAB1'' ''Silk'' ''m'' ''available'' 2, timestamp = 7, correlation_id = [], user_id = []\<rparr>],
      nats_published = [], log_lines = [(''ERROR'', ''publishing fabric updated event failed'')]\<rparr>"
    by (simp add: eval_defs)
  have pd: "publish_envelopes (NewFabricCommandService \<lparr>repo_faults = no_faults, store_faults = no_faults,
      publish_fault = (\<lambda>e. Some (DriverFailure ''nats: connection closed''))\<rparr>)
        (world_runtime (\<lambda>i. ''00000000-0000-4000-8000-000000000000'') (\<lambda>i. 7)) ''publishing fabric deleted event failed''
        (delete_envelopes (world_runtime (\<lambda>i. ''00000000-0000-4000-8000-000000000000'') (\<lambda>i. 7))
           \<lparr>Code = ''FAB1'', Name = ''Cotton'', MeasureUnit = ''m'', OfferStatus = ''available'',
      Status = ''DELETED'', Version = 2,
      events = [FabricDeleted ''FAB1'' 2]\<rparr> 0
           (Fabric_Events \<lparr>Code = ''FAB1'', Name = ''Cotton'', MeasureUnit = ''m'', OfferStatus = ''available'',
      Status = ''DELETED'', Version = 2,
      events = [FabricDeleted ''FAB1'' 2]\<rparr>))
        \<lparr>fabrics = [\<lparr>col_version = 1, col_code = ''FAB1'', col_name = ''Cotton'', col_measure_unit = ''m'', col_offer_status = ''available'', col_status = ''ACTIVE''\<rparr>,
        \<lparr>col_version = 2, col_code = ''FAB1'', col_name = ''Old'', col_measure_unit = ''m'', col_offer_status = ''available'', col_status = ''DELETED''\<rparr>], events_table = [\<lparr>event_id = ''00000000-0000-4000-8000-000000000000'', aggregate_id = ''FAB1'', aggregate_type = ''Fabric'',
        event_type = ''app.fabric.deleted'', aggregate_version = 2,
        payload = FabricDeleted ''FAB1'' 2, timestamp = 7, correlation_id = [], user_id = []\<rparr>],
      nats_published = [], log_lines = []\<rparr> =
    \<lparr>fabrics = [\<lparr>col_version = 1, col_code = ''FAB1'', col_name = ''Cotton'', col_measure_unit = ''m'', col_offer_status = ''available'', col_status = ''ACTIVE''\<rparr>,
        \<lparr>col_version = 2, col_code = ''FAB1'', col_name = ''Old'', col_measure_unit = ''m'', col_offer_status = ''available'', col_status = ''DELETED''\<rparr>], events_table = [\<lparr>event_id = ''00000000-0000-4000-8000-000000000000'', aggregate_id = ''FAB1'', aggregate_type = ''Fabric'',
        event_type = ''app.fabric.deleted'', aggregate_version = 2,
        payload = FabricDeleted ''FAB1'' 2, timestamp = 7, correlation_id = [], user_id = []\<rparr>],
      nats_published = [], log_lines = [(''ERROR'', ''publishing fabric deleted event failed'')]\<rparr>"
    by (simp add: eval_defs)
  show ?thesis
    by (intro conjI ctx run_create_event c [unfolded pc] u [unfolded pu] d [unfolded pd] h)
qed

lemma IsFromREST_untagged:
  "IsFromREST context_Background = IsFromREST (WithCommandSource ctx CommandSourceREST)"
  by (simp add: GetCommandSource_def IsFromREST_def context_Background_def WithCommandSource_def)

lemma CreateFabric_ctx:
  "IsFromREST ctx = IsFromREST ctx' \<Longrightarrow>
   FabricService_CreateFabric s rt ctx code name mu os w =
   FabricService_CreateFabric s rt ctx' code name mu os w"
  by (simp add: FabricService_CreateFabric_def Let_def
        split: sum.splits prod.splits option.splits)

lemma UpdateFabric_ctx:
  "IsFromREST ctx = IsFromREST ctx' \<Longrightarrow>
   FabricService_UpdateFabric s rt ctx code name mu os v w =
   FabricService_UpdateFabric s rt ctx' code name mu os v w"
  by (simp add: FabricService_UpdateFabric_def Let_def
        split: sum.splits prod.splits option.splits)

lemma DeleteFabric_ctx:
  "IsFromREST ctx = IsFromREST ctx' \<Longrightarrow>
   FabricService_DeleteFabric s rt ctx code v w =
   FabricService_DeleteFabric s rt ctx' code v w"
  by (simp add: FabricService_DeleteFabric_def Let_def
        split: sum.splits prod.splits option.splits)

text \<open>
  C10. On a context in which no command source was ever set (\<open>context.Background()\<close>, and
  in this model every context without the key), \<open>GetCommandSource\<close> returns the REST
  source and \<open>IsFromREST\<close> is true; each of the three commands then returns the same
  result and leaves the same world, publisher included, as with a context tagged
  \<open>CommandSourceREST\<close>.
\<close>

theorem untagged_context_counts_as_REST:
  "GetCommandSource context_Background = CommandSourceREST \<and>
   IsFromREST context_Background \<and>
   FabricService_CreateFabric s rt context_Background code name measureUnit offerStatus w =
     FabricService_CreateFabric s rt (WithCommandSource ctx CommandSourceREST) code name
       measureUnit offerStatus w \<and>
   FabricService_UpdateFabric s rt context_Background code name measureUnit offerStatus version w =
     FabricService_UpdateFabric s rt (WithCommandSource ctx CommandSourceREST) code name
       measureUnit offerStatus version w \<and>
   FabricService_DeleteFabric s rt context_Background code version w =
     FabricService_DeleteFabric s rt (WithCommandSource ctx CommandSourceREST) code version w"
proof (intro conjI)
  show "GetCommandSource context_Background = CommandSourceREST"
    by (simp add: GetCommandSource_def context_Background_def)
  show "IsFromREST context_Background"
    by (simp add: IsFromREST_def GetCommandSource_def context_Background_def)
qed (rule CreateFabric_ctx UpdateFabric_ctx DeleteFabric_ctx, rule IsFromREST_untagged)+

theorem untagged_context_counts_as_REST_witness:
  "FabricService_CreateFabric (NewFabricCommandService \<lparr>repo_faults = no_faults, store_faults = no_faults, publish_fault = (\<lambda>e. None)\<rparr>)
     (world_runtime (\<lambda>i. ''00000000-0000-4000-8000-000000000000'') (\<lambda>i. 7)) context_Background ''FAB1'' ''Cotton'' ''m'' ''available''
     \<lparr>fabrics = [], events_table = [],
      nats_published = [], log_lines = []\<rparr> =
   (Inr \<lparr>Code = ''FAB1'', Name = ''Cotton'', MeasureUnit = ''m'', OfferStatus = ''available'',
      Status = ''ACTIVE'', Version = 1,
      events = [FabricCreated ''FAB1'' ''Cotton'' ''m'' ''available'' 1]\<rparr>,
    \<lparr>fabrics = [\<lparr>col_version = 1, col_code = ''FAB1'', col_name = ''Cotton'', col_measure_unit = ''m'', col_offer_status = ''available'', col_status = ''ACTIVE''\<rparr>], events_table = [\<lparr>event_id = ''00000000-0000-4000-8000-000000000000'', aggregate_id = ''FAB1'', aggregate_type = ''fabric'',
        event_type = ''app.fabric.created'', aggregate_version = 1,
        payload = FabricCreated ''FAB1'' ''Cotton'' ''m'' ''available'' 1, timestamp = 7, correlation_id = [], user_id = []\<rparr>],
      nats_published = [(''app.fabric'', \<lparr>EventID = ''00000000-0000-4000-8000-000000000000'', EventType = ''app.fabric.created'', AggregateID = ''FAB1'',
        AggregateType = ''fabric'', AggregateVersion = 1, EventVersion = 1, Timestamp = 7,
        CorrelationID = [], CausationID = [], UserID = [],
        Payload = Some (FabricCreated ''FAB1'' ''Cotton'' ''m'' ''available'' 1)\<rparr>)], log_lines = []\<rparr>) \<and>
   FabricService_CreateFabric (NewFabricCommandService \<lparr>repo_faults = no_faults, store_faults = no_faults, publish_fault = (\<lambda>e. None)\<rparr>)
     (world_runtime (\<lambda>i. ''00000000-0000-4000-8000-000000000000'') (\<lambda>i. 7)) (WithCommandSource context_Background CommandSourceREST)
     ''FAB1'' ''Cotton'' ''m'' ''available''
     \<lparr>fabrics = [], events_table = [],
      nats_published = [], log_lines = []\<rparr> =
   (Inr \<lparr>Code = ''FAB1'', Name = ''Cotton'', MeasureUnit = ''m'', OfferStatus = ''available'',
      Status = ''ACTIVE'', Version = 1,
      events = [FabricCreated ''FAB1'' ''Cotton'' ''m'' ''available'' 1]\<rparr>,
    \<lparr>fabrics = [\<lparr>col_version = 1, col_code = ''FAB1'', col_name = ''Cotton'', col_measure_unit = ''m'', col_offer_status = ''available'', col_status = ''ACTIVE''\<rparr>], events_table = [\<lparr>event_id = ''00000000-0000-4000-8000-000000000000'', aggregate_id = ''FAB1'', aggregate_type = ''fabric'',
        event_type = ''app.fabric.created'', aggregate_version = 1,
        payload = FabricCreated ''FAB1'' ''Cotton'' ''m'' ''available'' 1, timestamp = 7, correlation_id = [], user_id = []\<rparr>],
      nats_published = [(''app.fabric'', \<lparr>EventID = ''00000000-0000-4000-8000-000000000000'', EventType = ''app.fabric.created'', AggregateID = ''FAB1'',
        AggregateType = ''fabric'', AggregateVersion = 1, EventVersion = 1, Timestamp = 7,
        CorrelationID = [], CausationID = [], UserID = [],
        Payload = Some (FabricCreated ''FAB1'' ''Cotton'' ''m'' ''available'' 1)\<rparr>)], log_lines = []\<rparr>) \<and>
   FabricService_CreateFabric (NewFabricCommandService \<lparr>repo_faults = no_faults, store_faults = no_faults, publish_fault = (\<lambda>e. None)\<rparr>)
     (world_runtime (\<lambda>i. ''00000000-0000-4000-8000-000000000000'') (\<lambda>i. 7)) (WithCommandSource context_Background CommandSourceEvent)
     ''FAB1'' ''Cotton'' ''m'' ''available''
     \<lparr>fabrics = [], events_table = [],
      nats_published = [], log_lines = []\<rparr> =
   (Inr \<lparr>Code = ''FAB1'', Name = ''Cotton'', MeasureUnit = ''m'', OfferStatus = ''available'',
      Status = ''ACTIVE'', Version = 1,
      events = [FabricCreated ''FAB1'' ''Cotton'' ''m'' ''available'' 1]\<rparr>,
    \<lparr>fabrics = [\<lparr>col_version = 1, col_code = ''FAB1'', col_name = ''Cotton'', col_measure_unit = ''m'', col_offer_status = ''available'', col_status = ''ACTIVE''\<rparr>], events_table = [\<lparr>event_id = ''00000000-0000-4000-8000-000000000000'', aggregate_id = ''FAB1'', aggregate_type = ''fabric'',
        event_type = ''app.fabric.created'', aggregate_version = 1,
        payload = FabricCreated ''FAB1'' ''Cotton'' ''m'' ''available'' 1, timestamp = 7, correlation_id = [], user_id = []\<rparr>],
      nats_published = [], log_lines = []\<rparr>)"
proof -
  have r: "FabricService_CreateFabric (NewFabricCommandService \<lparr>repo_faults = no_faults, store_faults = no_faults, publish_fault = (\<lambda>e. None)\<rparr>)
     (world_runtime (\<lambda>i. ''00000000-0000-4000-8000-000000000000'') (\<lambda>i. 7)) (WithCommandSource context_Background CommandSourceREST)
     ''FAB1'' ''Cotton'' ''m'' ''available''
     \<lparr>fabrics = [], events_table = [],
      nats_published = [], log_lines = []\<rparr> =
   (Inr \<lparr>Code = ''FAB1'', Name = ''Cotton'', MeasureUnit = ''m'', OfferStatus = ''available'',
      Status = ''ACTIVE'', Version = 1,
      events = [FabricCreated ''FAB1'' ''Cotton'' ''m'' ''available'' 1]\<rparr>,
    \<lparr>fabrics = [\<lparr>col_version = 1, col_code = ''FAB1'', col_name = ''Cotton'', col_measure_unit = ''m'', col_offer_status = ''available'', col_status = ''ACTIVE''\<rparr>], events_table = [\<lparr>event_id = ''00000000-0000-4000-8000-000000000000'', aggregate_id = ''FAB1'', aggregate_type = ''fabric'',
        event_type = ''app.fabric.created'', aggregate_version = 1,
        payload = FabricCreated ''FAB1'' ''Cotton'' ''m'' ''available'' 1, timestamp = 7, correlation_id = [], user_id = []\<rparr>],
      nats_published = [(''app.fabric'', \<lparr>EventID = ''00000000-0000-4000-8000-000000000000'', EventType = ''app.fabric.created'', AggregateID = ''FAB1'',
        AggregateType = ''fabric'', AggregateVersion = 1, EventVersion = 1, Timestamp = 7,
        CorrelationID = [], CausationID = [], UserID = [],
        Payload = Some (FabricCreated ''FAB1'' ''Cotton'' ''m'' ''available'' 1)\<rparr>)], log_lines = []\<rparr>)"
    by (simp add: eval_defs)
  have e: "FabricService_CreateFabric (NewFabricCommandService \<lparr>repo_faults = no_faults, store_faults = no_faults, publish_fault = (\<lambda>e. None)\<rparr>)
     (world_runtime (\<lambda>i. ''00000000-0000-4000-8000-000000000000'') (\<lambda>i. 7)) (WithCommandSource context_Background CommandSourceEvent)
     ''FAB1'' ''Cotton'' ''m'' ''available''
     \<lparr>fabrics = [], events_table = [],
      nats_published = [], log_lines = []\<rparr> =
   (Inr \<lparr>Code = ''FAB1'', Name = ''Cotton'', MeasureUnit = ''m'', OfferStatus = ''available'',
      Status = ''ACTIVE'', Version = 1,
      events = [FabricCreated ''FAB1'' ''Cotton'' ''m'' ''available'' 1]\<rparr>,
    \<lparr>fabrics = [\<lparr>col_version = 1, col_code = ''FAB1'', col_name = ''Cotton'', col_measure_unit = ''m'', col_offer_status = ''available'', col_status = ''ACTIVE''\<rparr>], events_table = [\<lparr>event_id = ''00000000-0000-4000-8000-000000000000'', aggregate_id = ''FAB1'', aggregate_type = ''fabric'',
        event_type = ''app.fabric.created'', aggregate_version = 1,
        payload = FabricCreated ''FAB1'' ''Cotton'' ''m'' ''available'' 1, timestamp = 7, correlation_id = [], user_id = []\<rparr>],
      nats_published = [], log_lines = []\<rparr>)"
    by (simp add: eval_defs)
  note u = untagged_context_counts_as_REST
    [where s = "NewFabricCommandService \<lparr>repo_faults = no_faults, store_faults = no_faults, publish_fault = (\<lambda>e. None)\<rparr>"
       and rt = "(world_runtime (\<lambda>i. ''00000000-0000-4000-8000-000000000000'') (\<lambda>i. 7))"
       and ctx = context_Background
       and code = "''FAB1''" and name = "''Cotton''" and measureUnit = "''m''"
       and offerStatus = "''available''"
       and w = "\<lparr>fabrics = [], events_table = [],
      nats_published = [], log_lines = []\<rparr>",
     THEN conjunct2, THEN conjunct2, THEN conjunct1]
  show ?thesis
    by (intro conjI r e u [unfolded r])
qed

section \<open>Properties of the repository\<close>

lemma sql_update_no_match:
  "\<forall>r\<in>set tbl. \<not> matches r \<Longrightarrow> fabrics_active_code_idx tbl \<Longrightarrow>
     sql_update None matches set_cols tbl = Inr (0, tbl)"
proof -
  assume n: "\<forall>r\<in>set tbl. \<not> matches r" and idx: "fabrics_active_code_idx tbl"
  from n have m: "map (\<lambda>r. if matches r then set_cols r else r) tbl = tbl"
    by (induction tbl) auto
  from n have f: "filter matches tbl = []"
    by (induction tbl) auto
  show ?thesis
    by (simp add: sql_update_def Let_def m f idx)
qed

lemma find_Some_in_set: "find P xs = Some x \<Longrightarrow> x \<in> set xs \<and> P x"
  by (induction xs) (auto split: if_splits)

lemma Fabric_Delete_success:
  "Fabric_Delete f v = (f', None) \<Longrightarrow>
     Code f' = Code f \<and> Version f' = Version f + 1 \<and> Status f' = ''DELETED''"
  by (auto simp: Fabric_Delete_def Let_def split: if_splits)

text \<open>
  What \<open>Update\<close> does on a healthy connection: one conditional write on the rows with the
  aggregate's code, version \<open>Version - 1\<close> and status ACTIVE, which sets the four columns;
  \<open>ErrRecordNotFound\<close> exactly when no row matched.
\<close>

lemma Update_conditional_write:
  assumes "on_exec flt 0 = None" and "on_rows_affected flt = None"
    and "fabrics_active_code_idx tbl"
  shows "FabricPostgresRepository_Update flt fabric tbl =
     ((if \<exists>r\<in>set tbl. col_code r = Code fabric \<and> col_version r = Version fabric - 1 \<and>
                         col_status r = ''ACTIVE''
       then None else Some ErrRecordNotFound),
      map (\<lambda>r. if col_code r = Code fabric \<and> col_version r = Version fabric - 1 \<and>
                   col_status r = ''ACTIVE''
                then r\<lparr>col_name := Name fabric, col_measure_unit := MeasureUnit fabric,
                       col_offer_status := OfferStatus fabric, col_version := Version fabric\<rparr>
                else r) tbl)"
proof -
  let ?m = "\<lambda>r. col_code r = Code fabric \<and> col_version r = Version fabric - 1 \<and>
                 col_status r = ''ACTIVE''"
  let ?u = "\<lambda>r. r\<lparr>col_name := Name fabric, col_measure_unit := MeasureUnit fabric,
                    col_offer_status := OfferStatus fabric, col_version := Version fabric\<rparr>"
  have keep: "map col_code (filter (\<lambda>r. col_status r = ''ACTIVE'')
                 (map (\<lambda>r. if ?m r then ?u r else r) xs)) =
              map col_code (filter (\<lambda>r. col_status r = ''ACTIVE'') xs)" for xs
    by (induction xs) auto
  have idx: "fabrics_active_code_idx (map (\<lambda>r. if ?m r then ?u r else r) tbl)"
    using assms(3) by (simp only: fabrics_active_code_idx_def keep)
  show ?thesis
    unfolding FabricPostgresRepository_Update_def sql_update_def Let_def
    using assms(1,2) idx by (auto simp: filter_empty_conv)
qed

text \<open>
  C1. The claim is that \<open>Update\<close> and \<open>Delete\<close> both match the stored row by the
  aggregate's code and its new version minus one. \<open>Update\<close> does (lemma
  \<open>Update_conditional_write\<close>). \<open>Delete\<close> compares the stored version with the
  aggregate's new version itself: after a successful aggregate-level \<open>Delete\<close> of the row
  loaded for a code, in a table holding no other row for that code, the repository's
  \<open>Delete\<close> on a healthy connection matches nothing, leaves the table as it is and reports
  \<open>ErrRecordNotFound\<close>.
\<close>

theorem repository_Delete_misses_loaded_row:
  assumes "r \<in> set tbl"
    and "\<forall>r'\<in>set tbl. col_code r' = col_code r \<longrightarrow> r' = r"
    and "fabrics_active_code_idx tbl"
    and "Fabric_Delete (scan_fabric r) version = (deleted, None)"
    and "on_exec flt 0 = None" and "on_rows_affected flt = None"
  shows "FabricPostgresRepository_Delete flt deleted tbl = (Some ErrRecordNotFound, tbl)"
proof -
  from assms(4) have d: "Code deleted = col_code r" "Version deleted = col_version r + 1"
    using Fabric_Delete_success [of "scan_fabric r" version deleted]
    by (simp_all add: scan_fabric_def)
  have "\<not> (col_code r' = Code deleted \<and> col_version r' = Version deleted)"
    if "r' \<in> set tbl" for r'
  proof
    assume a: "col_code r' = Code deleted \<and> col_version r' = Version deleted"
    with that assms(2) d have "r' = r" by simp
    with a d show False by simp
  qed
  then have "sql_update None (\<lambda>r. col_code r = Code deleted \<and> col_version r = Version deleted)
               (\<lambda>r. r\<lparr>col_status := StatusDeleted\<rparr>) tbl = Inr (0, tbl)"
    using assms(3) by (intro sql_update_no_match) blast+
  then show ?thesis
    using assms(5,6) by (simp add: FabricPostgresRepository_Delete_def)
qed

theorem repository_Delete_misses_loaded_row_witness:
  "Fabric_Delete (scan_fabric \<lparr>col_version = 1, col_code = ''FAB1'', col_name = ''Cotton'', col_measure_unit = ''m'', col_offer_status = ''available'', col_status = ''ACTIVE''\<rparr>) 1 =
     (\<lparr>Code = ''FAB1'', Name = ''Cotton'', MeasureUnit = ''m'', OfferStatus = ''available'',
      Status = ''DELETED'', Version = 2,
      events = [FabricDeleted ''FAB1'' 2]\<rparr>, None) \<and>
   FabricPostgresRepository_Delete no_faults
     \<lparr>Code = ''FAB1'', Name = ''Cotton'', MeasureUnit = ''m'', OfferStatus = ''available'',
      Status = ''DELETED'', Version = 2,
      events = [FabricDeleted ''FAB1'' 2]\<rparr>
     [\<lparr>col_version = 1, col_code = ''FAB1'', col_name = ''Cotton'', col_measure_unit = ''m'', col_offer_status = ''available'', col_status = ''ACTIVE''\<rparr>] =
   (Some ErrRecordNotFound,
    [\<lparr>col_version = 1, col_code = ''FAB1'', col_name = ''Cotton'', col_measure_unit = ''m'', col_offer_status = ''available'', col_status = ''ACTIVE''\<rparr>]) \<and>
   Fabric_UpdateFabric (scan_fabric \<lparr>col_version = 1, col_code = ''FAB1'', col_name = ''Cotton'', col_measure_unit = ''m'', col_offer_status = ''available'', col_status = ''ACTIVE''\<rparr>) ''Silk'' ''m'' ''available'' 1 =
     (\<lparr>Code = ''FAB1'', Name = ''Silk'', MeasureUnit = ''m'', OfferStatus = ''available'',
      Status = ''ACTIVE'', Version = 2,
      events = [FabricUpdated ''FAB1'' ''Silk'' ''m'' ''available'' 2]\<rparr>, None) \<and>
   FabricPostgresRepository_Update no_faults
     \<lparr>Code = ''FAB1'', Name = ''Silk'', MeasureUnit = ''m'', OfferStatus = ''available'',
      Status = ''ACTIVE'', Version = 2,
      events = [FabricUpdated ''FAB1'' ''Silk'' ''m'' ''available'' 2]\<rparr>
     [\<lparr>col_version = 1, col_code = ''FAB1'', col_name = ''Cotton'', col_measure_unit = ''m'', col_offer_status = ''available'', col_status = ''ACTIVE''\<rparr>] =
   (None,
    [\<lparr>col_version = 2, col_code = ''FAB1'', col_name = ''Silk'', col_measure_unit = ''m'', col_offer_status = ''available'', col_status = ''ACTIVE''\<rparr>])"
proof -
  have d: "Fabric_Delete (scan_fabric \<lparr>col_version = 1, col_code = ''FAB1'', col_name = ''Cotton'', col_measure_unit = ''m'', col_offer_status = ''available'', col_status = ''ACTIVE''\<rparr>) 1 =
     (\<lparr>Code = ''FAB1'', Name = ''Cotton'', MeasureUnit = ''m'', OfferStatus = ''available'',
      Status = ''DELETED'', Version = 2,
      events = [FabricDeleted ''FAB1'' 2]\<rparr>, None)"
    by (simp add: eval_defs)
  have "FabricPostgresRepository_Delete no_faults
     \<lparr>Code = ''FAB1'', Name = ''Cotton'', MeasureUnit = ''m'', OfferStatus = ''available'',
      Status = ''DELETED'', Version = 2,
      events = [FabricDeleted ''FAB1'' 2]\<rparr>
     [\<lparr>col_version = 1, col_code = ''FAB1'', col_name = ''Cotton'', col_measure_unit = ''m'', col_offer_status = ''available'', col_status = ''ACTIVE''\<rparr>] =
   (Some ErrRecordNotFound,
    [\<lparr>col_version = 1, col_code = ''FAB1'', col_name = ''Cotton'', col_measure_unit = ''m'', col_offer_status = ''available'', col_status = ''ACTIVE''\<rparr>])"
    by (rule repository_Delete_misses_loaded_row
          [where r = "\<lparr>col_version = 1, col_code = ''FAB1'', col_name = ''Cotton'', col_measure_unit = ''m'', col_offer_status = ''available'', col_status = ''ACTIVE''\<rparr>"
             and version = 1])
       (simp_all add: d fabrics_active_code_idx_def no_faults_def)
  moreover have "Fabric_UpdateFabric (scan_fabric \<lparr>col_version = 1, col_code = ''FAB1'', col_name = ''Cotton'', col_measure_unit = ''m'', col_offer_status = ''available'', col_status = ''ACTIVE''\<rparr>) ''Silk'' ''m'' ''available'' 1 =
     (\<lparr>Code = ''FAB1'', Name = ''Silk'', MeasureUnit = ''m'', OfferStatus = ''available'',
      Status = ''ACTIVE'', Version = 2,
      events = [FabricUpdated ''FAB1'' ''Silk'' ''m'' ''available'' 2]\<rparr>, None)"
    by (simp add: eval_defs)
  moreover have "FabricPostgresRepository_Update no_faults
     \<lparr>Code = ''FAB1'', Name = ''Silk'', MeasureUnit = ''m'', OfferStatus = ''available'',
      Status = ''ACTIVE'', Version = 2,
      events = [FabricUpdated ''FAB1'' ''Silk'' ''m'' ''available'' 2]\<rparr>
     [\<lparr>col_version = 1, col_code = ''FAB1'', col_name = ''Cotton'', col_measure_unit = ''m'', col_offer_status = ''available'', col_status = ''ACTIVE''\<rparr>] =
   (None,
    [\<lparr>col_version = 2, col_code = ''FAB1'', col_name = ''Silk'', col_measure_unit = ''m'', col_offer_status = ''available'', col_status = ''ACTIVE''\<rparr>])"
    by (simp add: eval_defs)
  ultimately show ?thesis using d by simp
qed

text \<open>
  The three branches of \<open>Save\<close> on a healthy connection: \<open>ErrDuplicateFabricCode\<close> when
  the row found for the code is ACTIVE; when it is DELETED (and the new name is valid), the
  loaded row reactivated, with the stored version plus one, written back to every row of
  that code; an insert of the new aggregate when no row has the code.
\<close>

lemma Save_branches:
  assumes "on_begin flt = None" and "on_query flt = None" and "on_exec flt 0 = None"
    and "on_commit flt = None"
  shows
    "find (\<lambda>r. col_code r = Code fabric) tbl = Some r \<Longrightarrow> col_status r = ''ACTIVE'' \<Longrightarrow>
       FabricPostgresRepository_Save flt fabric tbl = (Inl ErrDuplicateFabricCode, tbl)"
    "find (\<lambda>r. col_code r = Code fabric) tbl = Some r \<Longrightarrow> col_status r = ''DELETED'' \<Longrightarrow>
     validateName (Name fabric) = None \<Longrightarrow>
     fabrics_active_code_idx
       (map (\<lambda>r'. if col_code r' = col_code r
                   then r'\<lparr>col_name := Name fabric, col_measure_unit := MeasureUnit fabric,
                           col_offer_status := OfferStatus fabric, col_status := ''ACTIVE'',
                           col_version := col_version r + 1\<rparr>
                   else r') tbl) \<Longrightarrow>
       FabricPostgresRepository_Save flt fabric tbl =
         (Inr \<lparr>Code = col_code r, Name = Name fabric, MeasureUnit = MeasureUnit fabric,
               OfferStatus = OfferStatus fabric, Status = ''ACTIVE'',
               Version = col_version r + 1,
               events = [FabricReactivated (col_code r) (Name fabric) (MeasureUnit fabric)
                           (OfferStatus fabric) (col_version r + 1)]\<rparr>,
          map (\<lambda>r'. if col_code r' = col_code r
                   then r'\<lparr>col_name := Name fabric, col_measure_unit := MeasureUnit fabric,
                           col_offer_status := OfferStatus fabric, col_status := ''ACTIVE'',
                           col_version := col_version r + 1\<rparr>
                   else r') tbl)"
    "find (\<lambda>r. col_code r = Code fabric) tbl = None \<Longrightarrow>
     fabrics_active_code_idx
       (tbl @ [\<lparr>col_version = Version fabric, col_code = Code fabric, col_name = Name fabric,
                col_measure_unit = MeasureUnit fabric, col_offer_status = OfferStatus fabric,
                col_status = Status fabric\<rparr>]) \<Longrightarrow>
       FabricPostgresRepository_Save flt fabric tbl =
         (Inr fabric,
          tbl @ [\<lparr>col_version = Version fabric, col_code = Code fabric, col_name = Name fabric,
                  col_measure_unit = MeasureUnit fabric, col_offer_status = OfferStatus fabric,
                  col_status = Status fabric\<rparr>])"
  using assms
  by (simp_all add: FabricPostgresRepository_Save_def scan_fabric_def Fabric_Reactivate_def
        sql_update_def sql_insert_def Let_def cong: if_cong)

text \<open>
  C4. The claim ends: creating a code, deleting it and creating it again yields version 3,
  status ACTIVE and a reactivated event. Run on the wired service from an empty database
  with REST contexts: the create stores version 1; the delete at expected version 1 fails
  with \<open>ErrRecordNotFound\<close> from the repository and changes no row (the defect of C1); the
  second create then finds the row still ACTIVE at version 1 and fails with
  \<open>ErrDuplicateFabricCode\<close>. The same three steps on the repository alone, as its own test
  makes them, end the same way.
\<close>

theorem create_delete_create_scenario:
  "FabricService_CreateFabric (NewFabricCommandService \<lparr>repo_faults = no_faults, store_faults = no_faults, publish_fault = (\<lambda>e. None)\<rparr>)
     (world_runtime (\<lambda>i. ''00000000-0000-4000-8000-000000000000'') (\<lambda>i. 7)) (Some ''rest'') ''FAB1'' ''Cotton'' ''m'' ''available''
     \<lparr>fabrics = [], events_table = [],
      nats_published = [], log_lines = []\<rparr> =
   (Inr \<lparr>Code = ''FAB1'', Name = ''Cotton'', MeasureUnit = ''m'', OfferStatus = ''available'',
      Status = ''ACTIVE'', Version = 1,
      events = [FabricCreated ''FAB1'' ''Cotton'' ''m'' ''available'' 1]\<rparr>,
    \<lparr>fabrics = [\<lparr>col_version = 1, col_code = ''FAB1'', col_name = ''Cotton'', col_measure_unit = ''m'', col_offer_status = ''available'', col_status = ''ACTIVE''\<rparr>], events_table = [\<lparr>event_id = ''00000000-0000-4000-8000-000000000000'', aggregate_id = ''FAB1'', aggregate_type = ''fabric'',
        event_type = ''app.fabric.created'', aggregate_version = 1,
        payload = FabricCreated ''FAB1'' ''Cotton'' ''m'' ''available'' 1, timestamp = 7, correlation_id = [], user_id = []\<rparr>],
      nats_published = [(''app.fabric'', \<lparr>EventID = ''00000000-0000-4000-8000-000000000000'', EventType = ''app.fabric.created'', AggregateID = ''FAB1'',
        AggregateType = ''fabric'', AggregateVersion = 1, EventVersion = 1, Timestamp = 7,
        CorrelationID = [], CausationID = [], UserID = [],
        Payload = Some (FabricCreated ''FAB1'' ''Cotton'' ''m'' ''available'' 1)\<rparr>)], log_lines = []\<rparr>) \<and>
   FabricService_DeleteFabric (NewFabricCommandService \<lparr>repo_faults = no_faults, store_faults = no_faults, publish_fault = (\<lambda>e. None)\<rparr>)
     (world_runtime (\<lambda>i. ''00000000-0000-4000-8000-000000000000'') (\<lambda>i. 7)) (Some ''rest'') ''FAB1'' 1
     \<lparr>fabrics = [\<lparr>col_version = 1, col_code = ''FAB1'', col_name = ''Cotton'', col_measure_unit = ''m'', col_offer_status = ''available'', col_status = ''ACTIVE''\<rparr>], events_table = [\<lparr>event_id = ''00000000-0000-4000-8000-000000000000'', aggregate_id = ''FAB1'', aggregate_type = ''fabric'',
        event_type = ''app.fabric.created'', aggregate_version = 1,
        payload = FabricCreated ''FAB1'' ''Cotton'' ''m'' ''available'' 1, timestamp = 7, correlation_id = [], user_id = []\<rparr>],
      nats_published = [(''app.fabric'', \<lparr>EventID = ''00000000-0000-4000-8000-000000000000'', EventType = ''app.fabric.created'', AggregateID = ''FAB1'',
        AggregateType = ''fabric'', AggregateVersion = 1, EventVersion = 1, Timestamp = 7,
        CorrelationID = [], CausationID = [], UserID = [],
        Payload = Some (FabricCreated ''FAB1'' ''Cotton'' ''m'' ''available'' 1)\<rparr>)], log_lines = []\<rparr> =
   (Some (Errorf ''failed to delete fabric in repo'' ErrRecordNotFound),
    \<lparr>fabrics = [\<lparr>col_version = 1, col_code = ''FAB1'', col_name = ''Cotton'', col_measure_unit = ''m'', col_offer_status = ''available'', col_status = ''ACTIVE''\<rparr>], events_table = [\<lparr>event_id = ''00000000-0000-4000-8000-000000000000'', aggregate_id = ''FAB1'', aggregate_type = ''fabric'',
        event_type = ''app.fabric.created'', aggregate_version = 1,
        payload = FabricCreated ''FAB1'' ''Cotton'' ''m'' ''available'' 1, timestamp = 7, correlation_id = [], user_id = []\<rparr>],
      nats_published = [(''app.fabric'', \<lparr>EventID = ''00000000-0000-4000-8000-000000000000'', EventType = ''app.fabric.created'', AggregateID = ''FAB1'',
        AggregateType = ''fabric'', AggregateVersion = 1, EventVersion = 1, Timestamp = 7,
        CorrelationID = [], CausationID = [], UserID = [],
        Payload = Some (FabricCreated ''FAB1'' ''Cotton'' ''m'' ''available'' 1)\<rparr>)], log_lines = [(''ERROR'', ''deleting fabric failed'')]\<rparr>) \<and>
   FabricService_CreateFabric (NewFabricCommandService \<lparr>repo_faults = no_faults, store_faults = no_faults, publish_fault = (\<lambda>e. None)\<rparr>)
     (world_runtime (\<lambda>i. ''00000000-0000-4000-8000-000000000000'') (\<lambda>i. 7)) (Some ''rest'') ''FAB1'' ''Cotton'' ''m'' ''available''
     \<lparr>fabrics = [\<lparr>col_version = 1, col_code = ''FAB1'', col_name = ''Cotton'', col_measure_unit = ''m'', col_offer_status = ''available'', col_status = ''ACTIVE''\<rparr>], events_table = [\<lparr>event_id = ''00000000-0000-4000-8000-000000000000'', aggregate_id = ''FAB1'', aggregate_type = ''fabric'',
        event_type = ''app.fabric.created'', aggregate_version = 1,
        payload = FabricCreated ''FAB1'' ''Cotton'' ''m'' ''available'' 1, timestamp = 7, correlation_id = [], user_id = []\<rparr>],
      nats_published = [(''app.fabric'', \<lparr>EventID = ''00000000-0000-4000-8000-000000000000'', EventType = ''app.fabric.created'', AggregateID = ''FAB1'',
        AggregateType = ''fabric'', AggregateVersion = 1, EventVersion = 1, Timestamp = 7,
        CorrelationID = [], CausationID = [], UserID = [],
        Payload = Some (FabricCreated ''FAB1'' ''Cotton'' ''m'' ''available'' 1)\<rparr>)], log_lines = [(''ERROR'', ''deleting fabric failed'')]\<rparr> =
   (Inl (Errorf ''failed to save fabric'' ErrDuplicateFabricCode),
    \<lparr>fabrics = [\<lparr>col_version = 1, col_code = ''FAB1'', col_name = ''Cotton'', col_measure_unit = ''m'', col_offer_status = ''available'', col_status = ''ACTIVE''\<rparr>], events_table = [\<lparr>event_id = ''00000000-0000-4000-8000-000000000000'', aggregate_id = ''FAB1'', aggregate_type = ''fabric'',
        event_type = ''app.fabric.created'', aggregate_version = 1,
        payload = FabricCreated ''FAB1'' ''Cotton'' ''m'' ''available'' 1, timestamp = 7, correlation_id = [], user_id = []\<rparr>],
      nats_published = [(''app.fabric'', \<lparr>EventID = ''00000000-0000-4000-8000-000000000000'', EventType = ''app.fabric.created'', AggregateID = ''FAB1'',
        AggregateType = ''fabric'', AggregateVersion = 1, EventVersion = 1, Timestamp = 7,
        CorrelationID = [], CausationID = [], UserID = [],
        Payload = Some (FabricCreated ''FAB1'' ''Cotton'' ''m'' ''available'' 1)\<rparr>)], log_lines = [(''ERROR'', ''deleting fabric failed''), (''ERROR'', ''saving fabric failed'')]\<rparr>) \<and>
   FabricPostgresRepository_Save no_faults
     \<lparr>Code = ''FAB1'', Name = ''Cotton'', MeasureUnit = ''m'', OfferStatus = ''available'',
      Status = ''ACTIVE'', Version = 1,
      events = [FabricCreated ''FAB1'' ''Cotton'' ''m'' ''available'' 1]\<rparr> [] =
   (Inr \<lparr>Code = ''FAB1'', Name = ''Cotton'', MeasureUnit = ''m'', OfferStatus = ''available'',
      Status = ''ACTIVE'', Version = 1,
      events = [FabricCreated ''FAB1'' ''Cotton'' ''m'' ''available'' 1]\<rparr>,
    [\<lparr>col_version = 1, col_code = ''FAB1'', col_name = ''Cotton'', col_measure_unit = ''m'', col_offer_status = ''available'', col_status = ''ACTIVE''\<rparr>]) \<and>
   Fabric_Delete \<lparr>Code = ''FAB1'', Name = ''Cotton'', MeasureUnit = ''m'', OfferStatus = ''available'',
      Status = ''ACTIVE'', Version = 1,
      events = [FabricCreated ''FAB1'' ''Cotton'' ''m'' ''available'' 1]\<rparr> 1 =
   (\<lparr>Code = ''FAB1'', Name = ''Cotton'', MeasureUnit = ''m'', OfferStatus = ''available'',
      Status = ''DELETED'', Version = 2,
      events = [FabricCreated ''FAB1'' ''Cotton'' ''m'' ''available'' 1,
                FabricDeleted ''FAB1'' 2]\<rparr>, None) \<and>
   FabricPostgresRepository_Delete no_faults
     \<lparr>Code = ''FAB1'', Name = ''Cotton'', MeasureUnit = ''m'', OfferStatus = ''available'',
      Status = ''DELETED'', Version = 2,
      events = [FabricCreated ''FAB1'' ''Cotton'' ''m'' ''available'' 1,
                FabricDeleted ''FAB1'' 2]\<rparr>
     [\<lparr>col_version = 1, col_code = ''FAB1'', col_name = ''Cotton'', col_measure_unit = ''m'', col_offer_status = ''available'', col_status = ''ACTIVE''\<rparr>] =
   (Some ErrRecordNotFound,
    [\<lparr>col_version = 1, col_code = ''FAB1'', col_name = ''Cotton'', col_measure_unit = ''m'', col_offer_status = ''available'', col_status = ''ACTIVE''\<rparr>]) \<and>
   FabricPostgresRepository_Save no_faults
     \<lparr>Code = ''FAB1'', Name = ''Cotton'', MeasureUnit = ''m'', OfferStatus = ''available'',
      Status = ''ACTIVE'', Version = 1,
      events = [FabricCreated ''FAB1'' ''Cotton'' ''m'' ''available'' 1]\<rparr>
     [\<lparr>col_version = 1, col_code = ''FAB1'', col_name = ''Cotton'', col_measure_unit = ''m'', col_offer_status = ''available'', col_status = ''ACTIVE''\<rparr>] =
   (Inl ErrDuplicateFabricCode,
    [\<lparr>col_version = 1, col_code = ''FAB1'', col_name = ''Cotton'', col_measure_unit = ''m'', col_offer_status = ''available'', col_status = ''ACTIVE''\<rparr>])"
  by (simp add: eval_defs)

section \<open>Properties of the event store\<close>

lemma is_unique_violation_driver:
  "is_unique_violation (DriverError d) \<longleftrightarrow> d = PgError ''23505''"
  by (cases d) auto

lemma pg_int4_not_unique_violation: "pg_int4 v \<noteq> Inl (PgError ''23505'')"
  by (simp add: pg_int4_def)

lemma pg_uuid_not_unique_violation: "pg_uuid s \<noteq> Inl (PgError ''23505'')"
  by (simp add: pg_uuid_def Let_def split: option.splits prod.splits)

lemma pg_varchar_not_unique_violation: "pg_varchar n s \<noteq> Inl (PgError ''23505'')"
  by (simp add: pg_varchar_def split: option.splits)

lemma events_values_not_unique_violation:
  "events_values e \<noteq> Inl (PgError ''23505'')"
  by (auto simp: events_values_def pg_int4_not_unique_violation pg_uuid_not_unique_violation
             pg_varchar_not_unique_violation
           split: sum.splits option.splits)

lemma map_events_values_Cons:
  "map events_values (e # envs) = map Inr rows \<longleftrightarrow>
   (\<exists>r rs. rows = r # rs \<and> events_values e = Inr r \<and> map events_values envs = map Inr rs)"
  by (cases rows) auto

lemma events_insert_Inr:
  "events_insert fault e tx = Inr tx1 \<longleftrightarrow>
   (fault = None \<and>
    (\<exists>row. events_values e = Inr row \<and> events_pkey_free row tx \<and>
       unique_aggregate_version_free row tx \<and> tx1 = tx @ [row]))"
  by (auto simp: events_insert_def split: option.splits sum.splits)

lemma events_insert_unique_violation:
  "events_insert fault e tx = Inl (PgError ''23505'') \<longleftrightarrow>
   (fault = Some (PgError ''23505'') \<or>
    (fault = None \<and>
     (\<exists>row. events_values e = Inr row \<and>
        \<not> (events_pkey_free row tx \<and> unique_aggregate_version_free row tx))))"
  using events_values_not_unique_violation [of e]
  by (auto simp: events_insert_def split: option.splits sum.splits)

lemma insert_envelopes_Inr:
  "insert_envelopes flt i envs tx = Inr tx' \<Longrightarrow>
   \<exists>rows. map events_values envs = map Inr rows \<and> tx' = tx @ rows"
proof (induction envs arbitrary: i tx)
  case Nil
  then show ?case by simp
next
  case (Cons e envs)
  from Cons.prems obtain tx1 where
    ins: "events_insert (on_exec flt i) e tx = Inr tx1" and
    rest: "insert_envelopes flt (Suc i) envs tx1 = Inr tx'"
    by (auto split: sum.splits if_splits)
  from ins obtain row where row: "events_values e = Inr row" "tx1 = tx @ [row]"
    by (auto simp: events_insert_Inr)
  from Cons.IH [OF rest] obtain rs where
    rs: "map events_values envs = map Inr rs" "tx' = tx1 @ rs"
    by blast
  from row rs have "map events_values (e # envs) = map Inr (row # rs) \<and> tx' = tx @ row # rs"
    by simp
  then show ?case by blast
qed

lemma insert_envelopes_all:
  "\<forall>j<length envs. on_exec flt (i + j) = None \<Longrightarrow>
   map events_values envs = map Inr rows \<Longrightarrow>
   distinct (map event_id (tx @ rows)) \<Longrightarrow>
   distinct (map (\<lambda>r. (aggregate_id r, aggregate_version r)) (tx @ rows)) \<Longrightarrow>
   insert_envelopes flt i envs tx = Inr (tx @ rows)"
proof (induction envs arbitrary: i tx rows)
  case Nil
  then show ?case by simp
next
  case (Cons e envs)
  from Cons.prems(2) obtain r rs where
    rows: "rows = r # rs" and r: "events_values e = Inr r" and
    rs: "map events_values envs = map Inr rs"
    by (auto simp: map_events_values_Cons)
  from Cons.prems(1) have f0: "on_exec flt i = None" by force
  have a: "\<forall>j<length envs. on_exec flt (Suc i + j) = None"
    using Cons.prems(1) by force
  from Cons.prems(3) rows have pk: "events_pkey_free r tx"
    by (auto simp: events_pkey_free_def)
  from Cons.prems(4) rows have uq: "unique_aggregate_version_free r tx"
    by (auto simp: unique_aggregate_version_free_def)
  from f0 r pk uq have "insert_envelopes flt i (e # envs) tx =
      insert_envelopes flt (Suc i) envs (tx @ [r])"
    by (simp add: events_insert_def)
  moreover have "insert_envelopes flt (Suc i) envs (tx @ [r]) = Inr ((tx @ [r]) @ rs)"
    using Cons.prems(3,4) rows by (intro Cons.IH [OF a rs]) simp_all
  ultimately show ?case using rows by simp
qed

text \<open>
  On a connection without failures of its own, a batch of admissible rows that cannot be
  added without repeating a value of \<open>f\<close> is refused as a conflict, for every column or
  tuple of columns \<open>f\<close> on which a successful insert leaves the table free of repetitions.
\<close>

lemma insert_envelopes_repetition:
  assumes free: "\<And>r t. events_pkey_free r t \<Longrightarrow> unique_aggregate_version_free r t \<Longrightarrow>
                   f r \<notin> set (map f t)"
  shows "\<forall>j<length envs. on_exec flt (i + j) = None \<Longrightarrow>
   map events_values envs = map Inr rows \<Longrightarrow>
   distinct (map f tx) \<Longrightarrow>
   \<not> distinct (map f (tx @ rows)) \<Longrightarrow>
   insert_envelopes flt i envs tx = Inl eventstore_ErrConcurrencyConflict"
proof (induction envs arbitrary: i tx rows)
  case Nil
  then show ?case by simp
next
  case (Cons e envs)
  from Cons.prems(2) obtain r rs where
    rows: "rows = r # rs" and r: "events_values e = Inr r" and
    rs: "map events_values envs = map Inr rs"
    by (auto simp: map_events_values_Cons)
  from Cons.prems(1) have f0: "on_exec flt i = None" by force
  show ?case
  proof (cases "events_pkey_free r tx \<and> unique_aggregate_version_free r tx")
    case False
    with f0 r show ?thesis
      by (auto simp: events_insert_def)
  next
    case True
    have a: "\<forall>j<length envs. on_exec flt (Suc i + j) = None"
      using Cons.prems(1) by force
    from True have "f r \<notin> set (map f tx)" by (intro free) simp_all
    with Cons.prems(3) have c: "distinct (map f (tx @ [r]))" by simp
    from Cons.prems(4) rows have d: "\<not> distinct (map f ((tx @ [r]) @ rs))" by simp
    from True f0 r have "insert_envelopes flt i (e # envs) tx =
        insert_envelopes flt (Suc i) envs (tx @ [r])"
      by (simp add: events_insert_def)
    with Cons.IH [OF a rs c d] show ?thesis by simp
  qed
qed

lemma insert_envelopes_conflict:
  "insert_envelopes flt k envs tx = Inl err \<Longrightarrow>
   errors_Is err eventstore_ErrConcurrencyConflict \<Longrightarrow>
   \<exists>i<length envs. \<exists>rows.
     map events_values (take i envs) = map Inr rows \<and>
     (on_exec flt (k + i) = Some (PgError ''23505'') \<or>
      (\<exists>row. events_values (envs ! i) = Inr row \<and>
         (event_id row \<in> set (map event_id (tx @ rows)) \<or>
          (aggregate_id row, aggregate_version row) \<in>
            set (map (\<lambda>r. (aggregate_id r, aggregate_version r)) (tx @ rows)))))"
proof (induction envs arbitrary: k tx)
  case Nil
  then show ?case by simp
next
  case (Cons e envs)
  show ?case
  proof (cases "events_insert (on_exec flt k) e tx")
    case (Inl d)
    with Cons.prems have "d = PgError ''23505''"
      by (auto simp: is_unique_violation_driver split: if_splits)
    with Inl have "on_exec flt k = Some (PgError ''23505'') \<or>
        (\<exists>row. events_values e = Inr row \<and>
           \<not> (events_pkey_free row tx \<and> unique_aggregate_version_free row tx))"
      by (auto simp: events_insert_unique_violation)
    then have "map events_values (take 0 (e # envs)) = map Inr [] \<and>
        (on_exec flt (k + 0) = Some (PgError ''23505'') \<or>
         (\<exists>row. events_values ((e # envs) ! 0) = Inr row \<and>
            (event_id row \<in> set (map event_id (tx @ [])) \<or>
             (aggregate_id row, aggregate_version row) \<in>
               set (map (\<lambda>r. (aggregate_id r, aggregate_version r)) (tx @ [])))))"
      by (auto simp: events_pkey_free_def unique_aggregate_version_free_def)
    then show ?thesis by (intro exI [of _ 0] exI [of _ "[]"] conjI) simp_all
  next
    case (Inr tx1)
    then obtain row where row: "events_values e = Inr row" "tx1 = tx @ [row]"
      by (auto simp: events_insert_Inr)
    from Inr Cons.prems(1) have rest: "insert_envelopes flt (Suc k) envs tx1 = Inl err"
      by simp
    from Cons.IH [OF rest Cons.prems(2)] obtain i rs where
      i: "i < length envs" and
      rs: "map events_values (take i envs) = map Inr rs" and
      hit: "on_exec flt (Suc k + i) = Some (PgError ''23505'') \<or>
        (\<exists>r. events_values (envs ! i) = Inr r \<and>
           (event_id r \<in> set (map event_id (tx1 @ rs)) \<or>
            (aggregate_id r, aggregate_version r) \<in>
              set (map (\<lambda>r. (aggregate_id r, aggregate_version r)) (tx1 @ rs))))"
      by blast
    from i rs hit row have "Suc i < length (e # envs) \<and>
        map events_values (take (Suc i) (e # envs)) = map Inr (row # rs) \<and>
        (on_exec flt (k + Suc i) = Some (PgError ''23505'') \<or>
         (\<exists>r. events_values ((e # envs) ! Suc i) = Inr r \<and>
            (event_id r \<in> set (map event_id (tx @ row # rs)) \<or>
             (aggregate_id r, aggregate_version r) \<in>
               set (map (\<lambda>r. (aggregate_id r, aggregate_version r)) (tx @ row # rs)))))"
      by simp
    then show ?thesis by blast
  qed
qed

lemma insert_envelopes_Inl:
  "insert_envelopes flt k envs tx = Inl err \<Longrightarrow>
   err = eventstore_ErrConcurrencyConflict \<or>
   (\<exists>msg d. err = Errorf msg (DriverError d) \<and> d \<noteq> PgError ''23505'')"
proof (induction envs arbitrary: k tx)
  case Nil
  then show ?case by simp
next
  case (Cons e envs)
  then show ?case
    by (auto simp: is_unique_violation_driver split: sum.splits if_splits)
qed

lemma PostgresStore_Save_healthy:
  "on_begin flt = None \<Longrightarrow> on_prepare flt = None \<Longrightarrow>
   insert_envelopes flt 0 envelopes tbl = Inl err \<Longrightarrow>
   PostgresStore_Save flt envelopes tbl = (Some err, tbl)"
  by (simp add: PostgresStore_Save_def)

text \<open>
  C5, amended. \<open>PostgresStore.Save\<close> is all or nothing: when it returns \<open>nil\<close> the table has
  gained the row of every envelope of the batch, in order; when it returns an error the
  table is as before. On a connection without failures of its own, a batch of admissible
  rows that repeats neither an \<open>event_id\<close> nor an (aggregate, version) pair is recorded.
  A batch of admissible rows that would break \<open>unique_aggregate_version\<close>, against the
  table or within itself, gets \<open>ErrConcurrencyConflict\<close>; so does one that would break the
  primary key on \<open>event_id\<close>, which has nothing to do with the aggregate's version: \<open>Save\<close>
  tells the two apart no more than their common SQLSTATE 23505 does. Conversely \<open>Save\<close>
  returns \<open>ErrConcurrencyConflict\<close>, and no error wrapping it, only for a unique violation:
  one the driver reports, or a row that repeats the \<open>event_id\<close> or the (aggregate, version)
  pair of a row of the table or of an earlier envelope of the batch. Every other failure
  (begin, prepare, commit, a value refused by a column's type or by \<open>NOT NULL\<close>, any other
  failure of a statement) is returned as a different error.
\<close>

theorem PostgresStore_Save_conflict_on_unique_violation:
  "(PostgresStore_Save flt envelopes tbl = (None, tbl') \<longrightarrow>
      (\<exists>rs. map events_values envelopes = map Inr rs \<and> tbl' = tbl @ rs)) \<and>
   (PostgresStore_Save flt envelopes tbl = (Some err, tbl') \<longrightarrow> tbl' = tbl) \<and>
   (on_begin flt = None \<and> on_prepare flt = None \<and>
    (\<forall>j<length envelopes. on_exec flt j = None) \<and> on_commit flt = None \<and>
    map events_values envelopes = map Inr rows \<and>
    distinct (map event_id (tbl @ rows)) \<and>
    distinct (map (\<lambda>r. (aggregate_id r, aggregate_version r)) (tbl @ rows))
    \<longrightarrow> PostgresStore_Save flt envelopes tbl = (None, tbl @ rows)) \<and>
   (on_begin flt = None \<and> on_prepare flt = None \<and>
    (\<forall>j<length envelopes. on_exec flt j = None) \<and>
    map events_values envelopes = map Inr rows \<and>
    distinct (map (\<lambda>r. (aggregate_id r, aggregate_version r)) tbl) \<and>
    \<not> distinct (map (\<lambda>r. (aggregate_id r, aggregate_version r)) (tbl @ rows))
    \<longrightarrow> PostgresStore_Save flt envelopes tbl = (Some eventstore_ErrConcurrencyConflict, tbl)) \<and>
   (on_begin flt = None \<and> on_prepare flt = None \<and>
    (\<forall>j<length envelopes. on_exec flt j = None) \<and>
    map events_values envelopes = map Inr rows \<and>
    distinct (map event_id tbl) \<and>
    \<not> distinct (map event_id (tbl @ rows))
    \<longrightarrow> PostgresStore_Save flt envelopes tbl = (Some eventstore_ErrConcurrencyConflict, tbl)) \<and>
   (PostgresStore_Save flt envelopes tbl = (Some err, tbl') \<and>
    errors_Is err eventstore_ErrConcurrencyConflict
    \<longrightarrow> err = eventstore_ErrConcurrencyConflict \<and>
        (\<exists>i<length envelopes. \<exists>rs.
           map events_values (take i envelopes) = map Inr rs \<and>
           (on_exec flt i = Some (PgError ''23505'') \<or>
            (\<exists>row. events_values (envelopes ! i) = Inr row \<and>
               (event_id row \<in> set (map event_id (tbl @ rs)) \<or>
                (aggregate_id row, aggregate_version row) \<in>
                  set (map (\<lambda>r. (aggregate_id r, aggregate_version r)) (tbl @ rs)))))))"
proof (intro conjI impI)
  assume "PostgresStore_Save flt envelopes tbl = (None, tbl')"
  then have "insert_envelopes flt 0 envelopes tbl = Inr tbl'"
    by (auto simp: PostgresStore_Save_def split: option.splits sum.splits)
  then show "\<exists>rs. map events_values envelopes = map Inr rs \<and> tbl' = tbl @ rs"
    by (rule insert_envelopes_Inr)
next
  assume "PostgresStore_Save flt envelopes tbl = (Some err, tbl')"
  then show "tbl' = tbl"
    by (auto simp: PostgresStore_Save_def split: option.splits sum.splits)
next
  assume a: "on_begin flt = None \<and> on_prepare flt = None \<and>
    (\<forall>j<length envelopes. on_exec flt j = None) \<and> on_commit flt = None \<and>
    map events_values envelopes = map Inr rows \<and>
    distinct (map event_id (tbl @ rows)) \<and>
    distinct (map (\<lambda>r. (aggregate_id r, aggregate_version r)) (tbl @ rows))"
  then have "insert_envelopes flt 0 envelopes tbl = Inr (tbl @ rows)"
    by (intro insert_envelopes_all) simp_all
  with a show "PostgresStore_Save flt envelopes tbl = (None, tbl @ rows)"
    by (simp add: PostgresStore_Save_def)
next
  assume a: "on_begin flt = None \<and> on_prepare flt = None \<and>
    (\<forall>j<length envelopes. on_exec flt j = None) \<and>
    map events_values envelopes = map Inr rows \<and>
    distinct (map (\<lambda>r. (aggregate_id r, aggregate_version r)) tbl) \<and>
    \<not> distinct (map (\<lambda>r. (aggregate_id r, aggregate_version r)) (tbl @ rows))"
  have free: "\<And>r t. events_pkey_free r t \<Longrightarrow> unique_aggregate_version_free r t \<Longrightarrow>
      (aggregate_id r, aggregate_version r) \<notin>
        set (map (\<lambda>r. (aggregate_id r, aggregate_version r)) t)"
    by (simp add: unique_aggregate_version_free_def)
  from a have "insert_envelopes flt 0 envelopes tbl = Inl eventstore_ErrConcurrencyConflict"
    by (intro insert_envelopes_repetition
          [where f = "\<lambda>r. (aggregate_id r, aggregate_version r)" and rows = rows, OF free])
       simp_all
  with a show "PostgresStore_Save flt envelopes tbl =
      (Some eventstore_ErrConcurrencyConflict, tbl)"
    by (simp add: PostgresStore_Save_healthy)
next
  assume a: "on_begin flt = None \<and> on_prepare flt = None \<and>
    (\<forall>j<length envelopes. on_exec flt j = None) \<and>
    map events_values envelopes = map Inr rows \<and>
    distinct (map event_id tbl) \<and>
    \<not> distinct (map event_id (tbl @ rows))"
  have free: "\<And>r t. events_pkey_free r t \<Longrightarrow> unique_aggregate_version_free r t \<Longrightarrow>
      event_id r \<notin> set (map event_id t)"
    by (simp add: events_pkey_free_def)
  from a have "insert_envelopes flt 0 envelopes tbl = Inl eventstore_ErrConcurrencyConflict"
    by (intro insert_envelopes_repetition [where f = event_id and rows = rows, OF free])
       simp_all
  with a show "PostgresStore_Save flt envelopes tbl =
      (Some eventstore_ErrConcurrencyConflict, tbl)"
    by (simp add: PostgresStore_Save_healthy)
next
  assume a: "PostgresStore_Save flt envelopes tbl = (Some err, tbl') \<and>
    errors_Is err eventstore_ErrConcurrencyConflict"
  then have ins: "insert_envelopes flt 0 envelopes tbl = Inl err"
    by (auto simp: PostgresStore_Save_def split: option.splits sum.splits)
  from insert_envelopes_Inl [OF ins] a show "err = eventstore_ErrConcurrencyConflict"
    by auto
next
  assume a: "PostgresStore_Save flt envelopes tbl = (Some err, tbl') \<and>
    errors_Is err eventstore_ErrConcurrencyConflict"
  then have ins: "insert_envelopes flt 0 envelopes tbl = Inl err"
    by (auto simp: PostgresStore_Save_def split: option.splits sum.splits)
  from insert_envelopes_conflict [OF ins] a
  show "\<exists>i<length envelopes. \<exists>rs.
           map events_values (take i envelopes) = map Inr rs \<and>
           (on_exec flt i = Some (PgError ''23505'') \<or>
            (\<exists>row. events_values (envelopes ! i) = Inr row \<and>
               (event_id row \<in> set (map event_id (tbl @ rs)) \<or>
                (aggregate_id row, aggregate_version row) \<in>
                  set (map (\<lambda>r. (aggregate_id r, aggregate_version r)) (tbl @ rs)))))"
    by simp
qed

text \<open>
  C5 as stated fails on a batch of two envelopes that carry the same \<open>EventID\<close> for two
  different aggregates, appended to an empty table on a healthy connection: nothing
  violates \<open>unique_aggregate_version\<close>, the second insert breaks the primary key, and
  \<open>Save\<close> returns \<open>ErrConcurrencyConflict\<close> for this unrelated failure.
\<close>

theorem event_id_clash_is_ErrConcurrencyConflict:
  "PostgresStore_Save no_faults
     [\<lparr>EventID = ''00000000-0000-4000-8000-000000000001'', EventType = ''app.fabric.updated'', AggregateID = ''FAB1'',
        AggregateType = ''fabric'', AggregateVersion = 2, EventVersion = 1, Timestamp = 7,
        CorrelationID = [], CausationID = [], UserID = [],
        Payload = Some (FabricUpdated ''FAB1'' ''Silk'' ''m'' ''available'' 2)\<rparr>,
      \<lparr>EventID = ''00000000-0000-4000-8000-000000000001'', EventType = ''app.fabric.created'', AggregateID = ''FAB2'',
        AggregateType = ''fabric'', AggregateVersion = 1, EventVersion = 1, Timestamp = 7,
        CorrelationID = [], CausationID = [], UserID = [],
        Payload = Some (FabricCreated ''FAB2'' ''Linen'' ''m'' ''available'' 1)\<rparr>]
     [] =
   (Some eventstore_ErrConcurrencyConflict, []) \<and>
   distinct (map (\<lambda>e. (AggregateID e, AggregateVersion e))
     [\<lparr>EventID = ''00000000-0000-4000-8000-000000000001'', EventType = ''app.fabric.updated'', AggregateID = ''FAB1'',
        AggregateType = ''fabric'', AggregateVersion = 2, EventVersion = 1, Timestamp = 7,
        CorrelationID = [], CausationID = [], UserID = [],
        Payload = Some (FabricUpdated ''FAB1'' ''Silk'' ''m'' ''available'' 2)\<rparr>,
      \<lparr>EventID = ''00000000-0000-4000-8000-000000000001'', EventType = ''app.fabric.created'', AggregateID = ''FAB2'',
        AggregateType = ''fabric'', AggregateVersion = 1, EventVersion = 1, Timestamp = 7,
        CorrelationID = [], CausationID = [], UserID = [],
        Payload = Some (FabricCreated ''FAB2'' ''Linen'' ''m'' ''available'' 1)\<rparr>])"
  by (simp add: eval_defs)

theorem PostgresStore_Save_conflict_on_unique_violation_witness:
  "PostgresStore_Save no_faults
     [\<lparr>EventID = ''00000000-0000-4000-8000-000000000001'', EventType = ''app.fabric.updated'', AggregateID = ''FAB1'',
        AggregateType = ''fabric'', AggregateVersion = 2, EventVersion = 1, Timestamp = 7,
        CorrelationID = [], CausationID = [], UserID = [],
        Payload = Some (FabricUpdated ''FAB1'' ''Silk'' ''m'' ''available'' 2)\<rparr>]
     [\<lparr>event_id = ''00000000-0000-4000-8000-000000000000'', aggregate_id = ''FAB1'', aggregate_type = ''fabric'',
        event_type = ''app.fabric.created'', aggregate_version = 1,
        payload = FabricCreated ''FAB1'' ''Cotton'' ''m'' ''available'' 1, timestamp = 7, correlation_id = [], user_id = []\<rparr>] =
   (None,
    [\<lparr>event_id = ''00000000-0000-4000-8000-000000000000'', aggregate_id = ''FAB1'', aggregate_type = ''fabric'',
        event_type = ''app.fabric.created'', aggregate_version = 1,
        payload = FabricCreated ''FAB1'' ''Cotton'' ''m'' ''available'' 1, timestamp = 7, correlation_id = [], user_id = []\<rparr>,
     \<lparr>event_id = ''00000000-0000-4000-8000-000000000001'', aggregate_id = ''FAB1'', aggregate_type = ''fabric'',
        event_type = ''app.fabric.updated'', aggregate_version = 2,
        payload = FabricUpdated ''FAB1'' ''Silk'' ''m'' ''available'' 2, timestamp = 7, correlation_id = [], user_id = []\<rparr>]) \<and>
   PostgresStore_Save no_faults
     [\<lparr>EventID = ''00000000-0000-4000-8000-000000000001'', EventType = ''app.fabric.updated'', AggregateID = ''FAB1'',
        AggregateType = ''fabric'', AggregateVersion = 2, EventVersion = 1, Timestamp = 7,
        CorrelationID = [], CausationID = [], UserID = [],
        Payload = Some (FabricUpdated ''FAB1'' ''Silk'' ''m'' ''available'' 2)\<rparr>,
      \<lparr>EventID = ''00000000-0000-4000-8000-000000000002'', EventType = ''app.fabric.created'', AggregateID = ''FAB1'',
        AggregateType = ''fabric'', AggregateVersion = 1, EventVersion = 1, Timestamp = 7,
        CorrelationID = [], CausationID = [], UserID = [],
        Payload = Some (FabricCreated ''FAB1'' ''Cotton'' ''m'' ''available'' 1)\<rparr>]
     [\<lparr>event_id = ''00000000-0000-4000-8000-000000000000'', aggregate_id = ''FAB1'', aggregate_type = ''fabric'',
        event_type = ''app.fabric.created'', aggregate_version = 1,
        payload = FabricCreated ''FAB1'' ''Cotton'' ''m'' ''available'' 1, timestamp = 7, correlation_id = [], user_id = []\<rparr>] =
   (Some eventstore_ErrConcurrencyConflict,
    [\<lparr>event_id = ''00000000-0000-4000-8000-000000000000'', aggregate_id = ''FAB1'', aggregate_type = ''fabric'',
        event_type = ''app.fabric.created'', aggregate_version = 1,
        payload = FabricCreated ''FAB1'' ''Cotton'' ''m'' ''available'' 1, timestamp = 7, correlation_id = [], user_id = []\<rparr>]) \<and>
   PostgresStore_Save no_faults
     [\<lparr>EventID = ''00000000-0000-4000-8000-000000000001'', EventType = ''app.fabric.updated'', AggregateID = ''FAB1'',
        AggregateType = ''fabric'', AggregateVersion = 2, EventVersion = 1, Timestamp = 7,
        CorrelationID = [], CausationID = [], UserID = [],
        Payload = Some (FabricUpdated ''FAB1'' ''Silk'' ''m'' ''available'' 2)\<rparr>,
      \<lparr>EventID = ''00000000-0000-4000-8000-000000000000'', EventType = ''app.fabric.created'', AggregateID = ''FAB2'',
        AggregateType = ''fabric'', AggregateVersion = 1, EventVersion = 1, Timestamp = 7,
        CorrelationID = [], CausationID = [], UserID = [],
        Payload = Some (FabricCreated ''FAB2'' ''Linen'' ''m'' ''available'' 1)\<rparr>]
     [\<lparr>event_id = ''00000000-0000-4000-8000-000000000000'', aggregate_id = ''FAB1'', aggregate_type = ''fabric'',
        event_type = ''app.fabric.created'', aggregate_version = 1,
        payload = FabricCreated ''FAB1'' ''Cotton'' ''m'' ''available'' 1, timestamp = 7, correlation_id = [], user_id = []\<rparr>] =
   (Some eventstore_ErrConcurrencyConflict,
    [\<lparr>event_id = ''00000000-0000-4000-8000-000000000000'', aggregate_id = ''FAB1'', aggregate_type = ''fabric'',
        event_type = ''app.fabric.created'', aggregate_version = 1,
        payload = FabricCreated ''FAB1'' ''Cotton'' ''m'' ''available'' 1, timestamp = 7, correlation_id = [], user_id = []\<rparr>]) \<and>
   (\<exists>i<length [\<lparr>EventID = ''00000000-0000-4000-8000-000000000001'', EventType = ''app.fabric.updated'', AggregateID = ''FAB1'',
        AggregateType = ''fabric'', AggregateVersion = 2, EventVersion = 1, Timestamp = 7,
        CorrelationID = [], CausationID = [], UserID = [],
        Payload = Some (FabricUpdated ''FAB1'' ''Silk'' ''m'' ''available'' 2)\<rparr>,
      \<lparr>EventID = ''00000000-0000-4000-8000-000000000002'', EventType = ''app.fabric.created'', AggregateID = ''FAB1'',
        AggregateType = ''fabric'', AggregateVersion = 1, EventVersion = 1, Timestamp = 7,
        CorrelationID = [], CausationID = [], UserID = [],
        Payload = Some (FabricCreated ''FAB1'' ''Cotton'' ''m'' ''available'' 1)\<rparr>]. \<exists>rs.
      map events_values (take i [\<lparr>EventID = ''00000000-0000-4000-8000-000000000001'', EventType = ''app.fabric.updated'', AggregateID = ''FAB1'',
        AggregateType = ''fabric'', AggregateVersion = 2, EventVersion = 1, Timestamp = 7,
        CorrelationID = [], CausationID = [], UserID = [],
        Payload = Some (FabricUpdated ''FAB1'' ''Silk'' ''m'' ''available'' 2)\<rparr>,
      \<lparr>EventID = ''00000000-0000-4000-8000-000000000002'', EventType = ''app.fabric.created'', AggregateID = ''FAB1'',
        AggregateType = ''fabric'', AggregateVersion = 1, EventVersion = 1, Timestamp = 7,
        CorrelationID = [], CausationID = [], UserID = [],
        Payload = Some (FabricCreated ''FAB1'' ''Cotton'' ''m'' ''available'' 1)\<rparr>]) = map Inr rs \<and>
      (on_exec no_faults i = Some (PgError ''23505'') \<or>
       (\<exists>row. events_values ([\<lparr>EventID = ''00000000-0000-4000-8000-000000000001'', EventType = ''app.fabric.updated'', AggregateID = ''FAB1'',
        AggregateType = ''fabric'', AggregateVersion = 2, EventVersion = 1, Timestamp = 7,
        CorrelationID = [], CausationID = [], UserID = [],
        Payload = Some (FabricUpdated ''FAB1'' ''Silk'' ''m'' ''available'' 2)\<rparr>,
      \<lparr>EventID = ''00000000-0000-4000-8000-000000000002'', EventType = ''app.fabric.created'', AggregateID = ''FAB1'',
        AggregateType = ''fabric'', AggregateVersion = 1, EventVersion = 1, Timestamp = 7,
        CorrelationID = [], CausationID = [], UserID = [],
        Payload = Some (FabricCreated ''FAB1'' ''Cotton'' ''m'' ''available'' 1)\<rparr>] ! i) = Inr row \<and>
          (event_id row \<in> set (map event_id ([\<lparr>event_id = ''00000000-0000-4000-8000-000000000000'', aggregate_id = ''FAB1'', aggregate_type = ''fabric'',
        event_type = ''app.fabric.created'', aggregate_version = 1,
        payload = FabricCreated ''FAB1'' ''Cotton'' ''m'' ''available'' 1, timestamp = 7, correlation_id = [], user_id = []\<rparr>] @ rs)) \<or>
           (aggregate_id row, aggregate_version row) \<in>
             set (map (\<lambda>r. (aggregate_id r, aggregate_version r)) ([\<lparr>event_id = ''00000000-0000-4000-8000-000000000000'', aggregate_id = ''FAB1'', aggregate_type = ''fabric'',
        event_type = ''app.fabric.created'', aggregate_version = 1,
        payload = FabricCreated ''FAB1'' ''Cotton'' ''m'' ''available'' 1, timestamp = 7, correlation_id = [], user_id = []\<rparr>] @ rs)))))) \<and>
   PostgresStore_Save (no_faults\<lparr>on_exec := (\<lambda>i. if i = 1 then Some (DriverFailure ''broken pipe'') else None)\<rparr>)
     [\<lparr>EventID = ''00000000-0000-4000-8000-000000000001'', EventType = ''app.fabric.updated'', AggregateID = ''FAB1'',
        AggregateType = ''fabric'', AggregateVersion = 2, EventVersion = 1, Timestamp = 7,
        CorrelationID = [], CausationID = [], UserID = [],
        Payload = Some (FabricUpdated ''FAB1'' ''Silk'' ''m'' ''available'' 2)\<rparr>,
      \<lparr>EventID = ''00000000-0000-4000-8000-000000000002'', EventType = ''app.fabric.deleted'', AggregateID = ''FAB1'',
        AggregateType = ''fabric'', AggregateVersion = 3, EventVersion = 1, Timestamp = 7,
        CorrelationID = [], CausationID = [], UserID = [],
        Payload = Some (FabricDeleted ''FAB1'' 3)\<rparr>]
     [\<lparr>event_id = ''00000000-0000-4000-8000-000000000000'', aggregate_id = ''FAB1'', aggregate_type = ''fabric'',
        event_type = ''app.fabric.created'', aggregate_version = 1,
        payload = FabricCreated ''FAB1'' ''Cotton'' ''m'' ''available'' 1, timestamp = 7, correlation_id = [], user_id = []\<rparr>] =
   (Some (Errorf ''could not execute statement for event 00000000-0000-4000-8000-000000000002''
            (DriverError (DriverFailure ''broken pipe''))),
    [\<lparr>event_id = ''00000000-0000-4000-8000-000000000000'', aggregate_id = ''FAB1'', aggregate_type = ''fabric'',
        event_type = ''app.fabric.created'', aggregate_version = 1,
        payload = FabricCreated ''FAB1'' ''Cotton'' ''m'' ''available'' 1, timestamp = 7, correlation_id = [], user_id = []\<rparr>]) \<and>
   PostgresStore_Save no_faults
     [\<lparr>EventID = ''00000000-0000-4000-8000-000000000001'', EventType = ''app.fabric.updated'', AggregateID = ''FAB1'',
        AggregateType = ''fabric'', AggregateVersion = 2, EventVersion = 1, Timestamp = 7,
        CorrelationID = [], CausationID = [], UserID = [],
        Payload = Some (FabricUpdated ''FAB1'' ''Silk'' ''m'' ''available'' 2)\<rparr>,
      \<lparr>EventID = ''00000000-0000-4000-8000-000000000002'', EventType = ''app.fabric.deleted'', AggregateID = ''FAB1'',
        AggregateType = ''fabric'', AggregateVersion = 3, EventVersion = 1, Timestamp = 7,
        CorrelationID = [], CausationID = [], UserID = [],
        Payload = None\<rparr>]
     [\<lparr>event_id = ''00000000-0000-4000-8000-000000000000'', aggregate_id = ''FAB1'', aggregate_type = ''fabric'',
        event_type = ''app.fabric.created'', aggregate_version = 1,
        payload = FabricCreated ''FAB1'' ''Cotton'' ''m'' ''available'' 1, timestamp = 7, correlation_id = [], user_id = []\<rparr>] =
   (Some (Errorf ''could not execute statement for event 00000000-0000-4000-8000-000000000002''
            (DriverError (PgError ''23502''))),
    [\<lparr>event_id = ''00000000-0000-4000-8000-000000000000'', aggregate_id = ''FAB1'', aggregate_type = ''fabric'',
        event_type = ''app.fabric.created'', aggregate_version = 1,
        payload = FabricCreated ''FAB1'' ''Cotton'' ''m'' ''available'' 1, timestamp = 7, correlation_id = [], user_id = []\<rparr>]) \<and>
   PostgresStore_Save no_faults
     [\<lparr>EventID = ''00000000-0000-4000-8000-000000000001'', EventType = ''app.fabric.updated'', AggregateID = ''FAB1'',
        AggregateType = ''fabric'', AggregateVersion = 2, EventVersion = 1, Timestamp = 7,
        CorrelationID = [], CausationID = [], UserID = [],
        Payload = Some (FabricUpdated ''FAB1'' ''Silk'' ''m'' ''available'' 2)\<rparr>,
      \<lparr>EventID = ''fabric-event-2'', EventType = ''app.fabric.deleted'', AggregateID = ''FAB1'',
        AggregateType = ''fabric'', AggregateVersion = 3, EventVersion = 1, Timestamp = 7,
        CorrelationID = [], CausationID = [], UserID = [],
        Payload = Some (FabricDeleted ''FAB1'' 3)\<rparr>]
     [\<lparr>event_id = ''00000000-0000-4000-8000-000000000000'', aggregate_id = ''FAB1'', aggregate_type = ''fabric'',
        event_type = ''app.fabric.created'', aggregate_version = 1,
        payload = FabricCreated ''FAB1'' ''Cotton'' ''m'' ''available'' 1, timestamp = 7, correlation_id = [], user_id = []\<rparr>] =
   (Some (Errorf ''could not execute statement for event fabric-event-2''
            (DriverError (PgError ''22P02''))),
    [\<lparr>event_id = ''00000000-0000-4000-8000-000000000000'', aggregate_id = ''FAB1'', aggregate_type = ''fabric'',
        event_type = ''app.fabric.created'', aggregate_version = 1,
        payload = FabricCreated ''FAB1'' ''Cotton'' ''m'' ''available'' 1, timestamp = 7, correlation_id = [], user_id = []\<rparr>])"
proof -
  note inst = PostgresStore_Save_conflict_on_unique_violation
  have e1: "events_values
      \<lparr>EventID = ''00000000-0000-4000-8000-000000000001'', EventType = ''app.fabric.updated'', AggregateID = ''FAB1'',
        AggregateType = ''fabric'', AggregateVersion = 2, EventVersion = 1, Timestamp = 7,
        CorrelationID = [], CausationID = [], UserID = [],
        Payload = Some (FabricUpdated ''FAB1'' ''Silk'' ''m'' ''available'' 2)\<rparr> =
    Inr \<lparr>event_id = ''00000000-0000-4000-8000-000000000001'', aggregate_id = ''FAB1'', aggregate_type = ''fabric'',
        event_type = ''app.fabric.updated'', aggregate_version = 2,
        payload = FabricUpdated ''FAB1'' ''Silk'' ''m'' ''available'' 2, timestamp = 7, correlation_id = [], user_id = []\<rparr>"
    by (simp add: eval_defs)
  have e2c: "events_values
      \<lparr>EventID = ''00000000-0000-4000-8000-000000000002'', EventType = ''app.fabric.created'', AggregateID = ''FAB1'',
        AggregateType = ''fabric'', AggregateVersion = 1, EventVersion = 1, Timestamp = 7,
        CorrelationID = [], CausationID = [], UserID = [],
        Payload = Some (FabricCreated ''FAB1'' ''Cotton'' ''m'' ''available'' 1)\<rparr> =
    Inr \<lparr>event_id = ''00000000-0000-4000-8000-000000000002'', aggregate_id = ''FAB1'', aggregate_type = ''fabric'',
        event_type = ''app.fabric.created'', aggregate_version = 1,
        payload = FabricCreated ''FAB1'' ''Cotton'' ''m'' ''available'' 1, timestamp = 7, correlation_id = [], user_id = []\<rparr>"
    by (simp add: eval_defs)
  have e4: "events_values
      \<lparr>EventID = ''00000000-0000-4000-8000-000000000000'', EventType = ''app.fabric.created'', AggregateID = ''FAB2'',
        AggregateType = ''fabric'', AggregateVersion = 1, EventVersion = 1, Timestamp = 7,
        CorrelationID = [], CausationID = [], UserID = [],
        Payload = Some (FabricCreated ''FAB2'' ''Linen'' ''m'' ''available'' 1)\<rparr> =
    Inr \<lparr>event_id = ''00000000-0000-4000-8000-000000000000'', aggregate_id = ''FAB2'', aggregate_type = ''fabric'',
        event_type = ''app.fabric.created'', aggregate_version = 1,
        payload = FabricCreated ''FAB2'' ''Linen'' ''m'' ''available'' 1, timestamp = 7, correlation_id = [], user_id = []\<rparr>"
    by (simp add: eval_defs)
  have recorded: "PostgresStore_Save no_faults
     [\<lparr>EventID = ''00000000-0000-4000-8000-000000000001'', EventType = ''app.fabric.updated'', AggregateID = ''FAB1'',
        AggregateType = ''fabric'', AggregateVersion = 2, EventVersion = 1, Timestamp = 7,
        CorrelationID = [], CausationID = [], UserID = [],
        Payload = Some (FabricUpdated ''FAB1'' ''Silk'' ''m'' ''available'' 2)\<rparr>]
     [\<lparr>event_id = ''00000000-0000-4000-8000-000000000000'', aggregate_id = ''FAB1'', aggregate_type = ''fabric'',
        event_type = ''app.fabric.created'', aggregate_version = 1,
        payload = FabricCreated ''FAB1'' ''Cotton'' ''m'' ''available'' 1, timestamp = 7, correlation_id = [], user_id = []\<rparr>] =
   (None,
    [\<lparr>event_id = ''00000000-0000-4000-8000-000000000000'', aggregate_id = ''FAB1'', aggregate_type = ''fabric'',
        event_type = ''app.fabric.created'', aggregate_version = 1,
        payload = FabricCreated ''FAB1'' ''Cotton'' ''m'' ''available'' 1, timestamp = 7, correlation_id = [], user_id = []\<rparr>] @
    [\<lparr>event_id = ''00000000-0000-4000-8000-000000000001'', aggregate_id = ''FAB1'', aggregate_type = ''fabric'',
        event_type = ''app.fabric.updated'', aggregate_version = 2,
        payload = FabricUpdated ''FAB1'' ''Silk'' ''m'' ''available'' 2, timestamp = 7, correlation_id = [], user_id = []\<rparr>])"
    by (rule inst [where rows = "[\<lparr>event_id = ''00000000-0000-4000-8000-000000000001'', aggregate_id = ''FAB1'', aggregate_type = ''fabric'',
        event_type = ''app.fabric.updated'', aggregate_version = 2,
        payload = FabricUpdated ''FAB1'' ''Silk'' ''m'' ''available'' 2, timestamp = 7, correlation_id = [], user_id = []\<rparr>]",
          THEN conjunct2, THEN conjunct2, THEN conjunct1, THEN mp])
       (simp add: no_faults_def e1)
  have version_taken: "PostgresStore_Save no_faults
     [\<lparr>EventID = ''00000000-0000-4000-8000-000000000001'', EventType = ''app.fabric.updated'', AggregateID = ''FAB1'',
        AggregateType = ''fabric'', AggregateVersion = 2, EventVersion = 1, Timestamp = 7,
        CorrelationID = [], CausationID = [], UserID = [],
        Payload = Some (FabricUpdated ''FAB1'' ''Silk'' ''m'' ''available'' 2)\<rparr>,
      \<lparr>EventID = ''00000000-0000-4000-8000-000000000002'', EventType = ''app.fabric.created'', AggregateID = ''FAB1'',
        AggregateType = ''fabric'', AggregateVersion = 1, EventVersion = 1, Timestamp = 7,
        CorrelationID = [], CausationID = [], UserID = [],
        Payload = Some (FabricCreated ''FAB1'' ''Cotton'' ''m'' ''available'' 1)\<rparr>]
     [\<lparr>event_id = ''00000000-0000-4000-8000-000000000000'', aggregate_id = ''FAB1'', aggregate_type = ''fabric'',
        event_type = ''app.fabric.created'', aggregate_version = 1,
        payload = FabricCreated ''FAB1'' ''Cotton'' ''m'' ''available'' 1, timestamp = 7, correlation_id = [], user_id = []\<rparr>] =
   (Some eventstore_ErrConcurrencyConflict,
    [\<lparr>event_id = ''00000000-0000-4000-8000-000000000000'', aggregate_id = ''FAB1'', aggregate_type = ''fabric'',
        event_type = ''app.fabric.created'', aggregate_version = 1,
        payload = FabricCreated ''FAB1'' ''Cotton'' ''m'' ''available'' 1, timestamp = 7, correlation_id = [], user_id = []\<rparr>])"
    by (rule inst [where rows = "[\<lparr>event_id = ''00000000-0000-4000-8000-000000000001'', aggregate_id = ''FAB1'', aggregate_type = ''fabric'',
        event_type = ''app.fabric.updated'', aggregate_version = 2,
        payload = FabricUpdated ''FAB1'' ''Silk'' ''m'' ''available'' 2, timestamp = 7, correlation_id = [], user_id = []\<rparr>,
            \<lparr>event_id = ''00000000-0000-4000-8000-000000000002'', aggregate_id = ''FAB1'', aggregate_type = ''fabric'',
        event_type = ''app.fabric.created'', aggregate_version = 1,
        payload = FabricCreated ''FAB1'' ''Cotton'' ''m'' ''available'' 1, timestamp = 7, correlation_id = [], user_id = []\<rparr>]",
          THEN conjunct2, THEN conjunct2, THEN conjunct2, THEN conjunct1, THEN mp])
       (simp add: no_faults_def e1 e2c)
  have id_taken: "PostgresStore_Save no_faults
     [\<lparr>EventID = ''00000000-0000-4000-8000-000000000001'', EventType = ''app.fabric.updated'', AggregateID = ''FAB1'',
        AggregateType = ''fabric'', AggregateVersion = 2, EventVersion = 1, Timestamp = 7,
        CorrelationID = [], CausationID = [], UserID = [],
        Payload = Some (FabricUpdated ''FAB1'' ''Silk'' ''m'' ''available'' 2)\<rparr>,
      \<lparr>EventID = ''00000000-0000-4000-8000-000000000000'', EventType = ''app.fabric.created'', AggregateID = ''FAB2'',
        AggregateType = ''fabric'', AggregateVersion = 1, EventVersion = 1, Timestamp = 7,
        CorrelationID = [], CausationID = [], UserID = [],
        Payload = Some (FabricCreated ''FAB2'' ''Linen'' ''m'' ''available'' 1)\<rparr>]
     [\<lparr>event_id = ''00000000-0000-4000-8000-000000000000'', aggregate_id = ''FAB1'', aggregate_type = ''fabric'',
        event_type = ''app.fabric.created'', aggregate_version = 1,
        payload = FabricCreated ''FAB1'' ''Cotton'' ''m'' ''available'' 1, timestamp = 7, correlation_id = [], user_id = []\<rparr>] =
   (Some eventstore_ErrConcurrencyConflict,
    [\<lparr>event_id = ''00000000-0000-4000-8000-000000000000'', aggregate_id = ''FAB1'', aggregate_type = ''fabric'',
        event_type = ''app.fabric.created'', aggregate_version = 1,
        payload = FabricCreated ''FAB1'' ''Cotton'' ''m'' ''available'' 1, timestamp = 7, correlation_id = [], user_id = []\<rparr>])"
    by (rule inst [where rows = "[\<lparr>event_id = ''00000000-0000-4000-8000-000000000001'', aggregate_id = ''FAB1'', aggregate_type = ''fabric'',
        event_type = ''app.fabric.updated'', aggregate_version = 2,
        payload = FabricUpdated ''FAB1'' ''Silk'' ''m'' ''available'' 2, timestamp = 7, correlation_id = [], user_id = []\<rparr>,
            \<lparr>event_id = ''00000000-0000-4000-8000-000000000000'', aggregate_id = ''FAB2'', aggregate_type = ''fabric'',
        event_type = ''app.fabric.created'', aggregate_version = 1,
        payload = FabricCreated ''FAB2'' ''Linen'' ''m'' ''available'' 1, timestamp = 7, correlation_id = [], user_id = []\<rparr>]",
          THEN conjunct2, THEN conjunct2, THEN conjunct2, THEN conjunct2, THEN conjunct1,
          THEN mp])
       (simp add: no_faults_def e1 e4)
  have only_then: "\<exists>i<length [\<lparr>EventID = ''00000000-0000-4000-8000-000000000001'', EventType = ''app.fabric.updated'', AggregateID = ''FAB1'',
        AggregateType = ''fabric'', AggregateVersion = 2, EventVersion = 1, Timestamp = 7,
        CorrelationID = [], CausationID = [], UserID = [],
        Payload = Some (FabricUpdated ''FAB1'' ''Silk'' ''m'' ''available'' 2)\<rparr>,
      \<lparr>EventID = ''00000000-0000-4000-8000-000000000002'', EventType = ''app.fabric.created'', AggregateID = ''FAB1'',
        AggregateType = ''fabric'', AggregateVersion = 1, EventVersion = 1, Timestamp = 7,
        CorrelationID = [], CausationID = [], UserID = [],
        Payload = Some (FabricCreated ''FAB1'' ''Cotton'' ''m'' ''available'' 1)\<rparr>]. \<exists>rs.
      map events_values (take i [\<lparr>EventID = ''00000000-0000-4000-8000-000000000001'', EventType = ''app.fabric.updated'', AggregateID = ''FAB1'',
        AggregateType = ''fabric'', AggregateVersion = 2, EventVersion = 1, Timestamp = 7,
        CorrelationID = [], CausationID = [], UserID = [],
        Payload = Some (FabricUpdated ''FAB1'' ''Silk'' ''m'' ''available'' 2)\<rparr>,
      \<lparr>EventID = ''00000000-0000-4000-8000-000000000002'', EventType = ''app.fabric.created'', AggregateID = ''FAB1'',
        AggregateType = ''fabric'', AggregateVersion = 1, EventVersion = 1, Timestamp = 7,
        CorrelationID = [], CausationID = [], UserID = [],
        Payload = Some (FabricCreated ''FAB1'' ''Cotton'' ''m'' ''available'' 1)\<rparr>]) = map Inr rs \<and>
      (on_exec no_faults i = Some (PgError ''23505'') \<or>
       (\<exists>row. events_values ([\<lparr>EventID = ''00000000-0000-4000-8000-000000000001'', EventType = ''app.fabric.updated'', AggregateID = ''FAB1'',
        AggregateType = ''fabric'', AggregateVersion = 2, EventVersion = 1, Timestamp = 7,
        CorrelationID = [], CausationID = [], UserID = [],
        Payload = Some (FabricUpdated ''FAB1'' ''Silk'' ''m'' ''available'' 2)\<rparr>,
      \<lparr>EventID = ''00000000-0000-4000-8000-000000000002'', EventType = ''app.fabric.created'', AggregateID = ''FAB1'',
        AggregateType = ''fabric'', AggregateVersion = 1, EventVersion = 1, Timestamp = 7,
        CorrelationID = [], CausationID = [], UserID = [],
        Payload = Some (FabricCreated ''FAB1'' ''Cotton'' ''m'' ''available'' 1)\<rparr>] ! i) = Inr row \<and>
          (event_id row \<in> set (map event_id ([\<lparr>event_id = ''00000000-0000-4000-8000-000000000000'', aggregate_id = ''FAB1'', aggregate_type = ''fabric'',
        event_type = ''app.fabric.created'', aggregate_version = 1,
        payload = FabricCreated ''FAB1'' ''Cotton'' ''m'' ''available'' 1, timestamp = 7, correlation_id = [], user_id = []\<rparr>] @ rs)) \<or>
           (aggregate_id row, aggregate_version row) \<in>
             set (map (\<lambda>r. (aggregate_id r, aggregate_version r)) ([\<lparr>event_id = ''00000000-0000-4000-8000-000000000000'', aggregate_id = ''FAB1'', aggregate_type = ''fabric'',
        event_type = ''app.fabric.created'', aggregate_version = 1,
        payload = FabricCreated ''FAB1'' ''Cotton'' ''m'' ''available'' 1, timestamp = 7, correlation_id = [], user_id = []\<rparr>] @ rs)))))"
    by (rule inst [where err = eventstore_ErrConcurrencyConflict and tbl' = "[\<lparr>event_id = ''00000000-0000-4000-8000-000000000000'', aggregate_id = ''FAB1'', aggregate_type = ''fabric'',
        event_type = ''app.fabric.created'', aggregate_version = 1,
        payload = FabricCreated ''FAB1'' ''Cotton'' ''m'' ''available'' 1, timestamp = 7, correlation_id = [], user_id = []\<rparr>]",
          THEN conjunct2, THEN conjunct2, THEN conjunct2, THEN conjunct2, THEN conjunct2,
          THEN mp, THEN conjunct2])
       (simp add: version_taken)
  have broken: "PostgresStore_Save (no_faults\<lparr>on_exec := (\<lambda>i. if i = 1 then Some (DriverFailure ''broken pipe'') else None)\<rparr>)
     [\<lparr>EventID = ''00000000-0000-4000-8000-000000000001'', EventType = ''app.fabric.updated'', AggregateID = ''FAB1'',
        AggregateType = ''fabric'', AggregateVersion = 2, EventVersion = 1, Timestamp = 7,
        CorrelationID = [], CausationID = [], UserID = [],
        Payload = Some (FabricUpdated ''FAB1'' ''Silk'' ''m'' ''available'' 2)\<rparr>,
      \<lparr>EventID = ''00000000-0000-4000-8000-000000000002'', EventType = ''app.fabric.deleted'', AggregateID = ''FAB1'',
        AggregateType = ''fabric'', AggregateVersion = 3, EventVersion = 1, Timestamp = 7,
        CorrelationID = [], CausationID = [], UserID = [],
        Payload = Some (FabricDeleted ''FAB1'' 3)\<rparr>]
     [\<lparr>event_id = ''00000000-0000-4000-8000-000000000000'', aggregate_id = ''FAB1'', aggregate_type = ''fabric'',
        event_type = ''app.fabric.created'', aggregate_version = 1,
        payload = FabricCreated ''FAB1'' ''Cotton'' ''m'' ''available'' 1, timestamp = 7, correlation_id = [], user_id = []\<rparr>] =
   (Some (Errorf ''could not execute statement for event 00000000-0000-4000-8000-000000000002''
            (DriverError (DriverFailure ''broken pipe''))),
    [\<lparr>event_id = ''00000000-0000-4000-8000-000000000000'', aggregate_id = ''FAB1'', aggregate_type = ''fabric'',
        event_type = ''app.fabric.created'', aggregate_version = 1,
        payload = FabricCreated ''FAB1'' ''Cotton'' ''m'' ''available'' 1, timestamp = 7, correlation_id = [], user_id = []\<rparr>])"
    by (simp add: eval_defs)
  have not_null: "PostgresStore_Save no_faults
     [\<lparr>EventID = ''00000000-0000-4000-8000-000000000001'', EventType = ''app.fabric.updated'', AggregateID = ''FAB1'',
        AggregateType = ''fabric'', AggregateVersion = 2, EventVersion = 1, Timestamp = 7,
        CorrelationID = [], CausationID = [], UserID = [],
        Payload = Some (FabricUpdated ''FAB1'' ''Silk'' ''m'' ''available'' 2)\<rparr>,
      \<lparr>EventID = ''00000000-0000-4000-8000-000000000002'', EventType = ''app.fabric.deleted'', AggregateID = ''FAB1'',
        AggregateType = ''fabric'', AggregateVersion = 3, EventVersion = 1, Timestamp = 7,
        CorrelationID = [], CausationID = [], UserID = [],
        Payload = None\<rparr>]
     [\<lparr>event_id = ''00000000-0000-4000-8000-000000000000'', aggregate_id = ''FAB1'', aggregate_type = ''fabric'',
        event_type = ''app.fabric.created'', aggregate_version = 1,
        payload = FabricCreated ''FAB1'' ''Cotton'' ''m'' ''available'' 1, timestamp = 7, correlation_id = [], user_id = []\<rparr>] =
   (Some (Errorf ''could not execute statement for event 00000000-0000-4000-8000-000000000002''
            (DriverError (PgError ''23502''))),
    [\<lparr>event_id = ''00000000-0000-4000-8000-000000000000'', aggregate_id = ''FAB1'', aggregate_type = ''fabric'',
        event_type = ''app.fabric.created'', aggregate_version = 1,
        payload = FabricCreated ''FAB1'' ''Cotton'' ''m'' ''available'' 1, timestamp = 7, correlation_id = [], user_id = []\<rparr>])"
    by (simp add: eval_defs)
  have "pg_uuid ''fabric-event-2'' = Inl (PgError ''22P02'')"
    by code_simp
  then have not_uuid: "PostgresStore_Save no_faults
     [\<lparr>EventID = ''00000000-0000-4000-8000-000000000001'', EventType = ''app.fabric.updated'', AggregateID = ''FAB1'',
        AggregateType = ''fabric'', AggregateVersion = 2, EventVersion = 1, Timestamp = 7,
        CorrelationID = [], CausationID = [], UserID = [],
        Payload = Some (FabricUpdated ''FAB1'' ''Silk'' ''m'' ''available'' 2)\<rparr>,
      \<lparr>EventID = ''fabric-event-2'', EventType = ''app.fabric.deleted'', AggregateID = ''FAB1'',
        AggregateType = ''fabric'', AggregateVersion = 3, EventVersion = 1, Timestamp = 7,
        CorrelationID = [], CausationID = [], UserID = [],
        Payload = Some (FabricDeleted ''FAB1'' 3)\<rparr>]
     [\<lparr>event_id = ''00000000-0000-4000-8000-000000000000'', aggregate_id = ''FAB1'', aggregate_type = ''fabric'',
        event_type = ''app.fabric.created'', aggregate_version = 1,
        payload = FabricCreated ''FAB1'' ''Cotton'' ''m'' ''available'' 1, timestamp = 7, correlation_id = [], user_id = []\<rparr>] =
   (Some (Errorf ''could not execute statement for event fabric-event-2''
            (DriverError (PgError ''22P02''))),
    [\<lparr>event_id = ''00000000-0000-4000-8000-000000000000'', aggregate_id = ''FAB1'', aggregate_type = ''fabric'',
        event_type = ''app.fabric.created'', aggregate_version = 1,
        payload = FabricCreated ''FAB1'' ''Cotton'' ''m'' ''available'' 1, timestamp = 7, correlation_id = [], user_id = []\<rparr>])"
    by (simp add: eval_defs)
  from recorded show ?thesis
    by (intro conjI version_taken id_taken only_then broken not_null not_uuid) simp
qed

section \<open>Properties of the inbound adapter\<close>

lemmas handler_defs =
  FabricEventHandler_handleCreateEvent_def FabricEventHandler_handleUpdateEvent_def
  FabricEventHandler_handleDeleteEvent_def FabricEventHandler_adaptEventToCommand_def
  FabricEventHandler_HandleMessage_def withDefaults_def validateCreateFabricEvent_def
  validateUpdateFabricEvent_def validator_New_def validator_Check_def validator_Valid_def
  validator_Matches_def mockFabricCommandService_def silent_runtime_def
  Services_FabricCommandService_def unmarshal_erpFabricEvent_def

lemma validateUpdateFabricEvent_Valid:
  "validator_Valid (validateUpdateFabricEvent validator_New version event) \<longleftrightarrow>
     0 <s version \<and> erp_Name event \<noteq> [] \<and> length (erp_Name event) \<le> 250"
  by (auto simp: validateUpdateFabricEvent_def validator_New_def validator_Check_def
        validator_Valid_def Let_def)

lemma withDefaults_keeps: "erp_Code (withDefaults e) = erp_Code e" "erp_Name (withDefaults e) = erp_Name e"
  by (simp_all add: withDefaults_def Let_def)

text \<open>
  C2. The claim is that the adapter passes \<open>v - 1\<close> to the command service for an updated
  and for a deleted event carrying version \<open>v\<close>. With the recording service in the place
  of the command service: \<open>handleDeleteEvent\<close> calls \<open>DeleteFabric\<close> with \<open>v\<close> itself, for
  every \<open>v\<close>; \<open>handleUpdateEvent\<close>, for an event that passes its validation (\<open>v > 0\<close>, a
  name of 1 to 250 bytes), calls \<open>UpdateFabric\<close> with \<open>v - 1\<close>.
\<close>

theorem inbound_expected_version:
  "snd (FabricEventHandler_handleDeleteEvent (mockFabricCommandService errToReturn)
          silent_runtime ctx event eventID v calls) =
     calls @ [DeleteFabricCall (Some ''event'') (erp_Code event) v] \<and>
   (0 <s v \<and> erp_Name event \<noteq> [] \<and> length (erp_Name event) \<le> 250 \<longrightarrow>
    snd (FabricEventHandler_handleUpdateEvent (mockFabricCommandService errToReturn)
           silent_runtime ctx event eventID v calls) =
      calls @ [UpdateFabricCall (Some ''event'') (erp_Code event) (erp_Name event)
                 (erp_MeasureUnit (withDefaults event)) (erp_OfferStatus (withDefaults event))
                 (v - 1)])"
proof (intro conjI impI)
  show "snd (FabricEventHandler_handleDeleteEvent (mockFabricCommandService errToReturn)
          silent_runtime ctx event eventID v calls) =
     calls @ [DeleteFabricCall (Some ''event'') (erp_Code event) v]"
    by (cases errToReturn)
       (auto simp: FabricEventHandler_handleDeleteEvent_def mockFabricCommandService_def
          silent_runtime_def WithCommandSource_def Let_def)
next
  assume "0 <s v \<and> erp_Name event \<noteq> [] \<and> length (erp_Name event) \<le> 250"
  then have "validator_Valid (validateUpdateFabricEvent validator_New v (withDefaults event))"
    by (simp add: validateUpdateFabricEvent_Valid withDefaults_keeps)
  then show "snd (FabricEventHandler_handleUpdateEvent (mockFabricCommandService errToReturn)
           silent_runtime ctx event eventID v calls) =
      calls @ [UpdateFabricCall (Some ''event'') (erp_Code event) (erp_Name event)
                 (erp_MeasureUnit (withDefaults event)) (erp_OfferStatus (withDefaults event))
                 (v - 1)]"
    by (cases errToReturn)
       (auto simp: FabricEventHandler_handleUpdateEvent_def mockFabricCommandService_def
          silent_runtime_def WithCommandSource_def withDefaults_keeps Let_def)
qed

theorem inbound_expected_version_witness:
  "FabricEventHandler_HandleMessage (mockFabricCommandService None) silent_runtime
     context_Background ''erp.fabric''
     (Some \<lparr>EventID = ''evt-1'', EventType = ''erp.fabric.deleted'', AggregateID = ''FAB1'',
        AggregateType = ''fabric'', AggregateVersion = 5, EventVersion = 1, Timestamp = 7,
        CorrelationID = [], CausationID = [], UserID = [],
        Payload = Some (Structured \<lparr>erp_Code = ''FAB1'', erp_Name = ''Silk'', erp_MeasureUnit = [], erp_OfferStatus = []\<rparr>)\<rparr>) [] =
   (None, [DeleteFabricCall (Some ''event'') ''FAB1'' 5]) \<and>
   FabricEventHandler_HandleMessage (mockFabricCommandService None) silent_runtime
     context_Background ''erp.fabric''
     (Some \<lparr>EventID = ''evt-1'', EventType = ''erp.fabric.updated'', AggregateID = ''FAB1'',
        AggregateType = ''fabric'', AggregateVersion = 5, EventVersion = 1, Timestamp = 7,
        CorrelationID = [], CausationID = [], UserID = [],
        Payload = Some (Structured \<lparr>erp_Code = ''FAB1'', erp_Name = ''Silk'', erp_MeasureUnit = [], erp_OfferStatus = []\<rparr>)\<rparr>) [] =
   (None, [UpdateFabricCall (Some ''event'') ''FAB1'' ''Silk'' ''MB'' ''ACTIVE'' 4])"
proof -
  note inst = inbound_expected_version
    [where errToReturn = None and ctx = context_Background and v = 5 and calls = "[]"
       and event = "\<lparr>erp_Code = ''FAB1'', erp_Name = ''Silk'', erp_MeasureUnit = [], erp_OfferStatus = []\<rparr>"
       and eventID = "''evt-1''"]
  have d: "FabricEventHandler_HandleMessage (mockFabricCommandService None) silent_runtime
     context_Background ''erp.fabric''
     (Some \<lparr>EventID = ''evt-1'', EventType = ''erp.fabric.deleted'', AggregateID = ''FAB1'',
        AggregateType = ''fabric'', AggregateVersion = 5, EventVersion = 1, Timestamp = 7,
        CorrelationID = [], CausationID = [], UserID = [],
        Payload = Some (Structured \<lparr>erp_Code = ''FAB1'', erp_Name = ''Silk'', erp_MeasureUnit = [], erp_OfferStatus = []\<rparr>)\<rparr>) [] =
   FabricEventHandler_handleDeleteEvent (mockFabricCommandService None) silent_runtime
     context_Background \<lparr>erp_Code = ''FAB1'', erp_Name = ''Silk'', erp_MeasureUnit = [], erp_OfferStatus = []\<rparr> ''evt-1'' 5 []"
    by (simp add: FabricEventHandler_HandleMessage_def
          FabricEventHandler_adaptEventToCommand_def EventEnvelope_Validate_def
          unmarshal_erpFabricEvent_def)
  have u: "FabricEventHandler_HandleMessage (mockFabricCommandService None) silent_runtime
     context_Background ''erp.fabric''
     (Some \<lparr>EventID = ''evt-1'', EventType = ''erp.fabric.updated'', AggregateID = ''FAB1'',
        AggregateType = ''fabric'', AggregateVersion = 5, EventVersion = 1, Timestamp = 7,
        CorrelationID = [], CausationID = [], UserID = [],
        Payload = Some (Structured \<lparr>erp_Code = ''FAB1'', erp_Name = ''Silk'', erp_MeasureUnit = [], erp_OfferStatus = []\<rparr>)\<rparr>) [] =
   FabricEventHandler_handleUpdateEvent (mockFabricCommandService None) silent_runtime
     context_Background \<lparr>erp_Code = ''FAB1'', erp_Name = ''Silk'', erp_MeasureUnit = [], erp_OfferStatus = []\<rparr> ''evt-1'' 5 []"
    by (simp add: FabricEventHandler_HandleMessage_def
          FabricEventHandler_adaptEventToCommand_def EventEnvelope_Validate_def
          unmarshal_erpFabricEvent_def)
  have fd: "fst (FabricEventHandler_handleDeleteEvent (mockFabricCommandService None)
     silent_runtime context_Background \<lparr>erp_Code = ''FAB1'', erp_Name = ''Silk'', erp_MeasureUnit = [], erp_OfferStatus = []\<rparr> ''evt-1'' 5 []) = None"
    by (simp add: handler_defs)
  have fu: "fst (FabricEventHandler_handleUpdateEvent (mockFabricCommandService None)
     silent_runtime context_Background \<lparr>erp_Code = ''FAB1'', erp_Name = ''Silk'', erp_MeasureUnit = [], erp_OfferStatus = []\<rparr> ''evt-1'' 5 []) = None"
    by (simp add: handler_defs Let_def)
  have pos: "(0 :: go_int) <s 5"
    by (simp add: word_sless_alt)
  from inst fd fu pos show ?thesis
    unfolding d u by (simp add: prod_eq_iff withDefaults_def)
qed

lemma infrastructure_failure_simps [simp]:
  "infrastructure_failure (Errorf m e) = infrastructure_failure e"
  "infrastructure_failure (DriverError d)"
  "\<not> infrastructure_failure ErrInvalidFabricCodeLength"
  "\<not> infrastructure_failure ErrInvalidFabricCodePattern"
  "\<not> infrastructure_failure ErrInvalidFabricNameLength"
  "\<not> infrastructure_failure ErrRecordNotFound"
  "\<not> infrastructure_failure ErrDuplicateFabricCode"
  "\<not> infrastructure_failure ErrConcurrencyConflict"
  "\<not> infrastructure_failure ErrFabricDeleted"
  "\<not> infrastructure_failure eventstore_ErrConcurrencyConflict"
  "\<not> infrastructure_failure (ErrorsNew m)"
  by (simp_all add: infrastructure_failure_def)

lemma insert_envelopes_failure:
  "insert_envelopes flt i envs tx = Inl e \<Longrightarrow>
     e = eventstore_ErrConcurrencyConflict \<or> infrastructure_failure e"
  by (induction envs arbitrary: i tx) (auto split: sum.splits if_splits)

lemma PostgresStore_Save_failure:
  "PostgresStore_Save flt envs tbl = (Some e, t) \<Longrightarrow>
     e = eventstore_ErrConcurrencyConflict \<or> infrastructure_failure e"
  by (auto simp: PostgresStore_Save_def dest: insert_envelopes_failure
           split: option.splits sum.splits)

lemma Save_failure:
  "FabricPostgresRepository_Save flt fabric tbl = (Inl e, t) \<Longrightarrow>
     e = ErrDuplicateFabricCode \<or> e = ErrInvalidFabricNameLength \<or> infrastructure_failure e"
  by (auto simp: FabricPostgresRepository_Save_def Fabric_Reactivate_def validateName_def
             sql_insert_def sql_update_def Let_def scan_fabric_def
           split: option.splits sum.splits if_splits prod.splits)

lemma GetByCode_failure:
  "FabricPostgresRepository_GetByCode flt code tbl = Inl e \<Longrightarrow>
     errors_Is e ErrRecordNotFound \<or> infrastructure_failure e"
  by (auto simp: FabricPostgresRepository_GetByCode_def split: option.splits)

lemma GetByCode_active:
  "FabricPostgresRepository_GetByCode flt code tbl = Inr f \<Longrightarrow> Status f = ''ACTIVE''"
  by (auto simp: FabricPostgresRepository_GetByCode_def scan_fabric_def
           dest: find_Some_in_set split: option.splits)

lemma Update_failure:
  "FabricPostgresRepository_Update flt fabric tbl = (Some e, t) \<Longrightarrow>
     e = ErrRecordNotFound \<or> infrastructure_failure e"
  by (auto simp: FabricPostgresRepository_Update_def split: option.splits sum.splits if_splits)

lemma Delete_failure:
  "FabricPostgresRepository_Delete flt fabric tbl = (Some e, t) \<Longrightarrow>
     e = ErrRecordNotFound \<or> infrastructure_failure e"
  by (auto simp: FabricPostgresRepository_Delete_def split: option.splits sum.splits if_splits)

lemma Fabric_UpdateFabric_failure:
  "Fabric_UpdateFabric f n m s v = (f', Some e) \<Longrightarrow> Status f = ''ACTIVE'' \<Longrightarrow>
     e = ErrConcurrencyConflict \<or> e = ErrInvalidFabricNameLength"
  by (auto simp: Fabric_UpdateFabric_def validateName_def Let_def split: if_splits option.splits)

lemma Fabric_Delete_failure:
  "Fabric_Delete f v = (f', Some e) \<Longrightarrow> Status f = ''ACTIVE'' \<Longrightarrow> e = ErrConcurrencyConflict"
  by (auto simp: Fabric_Delete_def Let_def split: if_splits)

lemma NewFabric_failure:
  "NewFabric c n m s = Inl e \<Longrightarrow>
     e = ErrInvalidFabricCodeLength \<or> e = ErrInvalidFabricCodePattern \<or>
     e = ErrInvalidFabricNameLength"
  by (auto simp: NewFabric_def validateCode_def validateName_def Let_def
           split: option.splits if_splits)

lemma NewFabricCommandService_sel:
  "commandRepo_Save (NewFabricCommandService flt) fabric w =
     (case FabricPostgresRepository_Save (repo_faults flt) fabric (fabrics w) of
        (r, tbl) \<Rightarrow> (r, w\<lparr>fabrics := tbl\<rparr>))"
  "commandRepo_GetByCode (NewFabricCommandService flt) code w =
     (FabricPostgresRepository_GetByCode (repo_faults flt) code (fabrics w), w)"
  "commandRepo_Update (NewFabricCommandService flt) fabric w =
     (case FabricPostgresRepository_Update (repo_faults flt) fabric (fabrics w) of
        (r, tbl) \<Rightarrow> (r, w\<lparr>fabrics := tbl\<rparr>))"
  "commandRepo_Delete (NewFabricCommandService flt) fabric w =
     (case FabricPostgresRepository_Delete (repo_faults flt) fabric (fabrics w) of
        (r, tbl) \<Rightarrow> (r, w\<lparr>fabrics := tbl\<rparr>))"
  "eventStore_Save (NewFabricCommandService flt) envelopes w =
     (case PostgresStore_Save (store_faults flt) envelopes (events_table w) of
        (r, tbl) \<Rightarrow> (r, w\<lparr>events_table := tbl\<rparr>))"
  by (simp_all add: NewFabricCommandService_def)

lemma wired_CreateFabric_failure:
  assumes "FabricService_CreateFabric (NewFabricCommandService flt) rt ctx c n m s w = (Inl e, w1)"
  shows "errors_Is e ErrDuplicateFabricCode \<or> errors_Is e ErrInvalidFabricCodeLength \<or>
         errors_Is e ErrInvalidFabricCodePattern \<or> errors_Is e ErrInvalidFabricNameLength \<or>
         infrastructure_failure e \<or> errors_Is e eventstore_ErrConcurrencyConflict"
proof (cases "NewFabric c n m s")
  case (Inl e0)
  with assms have "e = Errorf ''application service failed to create fabric'' e0"
    by (simp add: FabricService_CreateFabric_def)
  with NewFabric_failure [OF Inl] show ?thesis by auto
next
  case (Inr fabric)
  obtain r tbl where sv:
    "FabricPostgresRepository_Save (repo_faults flt) fabric (fabrics w) = (r, tbl)"
    by (cases "FabricPostgresRepository_Save (repo_faults flt) fabric (fabrics w)")
  show ?thesis
  proof (cases r)
    case (Inl e0)
    with assms Inr sv have "e = Errorf ''failed to save fabric'' e0"
      by (simp add: FabricService_CreateFabric_def NewFabricCommandService_sel)
    with Save_failure [of "repo_faults flt" fabric "fabrics w" e0 tbl] sv Inl
    show ?thesis by auto
  next
    case (Inr persisted)
    with assms \<open>NewFabric c n m s = Inr fabric\<close> sv
    obtain e0 t where
      "PostgresStore_Save (store_faults flt)
         (create_envelopes rt persisted 0 (Fabric_Events persisted)) (events_table (w\<lparr>fabrics := tbl\<rparr>)) =
       (Some e0, t)" and "e = Errorf ''failed to save to event store'' e0"
      by (auto simp: FabricService_CreateFabric_def NewFabricCommandService_sel Let_def
               split: if_splits option.splits prod.splits)
    with PostgresStore_Save_failure show ?thesis by fastforce
  qed
qed

lemma wired_UpdateFabric_failure:
  assumes "FabricService_UpdateFabric (NewFabricCommandService flt) rt ctx c n m s v w = (Inl e, w1)"
  shows "errors_Is e ErrRecordNotFound \<or> errors_Is e ErrConcurrencyConflict \<or>
         errors_Is e ErrInvalidFabricNameLength \<or>
         infrastructure_failure e \<or> errors_Is e eventstore_ErrConcurrencyConflict"
proof (cases "FabricPostgresRepository_GetByCode (repo_faults flt) c (fabrics w)")
  case (Inl e0)
  with assms have "e = e0"
    by (simp add: FabricService_UpdateFabric_def NewFabricCommandService_sel)
  with GetByCode_failure [OF Inl] show ?thesis by auto
next
  case (Inr loaded)
  note active = GetByCode_active [OF Inr]
  obtain fabric r where dom: "Fabric_UpdateFabric loaded n m s v = (fabric, r)"
    by (cases "Fabric_UpdateFabric loaded n m s v")
  show ?thesis
  proof (cases r)
    case (Some e0)
    with assms Inr dom have "e = e0"
      by (simp add: FabricService_UpdateFabric_def NewFabricCommandService_sel)
    with Fabric_UpdateFabric_failure [of loaded n m s v fabric e0] dom Some active
    show ?thesis by auto
  next
    case None
    obtain r2 tbl where up:
      "FabricPostgresRepository_Update (repo_faults flt) fabric (fabrics w) = (r2, tbl)"
      by (cases "FabricPostgresRepository_Update (repo_faults flt) fabric (fabrics w)")
    show ?thesis
    proof (cases r2)
      case (Some e0)
      with assms Inr dom None up have "e = Errorf ''failed to update fabric in repo'' e0"
        by (simp add: FabricService_UpdateFabric_def NewFabricCommandService_sel)
      with Update_failure [of "repo_faults flt" fabric "fabrics w" e0 tbl] up Some
      show ?thesis by auto
    next
      case None
      with assms Inr dom \<open>r = None\<close> up
      obtain e0 t where
        "PostgresStore_Save (store_faults flt)
           (update_envelopes rt fabric 0 (Fabric_Events fabric))
           (events_table (w\<lparr>fabrics := tbl\<rparr>)) = (Some e0, t)"
        and "e = Errorf ''failed to save update event to event store'' e0"
        by (auto simp: FabricService_UpdateFabric_def NewFabricCommandService_sel Let_def
                 split: if_splits option.splits prod.splits)
      with PostgresStore_Save_failure show ?thesis by fastforce
    qed
  qed
qed

lemma wired_DeleteFabric_failure:
  assumes "FabricService_DeleteFabric (NewFabricCommandService flt) rt ctx c v w = (Some e, w1)"
  shows "errors_Is e ErrRecordNotFound \<or> errors_Is e ErrConcurrencyConflict \<or>
         infrastructure_failure e \<or> errors_Is e eventstore_ErrConcurrencyConflict"
proof (cases "FabricPostgresRepository_GetByCode (repo_faults flt) c (fabrics w)")
  case (Inl e0)
  with assms have "e = e0"
    by (simp add: FabricService_DeleteFabric_def NewFabricCommandService_sel)
  with GetByCode_failure [OF Inl] show ?thesis by auto
next
  case (Inr loaded)
  note active = GetByCode_active [OF Inr]
  obtain fabric r where dom: "Fabric_Delete loaded v = (fabric, r)"
    by (cases "Fabric_Delete loaded v")
  show ?thesis
  proof (cases r)
    case (Some e0)
    with assms Inr dom have "e = e0"
      by (simp add: FabricService_DeleteFabric_def NewFabricCommandService_sel)
    with Fabric_Delete_failure [of loaded v fabric e0] dom Some active
    show ?thesis by auto
  next
    case None
    obtain r2 tbl where del:
      "FabricPostgresRepository_Delete (repo_faults flt) fabric (fabrics w) = (r2, tbl)"
      by (cases "FabricPostgresRepository_Delete (repo_faults flt) fabric (fabrics w)")
    show ?thesis
    proof (cases r2)
      case (Some e0)
      with assms Inr dom None del have "e = Errorf ''failed to delete fabric in repo'' e0"
        by (simp add: FabricService_DeleteFabric_def NewFabricCommandService_sel)
      with Delete_failure [of "repo_faults flt" fabric "fabrics w" e0 tbl] del Some
      show ?thesis by auto
    next
      case None
      with assms Inr dom \<open>r = None\<close> del
      obtain e0 t where
        "PostgresStore_Save (store_faults flt)
           (delete_envelopes rt fabric 0 (Fabric_Events fabric))
           (events_table (w\<lparr>fabrics := tbl\<rparr>)) = (Some e0, t)"
        and "e = Errorf ''failed to save delete event to event store'' e0"
        by (auto simp: FabricService_DeleteFabric_def NewFabricCommandService_sel Let_def
                 split: if_splits option.splits prod.splits)
      with PostgresStore_Save_failure show ?thesis by fastforce
    qed
  qed
qed

lemma handleCreateEvent_returns:
  "fst (FabricEventHandler_handleCreateEvent h rt ctx event eventID w) = Some err \<Longrightarrow>
   \<exists>w1. service_CreateFabric h (Some ''event'') (erp_Code (withDefaults event))
           (erp_Name (withDefaults event)) (erp_MeasureUnit (withDefaults event))
           (erp_OfferStatus (withDefaults event)) w = (Inl err, w1) \<and>
         \<not> errors_Is err ErrDuplicateFabricCode \<and>
         \<not> errors_Is err ErrInvalidFabricCodeLength \<and>
         \<not> errors_Is err ErrInvalidFabricCodePattern \<and>
         \<not> errors_Is err ErrInvalidFabricNameLength"
  by (auto simp: FabricEventHandler_handleCreateEvent_def WithCommandSource_def Let_def
           split: if_splits prod.splits sum.splits)

lemma handleUpdateEvent_returns:
  "fst (FabricEventHandler_handleUpdateEvent h rt ctx event eventID v w) = Some err \<Longrightarrow>
   \<exists>w1. service_UpdateFabric h (Some ''event'') (erp_Code (withDefaults event))
           (erp_Name (withDefaults event)) (erp_MeasureUnit (withDefaults event))
           (erp_OfferStatus (withDefaults event)) (v - 1) w = (Inl err, w1) \<and>
         \<not> errors_Is err ErrRecordNotFound \<and>
         \<not> errors_Is err ErrConcurrencyConflict \<and>
         \<not> errors_Is err ErrInvalidFabricNameLength"
  by (auto simp: FabricEventHandler_handleUpdateEvent_def WithCommandSource_def Let_def
           split: if_splits prod.splits sum.splits)

lemma handleDeleteEvent_returns:
  "fst (FabricEventHandler_handleDeleteEvent h rt ctx event eventID v w) = Some err \<Longrightarrow>
   \<exists>w1. service_DeleteFabric h (Some ''event'') (erp_Code event) v w = (Some err, w1) \<and>
         \<not> errors_Is err ErrRecordNotFound \<and>
         \<not> errors_Is err ErrConcurrencyConflict"
  by (auto simp: FabricEventHandler_handleDeleteEvent_def WithCommandSource_def Let_def
           split: if_splits prod.splits option.splits)

lemma HandleMessage_returns:
  "fst (FabricEventHandler_HandleMessage h rt ctx subject message w) = Some err \<Longrightarrow>
   \<exists>event eventID v.
     fst (FabricEventHandler_handleCreateEvent h rt ctx event eventID w) = Some err \<or>
     fst (FabricEventHandler_handleUpdateEvent h rt ctx event eventID v w) = Some err \<or>
     fst (FabricEventHandler_handleDeleteEvent h rt ctx event eventID v w) = Some err"
  by (auto simp: FabricEventHandler_HandleMessage_def
             FabricEventHandler_adaptEventToCommand_def
           split: option.splits if_splits)

lemma wired_HandleMessage_returns:
  assumes "fst (FabricEventHandler_HandleMessage
                  (Services_FabricCommandService (NewFabricCommandService flt) srt)
                  rt ctx subject message w) = Some err"
  shows "infrastructure_failure err \<or> errors_Is err eventstore_ErrConcurrencyConflict"
proof -
  let ?h = "Services_FabricCommandService (NewFabricCommandService flt) srt"
  from HandleMessage_returns [OF assms] obtain event eventID v where
    "fst (FabricEventHandler_handleCreateEvent ?h rt ctx event eventID w) = Some err \<or>
     fst (FabricEventHandler_handleUpdateEvent ?h rt ctx event eventID v w) = Some err \<or>
     fst (FabricEventHandler_handleDeleteEvent ?h rt ctx event eventID v w) = Some err"
    by blast
  then consider
      (c) "fst (FabricEventHandler_handleCreateEvent ?h rt ctx event eventID w) = Some err"
    | (u) "fst (FabricEventHandler_handleUpdateEvent ?h rt ctx event eventID v w) = Some err"
    | (d) "fst (FabricEventHandler_handleDeleteEvent ?h rt ctx event eventID v w) = Some err"
    by blast
  then show ?thesis
  proof cases
    case c
    from handleCreateEvent_returns [OF c] wired_CreateFabric_failure [of flt srt]
    show ?thesis by (fastforce simp: Services_FabricCommandService_def)
  next
    case u
    from handleUpdateEvent_returns [OF u] wired_UpdateFabric_failure [of flt srt]
    show ?thesis by (fastforce simp: Services_FabricCommandService_def)
  next
    case d
    from handleDeleteEvent_returns [OF d] wired_DeleteFabric_failure [of flt srt]
    show ?thesis by (fastforce simp: Services_FabricCommandService_def)
  qed
qed

text \<open>
  C7, amended. Whatever command service the adapter is given: it returns \<open>nil\<close> when
  the call it makes to \<open>CreateFabric\<close> fails with an error that is
  \<open>domain.ErrDuplicateFabricCode\<close>, and when the call it makes to \<open>UpdateFabric\<close> or
  \<open>DeleteFabric\<close> fails with an error that is \<open>domain.ErrRecordNotFound\<close> or
  \<open>domain.ErrConcurrencyConflict\<close>. With the command service of the wiring (Postgres
  repository, Postgres event store, NATS publisher), under any failures of the
  environment, an error returned by \<open>HandleMessage\<close> is an infrastructure failure (its
  innermost error was reported by the driver) or is the event store's own
  \<open>eventstore.ErrConcurrencyConflict\<close>, which the adapter does not recognise as a
  version conflict.
\<close>

theorem inbound_error_policy:
  "(service_CreateFabric h (Some ''event'') (erp_Code (withDefaults event))
        (erp_Name (withDefaults event)) (erp_MeasureUnit (withDefaults event))
        (erp_OfferStatus (withDefaults event)) w = (Inl err, w1) \<and>
    errors_Is err ErrDuplicateFabricCode
    \<longrightarrow> fst (FabricEventHandler_handleCreateEvent h rt ctx event eventID w) = None) \<and>
   (service_UpdateFabric h (Some ''event'') (erp_Code (withDefaults event))
        (erp_Name (withDefaults event)) (erp_MeasureUnit (withDefaults event))
        (erp_OfferStatus (withDefaults event)) (v - 1) w = (Inl err, w1) \<and>
    (errors_Is err ErrRecordNotFound \<or> errors_Is err ErrConcurrencyConflict)
    \<longrightarrow> fst (FabricEventHandler_handleUpdateEvent h rt ctx event eventID v w) = None) \<and>
   (service_DeleteFabric h (Some ''event'') (erp_Code event) v w = (Some err, w1) \<and>
    (errors_Is err ErrRecordNotFound \<or> errors_Is err ErrConcurrencyConflict)
    \<longrightarrow> fst (FabricEventHandler_handleDeleteEvent h rt ctx event eventID v w) = None) \<and>
   (fst (FabricEventHandler_HandleMessage
           (Services_FabricCommandService (NewFabricCommandService flt) srt)
           hrt ctx subject message ww) = Some returned
    \<longrightarrow> infrastructure_failure returned \<or>
        errors_Is returned eventstore_ErrConcurrencyConflict)"
proof (intro conjI impI)
  assume "service_CreateFabric h (Some ''event'') (erp_Code (withDefaults event))
        (erp_Name (withDefaults event)) (erp_MeasureUnit (withDefaults event))
        (erp_OfferStatus (withDefaults event)) w = (Inl err, w1) \<and>
    errors_Is err ErrDuplicateFabricCode"
  then show "fst (FabricEventHandler_handleCreateEvent h rt ctx event eventID w) = None"
    by (simp add: FabricEventHandler_handleCreateEvent_def WithCommandSource_def Let_def)
next
  assume "service_UpdateFabric h (Some ''event'') (erp_Code (withDefaults event))
        (erp_Name (withDefaults event)) (erp_MeasureUnit (withDefaults event))
        (erp_OfferStatus (withDefaults event)) (v - 1) w = (Inl err, w1) \<and>
    (errors_Is err ErrRecordNotFound \<or> errors_Is err ErrConcurrencyConflict)"
  then show "fst (FabricEventHandler_handleUpdateEvent h rt ctx event eventID v w) = None"
    by (auto simp: FabricEventHandler_handleUpdateEvent_def WithCommandSource_def Let_def)
next
  assume "service_DeleteFabric h (Some ''event'') (erp_Code event) v w = (Some err, w1) \<and>
    (errors_Is err ErrRecordNotFound \<or> errors_Is err ErrConcurrencyConflict)"
  then show "fst (FabricEventHandler_handleDeleteEvent h rt ctx event eventID v w) = None"
    by (auto simp: FabricEventHandler_handleDeleteEvent_def WithCommandSource_def Let_def)
next
  assume "fst (FabricEventHandler_HandleMessage
           (Services_FabricCommandService (NewFabricCommandService flt) srt)
           hrt ctx subject message ww) = Some returned"
  then show "infrastructure_failure returned \<or>
        errors_Is returned eventstore_ErrConcurrencyConflict"
    by (rule wired_HandleMessage_returns)
qed

text \<open>
  C7 as stated fails where the command service fails with the event store's
  \<open>ErrConcurrencyConflict\<close>: the fabrics table holds FAB1 at version 1, the events table
  already holds an event for (FAB1, 2), and an updated event with version 2 arrives. The
  command service updates the row, fails to append the event and returns the wrapped
  \<open>eventstore.ErrConcurrencyConflict\<close>; the adapter returns that error.
\<close>

theorem event_store_conflict_is_returned:
  "FabricService_UpdateFabric (NewFabricCommandService \<lparr>repo_faults = no_faults, store_faults = no_faults, publish_fault = (\<lambda>e. None)\<rparr>)
     (world_runtime (\<lambda>i. ''00000000-0000-4000-8000-000000000000'') (\<lambda>i. 7)) (Some ''event'') ''FAB1'' ''Silk'' ''m'' ''available'' 1
     \<lparr>fabrics = [\<lparr>col_version = 1, col_code = ''FAB1'', col_name = ''Cotton'', col_measure_unit = ''m'', col_offer_status = ''available'', col_status = ''ACTIVE''\<rparr>], events_table = [\<lparr>event_id = ''00000000-0000-4000-8000-000000000007'', aggregate_id = ''FAB1'', aggregate_type = ''fabric'',
        event_type = ''erp.fabric.updated'', aggregate_version = 2,
        payload = FabricUpdated ''FAB1'' ''Silk'' ''m'' ''available'' 2, timestamp = 7, correlation_id = [], user_id = []\<rparr>],
      nats_published = [], log_lines = []\<rparr> =
   (Inl (Errorf ''failed to save update event to event store'' eventstore_ErrConcurrencyConflict),
    \<lparr>fabrics = [\<lparr>col_version = 2, col_code = ''FAB1'', col_name = ''Silk'', col_measure_unit = ''m'', col_offer_status = ''available'', col_status = ''ACTIVE''\<rparr>], events_table = [\<lparr>event_id = ''00000000-0000-4000-8000-000000000007'', aggregate_id = ''FAB1'', aggregate_type = ''fabric'',
        event_type = ''erp.fabric.updated'', aggregate_version = 2,
        payload = FabricUpdated ''FAB1'' ''Silk'' ''m'' ''available'' 2, timestamp = 7, correlation_id = [], user_id = []\<rparr>],
      nats_published = [], log_lines = [(''ERROR'', ''saving update event to event store failed'')]\<rparr>) \<and>
   FabricEventHandler_HandleMessage
     (Services_FabricCommandService (NewFabricCommandService \<lparr>repo_faults = no_faults, store_faults = no_faults, publish_fault = (\<lambda>e. None)\<rparr>)
      (world_runtime (\<lambda>i. ''00000000-0000-4000-8000-000000000000'') (\<lambda>i. 7)))
     (world_runtime (\<lambda>i. ''00000000-0000-4000-8000-000000000000'') (\<lambda>i. 7)) context_Background ''erp.fabric''
     (Some \<lparr>EventID = ''evt-1'', EventType = ''erp.fabric.updated'', AggregateID = ''FAB1'',
        AggregateType = ''fabric'', AggregateVersion = 2, EventVersion = 1, Timestamp = 7,
        CorrelationID = [], CausationID = [], UserID = [],
        Payload = Some (Structured \<lparr>erp_Code = ''FAB1'', erp_Name = ''Silk'', erp_MeasureUnit = ''m'', erp_OfferStatus = ''available''\<rparr>)\<rparr>)
     \<lparr>fabrics = [\<lparr>col_version = 1, col_code = ''FAB1'', col_name = ''Cotton'', col_measure_unit = ''m'', col_offer_status = ''available'', col_status = ''ACTIVE''\<rparr>], events_table = [\<lparr>event_id = ''00000000-0000-4000-8000-000000000007'', aggregate_id = ''FAB1'', aggregate_type = ''fabric'',
        event_type = ''erp.fabric.updated'', aggregate_version = 2,
        payload = FabricUpdated ''FAB1'' ''Silk'' ''m'' ''available'' 2, timestamp = 7, correlation_id = [], user_id = []\<rparr>],
      nats_published = [], log_lines = []\<rparr> =
   (Some (Errorf ''failed to save update event to event store''
            eventstore_ErrConcurrencyConflict),
    \<lparr>fabrics = [\<lparr>col_version = 2, col_code = ''FAB1'', col_name = ''Silk'', col_measure_unit = ''m'', col_offer_status = ''available'', col_status = ''ACTIVE''\<rparr>], events_table = [\<lparr>event_id = ''00000000-0000-4000-8000-000000000007'', aggregate_id = ''FAB1'', aggregate_type = ''fabric'',
        event_type = ''erp.fabric.updated'', aggregate_version = 2,
        payload = FabricUpdated ''FAB1'' ''Silk'' ''m'' ''available'' 2, timestamp = 7, correlation_id = [], user_id = []\<rparr>],
      nats_published = [], log_lines = [(''ERROR'', ''saving update event to event store failed''),
         (''ERROR'', ''Failed to update fabric'')]\<rparr>)"
  by (simp add: eval_defs handler_defs word_sless_alt)

lemma run_create_duplicate:
  "service_CreateFabric
     (Services_FabricCommandService (NewFabricCommandService \<lparr>repo_faults = no_faults, store_faults = no_faults, publish_fault = (\<lambda>e. None)\<rparr>)
      (world_runtime (\<lambda>i. ''00000000-0000-4000-8000-000000000000'') (\<lambda>i. 7)))
     (Some ''event'') ''FAB1'' ''Silk'' ''m'' ''available''
     \<lparr>fabrics = [\<lparr>col_version = 1, col_code = ''FAB1'', col_name = ''Cotton'', col_measure_unit = ''m'', col_offer_status = ''available'', col_status = ''ACTIVE''\<rparr>], events_table = [],
      nats_published = [], log_lines = []\<rparr> =
   (Inl (Errorf ''failed to save fabric'' ErrDuplicateFabricCode),
    \<lparr>fabrics = [\<lparr>col_version = 1, col_code = ''FAB1'', col_name = ''Cotton'', col_measure_unit = ''m'', col_offer_status = ''available'', col_status = ''ACTIVE''\<rparr>], events_table = [],
      nats_published = [], log_lines = [(''ERROR'', ''saving fabric failed'')]\<rparr>)"
  by (simp add: eval_defs handler_defs word_sless_alt)

lemma run_update_not_found:
  "service_UpdateFabric
     (Services_FabricCommandService (NewFabricCommandService \<lparr>repo_faults = no_faults, store_faults = no_faults, publish_fault = (\<lambda>e. None)\<rparr>)
      (world_runtime (\<lambda>i. ''00000000-0000-4000-8000-000000000000'') (\<lambda>i. 7)))
     (Some ''event'') ''FAB1'' ''Silk'' ''m'' ''available'' 1
     \<lparr>fabrics = [], events_table = [],
      nats_published = [], log_lines = []\<rparr> =
   (Inl (Errorf ''fabric with code FAB1 not found'' ErrRecordNotFound),
    \<lparr>fabrics = [], events_table = [],
      nats_published = [], log_lines = []\<rparr>)"
  by (simp add: eval_defs handler_defs word_sless_alt)

lemma run_delete_conflict:
  "service_DeleteFabric
     (Services_FabricCommandService (NewFabricCommandService \<lparr>repo_faults = no_faults, store_faults = no_faults, publish_fault = (\<lambda>e. None)\<rparr>)
      (world_runtime (\<lambda>i. ''00000000-0000-4000-8000-000000000000'') (\<lambda>i. 7)))
     (Some ''event'') ''FAB1'' 5
     \<lparr>fabrics = [\<lparr>col_version = 1, col_code = ''FAB1'', col_name = ''Cotton'', col_measure_unit = ''m'', col_offer_status = ''available'', col_status = ''ACTIVE''\<rparr>], events_table = [],
      nats_published = [], log_lines = []\<rparr> =
   (Some ErrConcurrencyConflict,
    \<lparr>fabrics = [\<lparr>col_version = 1, col_code = ''FAB1'', col_name = ''Cotton'', col_measure_unit = ''m'', col_offer_status = ''available'', col_status = ''ACTIVE''\<rparr>], events_table = [],
      nats_published = [], log_lines = []\<rparr>)"
  by (simp add: eval_defs handler_defs word_sless_alt)

lemma run_update_query_fault:
  "FabricEventHandler_HandleMessage
     (Services_FabricCommandService (NewFabricCommandService \<lparr>repo_faults = no_faults\<lparr>on_query := Some (DriverFailure ''connection reset'')\<rparr>,
      store_faults = no_faults, publish_fault = (\<lambda>e. None)\<rparr>)
      (world_runtime (\<lambda>i. ''00000000-0000-4000-8000-000000000000'') (\<lambda>i. 7)))
     (world_runtime (\<lambda>i. ''00000000-0000-4000-8000-000000000000'') (\<lambda>i. 7)) context_Background ''erp.fabric''
     (Some \<lparr>EventID = ''evt-1'', EventType = ''erp.fabric.updated'', AggregateID = ''FAB1'',
        AggregateType = ''fabric'', AggregateVersion = 2, EventVersion = 1, Timestamp = 7,
        CorrelationID = [], CausationID = [], UserID = [],
        Payload = Some (Structured \<lparr>erp_Code = ''FAB1'', erp_Name = ''Silk'', erp_MeasureUnit = ''m'', erp_OfferStatus = ''available''\<rparr>)\<rparr>)
     \<lparr>fabrics = [\<lparr>col_version = 1, col_code = ''FAB1'', col_name = ''Cotton'', col_measure_unit = ''m'', col_offer_status = ''available'', col_status = ''ACTIVE''\<rparr>], events_table = [],
      nats_published = [], log_lines = []\<rparr> =
   (Some (Errorf ''failed to get fabric by code''
            (DriverError (DriverFailure ''connection reset''))),
    \<lparr>fabrics = [\<lparr>col_version = 1, col_code = ''FAB1'', col_name = ''Cotton'', col_measure_unit = ''m'', col_offer_status = ''available'', col_status = ''ACTIVE''\<rparr>], events_table = [],
      nats_published = [], log_lines = [(''ERROR'', ''Failed to update fabric'')]\<rparr>)"
  by (simp add: eval_defs handler_defs word_sless_alt)

theorem inbound_error_policy_witness:
  "fst (FabricEventHandler_handleCreateEvent
     (Services_FabricCommandService (NewFabricCommandService \<lparr>repo_faults = no_faults, store_faults = no_faults, publish_fault = (\<lambda>e. None)\<rparr>)
      (world_runtime (\<lambda>i. ''00000000-0000-4000-8000-000000000000'') (\<lambda>i. 7)))
     (world_runtime (\<lambda>i. ''00000000-0000-4000-8000-000000000000'') (\<lambda>i. 7)) context_Background
     \<lparr>erp_Code = ''FAB1'', erp_Name = ''Silk'', erp_MeasureUnit = ''m'', erp_OfferStatus = ''available''\<rparr> ''evt-1''
     \<lparr>fabrics = [\<lparr>col_version = 1, col_code = ''FAB1'', col_name = ''Cotton'', col_measure_unit = ''m'', col_offer_status = ''available'', col_status = ''ACTIVE''\<rparr>], events_table = [],
      nats_published = [], log_lines = []\<rparr>) = None \<and>
   fst (FabricEventHandler_handleUpdateEvent
     (Services_FabricCommandService (NewFabricCommandService \<lparr>repo_faults = no_faults, store_faults = no_faults, publish_fault = (\<lambda>e. None)\<rparr>)
      (world_runtime (\<lambda>i. ''00000000-0000-4000-8000-000000000000'') (\<lambda>i. 7)))
     (world_runtime (\<lambda>i. ''00000000-0000-4000-8000-000000000000'') (\<lambda>i. 7)) context_Background
     \<lparr>erp_Code = ''FAB1'', erp_Name = ''Silk'', erp_MeasureUnit = ''m'', erp_OfferStatus = ''available''\<rparr> ''evt-1'' 2
     \<lparr>fabrics = [], events_table = [],
      nats_published = [], log_lines = []\<rparr>) = None \<and>
   fst (FabricEventHandler_handleDeleteEvent
     (Services_FabricCommandService (NewFabricCommandService \<lparr>repo_faults = no_faults, store_faults = no_faults, publish_fault = (\<lambda>e. None)\<rparr>)
      (world_runtime (\<lambda>i. ''00000000-0000-4000-8000-000000000000'') (\<lambda>i. 7)))
     (world_runtime (\<lambda>i. ''00000000-0000-4000-8000-000000000000'') (\<lambda>i. 7)) context_Background
     \<lparr>erp_Code = ''FAB1'', erp_Name = ''Silk'', erp_MeasureUnit = ''m'', erp_OfferStatus = ''available''\<rparr> ''evt-1'' 5
     \<lparr>fabrics = [\<lparr>col_version = 1, col_code = ''FAB1'', col_name = ''Cotton'', col_measure_unit = ''m'', col_offer_status = ''available'', col_status = ''ACTIVE''\<rparr>], events_table = [],
      nats_published = [], log_lines = []\<rparr>) = None \<and>
   fst (FabricEventHandler_HandleMessage
     (Services_FabricCommandService (NewFabricCommandService \<lparr>repo_faults = no_faults\<lparr>on_query := Some (DriverFailure ''connection reset'')\<rparr>,
      store_faults = no_faults, publish_fault = (\<lambda>e. None)\<rparr>)
      (world_runtime (\<lambda>i. ''00000000-0000-4000-8000-000000000000'') (\<lambda>i. 7)))
     (world_runtime (\<lambda>i. ''00000000-0000-4000-8000-000000000000'') (\<lambda>i. 7)) context_Background ''erp.fabric''
     (Some \<lparr>EventID = ''evt-1'', EventType = ''erp.fabric.updated'', AggregateID = ''FAB1'',
        AggregateType = ''fabric'', AggregateVersion = 2, EventVersion = 1, Timestamp = 7,
        CorrelationID = [], CausationID = [], UserID = [],
        Payload = Some (Structured \<lparr>erp_Code = ''FAB1'', erp_Name = ''Silk'', erp_MeasureUnit = ''m'', erp_OfferStatus = ''available''\<rparr>)\<rparr>)
     \<lparr>fabrics = [\<lparr>col_version = 1, col_code = ''FAB1'', col_name = ''Cotton'', col_measure_unit = ''m'', col_offer_status = ''available'', col_status = ''ACTIVE''\<rparr>], events_table = [],
      nats_published = [], log_lines = []\<rparr>) =
   Some (Errorf ''failed to get fabric by code''
           (DriverError (DriverFailure ''connection reset''))) \<and>
   infrastructure_failure
     (Errorf ''failed to get fabric by code''
        (DriverError (DriverFailure ''connection reset'')))"
proof -
  have dflt: "withDefaults \<lparr>erp_Code = ''FAB1'', erp_Name = ''Silk'', erp_MeasureUnit = ''m'', erp_OfferStatus = ''available''\<rparr> =
      \<lparr>erp_Code = ''FAB1'', erp_Name = ''Silk'', erp_MeasureUnit = ''m'', erp_OfferStatus = ''available''\<rparr>"
    by (simp add: withDefaults_def)
  have c: "fst (FabricEventHandler_handleCreateEvent
     (Services_FabricCommandService (NewFabricCommandService \<lparr>repo_faults = no_faults, store_faults = no_faults, publish_fault = (\<lambda>e. None)\<rparr>)
      (world_runtime (\<lambda>i. ''00000000-0000-4000-8000-000000000000'') (\<lambda>i. 7)))
     (world_runtime (\<lambda>i. ''00000000-0000-4000-8000-000000000000'') (\<lambda>i. 7)) context_Background
     \<lparr>erp_Code = ''FAB1'', erp_Name = ''Silk'', erp_MeasureUnit = ''m'', erp_OfferStatus = ''available''\<rparr> ''evt-1''
     \<lparr>fabrics = [\<lparr>col_version = 1, col_code = ''FAB1'', col_name = ''Cotton'', col_measure_unit = ''m'', col_offer_status = ''available'', col_status = ''ACTIVE''\<rparr>], events_table = [],
      nats_published = [], log_lines = []\<rparr>) = None"
    by (rule inbound_error_policy
          [where err = "Errorf ''failed to save fabric'' ErrDuplicateFabricCode"
             and ?w1.0 = "\<lparr>fabrics = [\<lparr>col_version = 1, col_code = ''FAB1'', col_name = ''Cotton'', col_measure_unit = ''m'', col_offer_status = ''available'', col_status = ''ACTIVE''\<rparr>], events_table = [],
      nats_published = [], log_lines = [(''ERROR'', ''saving fabric failed'')]\<rparr>",
           THEN conjunct1, THEN mp])
       (simp add: dflt run_create_duplicate)
  have u: "fst (FabricEventHandler_handleUpdateEvent
     (Services_FabricCommandService (NewFabricCommandService \<lparr>repo_faults = no_faults, store_faults = no_faults, publish_fault = (\<lambda>e. None)\<rparr>)
      (world_runtime (\<lambda>i. ''00000000-0000-4000-8000-000000000000'') (\<lambda>i. 7)))
     (world_runtime (\<lambda>i. ''00000000-0000-4000-8000-000000000000'') (\<lambda>i. 7)) context_Background
     \<lparr>erp_Code = ''FAB1'', erp_Name = ''Silk'', erp_MeasureUnit = ''m'', erp_OfferStatus = ''available''\<rparr> ''evt-1'' 2
     \<lparr>fabrics = [], events_table = [],
      nats_published = [], log_lines = []\<rparr>) = None"
    by (rule inbound_error_policy
          [where err = "Errorf ''fabric with code FAB1 not found'' ErrRecordNotFound"
             and ?w1.0 = "\<lparr>fabrics = [], events_table = [],
      nats_published = [], log_lines = []\<rparr>",
           THEN conjunct2, THEN conjunct1, THEN mp])
       (simp add: dflt run_update_not_found)
  have d: "fst (FabricEventHandler_handleDeleteEvent
     (Services_FabricCommandService (NewFabricCommandService \<lparr>repo_faults = no_faults, store_faults = no_faults, publish_fault = (\<lambda>e. None)\<rparr>)
      (world_runtime (\<lambda>i. ''00000000-0000-4000-8000-000000000000'') (\<lambda>i. 7)))
     (world_runtime (\<lambda>i. ''00000000-0000-4000-8000-000000000000'') (\<lambda>i. 7)) context_Background
     \<lparr>erp_Code = ''FAB1'', erp_Name = ''Silk'', erp_MeasureUnit = ''m'', erp_OfferStatus = ''available''\<rparr> ''evt-1'' 5
     \<lparr>fabrics = [\<lparr>col_version = 1, col_code = ''FAB1'', col_name = ''Cotton'', col_measure_unit = ''m'', col_offer_status = ''available'', col_status = ''ACTIVE''\<rparr>], events_table = [],
      nats_published = [], log_lines = []\<rparr>) = None"
    by (rule inbound_error_policy
          [where err = ErrConcurrencyConflict
             and ?w1.0 = "\<lparr>fabrics = [\<lparr>col_version = 1, col_code = ''FAB1'', col_name = ''Cotton'', col_measure_unit = ''m'', col_offer_status = ''available'', col_status = ''ACTIVE''\<rparr>], events_table = [],
      nats_published = [], log_lines = []\<rparr>",
           THEN conjunct2, THEN conjunct2, THEN conjunct1, THEN mp])
       (simp add: run_delete_conflict)
  have r: "fst (FabricEventHandler_HandleMessage
     (Services_FabricCommandService (NewFabricCommandService \<lparr>repo_faults = no_faults\<lparr>on_query := Some (DriverFailure ''connection reset'')\<rparr>,
      store_faults = no_faults, publish_fault = (\<lambda>e. None)\<rparr>)
      (world_runtime (\<lambda>i. ''00000000-0000-4000-8000-000000000000'') (\<lambda>i. 7)))
     (world_runtime (\<lambda>i. ''00000000-0000-4000-8000-000000000000'') (\<lambda>i. 7)) context_Background ''erp.fabric''
     (Some \<lparr>EventID = ''evt-1'', EventType = ''erp.fabric.updated'', AggregateID = ''FAB1'',
        AggregateType = ''fabric'', AggregateVersion = 2, EventVersion = 1, Timestamp = 7,
        CorrelationID = [], CausationID = [], UserID = [],
        Payload = Some (Structured \<lparr>erp_Code = ''FAB1'', erp_Name = ''Silk'', erp_MeasureUnit = ''m'', erp_OfferStatus = ''available''\<rparr>)\<rparr>)
     \<lparr>fabrics = [\<lparr>col_version = 1, col_code = ''FAB1'', col_name = ''Cotton'', col_measure_unit = ''m'', col_offer_status = ''available'', col_status = ''ACTIVE''\<rparr>], events_table = [],
      nats_published = [], log_lines = []\<rparr>) =
   Some (Errorf ''failed to get fabric by code''
           (DriverError (DriverFailure ''connection reset'')))"
    by (simp add: run_update_query_fault)
  have "infrastructure_failure
     (Errorf ''failed to get fabric by code''
        (DriverError (DriverFailure ''connection reset''))) \<or>
    errors_Is (Errorf ''failed to get fabric by code''
        (DriverError (DriverFailure ''connection reset''))) eventstore_ErrConcurrencyConflict"
    by (rule inbound_error_policy
          [THEN conjunct2, THEN conjunct2, THEN conjunct2, THEN mp, OF r])
  then have i: "infrastructure_failure
     (Errorf ''failed to get fabric by code''
        (DriverError (DriverFailure ''connection reset'')))"
    by simp
  show ?thesis
    by (intro conjI c u d r i)
qed

end
